theory Spec2Isabelle
  imports Main "HOL-Library.Sublist"
begin

section \<open>Strings\<close>

text \<open>
  A JavaScript string is modelled by the list of bytes of its UTF-8 encoding. The byte
  \<open>0x2E\<close> (the dot) never occurs inside a multi-byte sequence, so splitting on the dot
  is the same on code units and on bytes. The content of a file read or written as
  \<open>utf8\<close> is the same byte list.
\<close>

definition dot :: char where
  "dot = CHR ''.''"

definition triple_quote :: string where
  "triple_quote = [CHR 0x27, CHR 0x27, CHR 0x27]"

text \<open>\<^verbatim>\<open>s.split('.')\<close>: the pieces between the dots; never the empty array.\<close>

fun split_dot :: "string \<Rightarrow> string list" where
  "split_dot [] = [] # []"
| "split_dot (c # cs) =
     (if c = dot then [] # split_dot cs
      else (case split_dot cs of
              [] \<Rightarrow> [c] # []
            | p # ps \<Rightarrow> (c # p) # ps))"

text \<open>\<^verbatim>\<open>parts.join('.')\<close>.\<close>

fun join_dot :: "string list \<Rightarrow> string" where
  "join_dot [] = []"
| "join_dot [p] = p"
| "join_dot (p # q # ps) = p @ dot # join_dot (q # ps)"

text \<open>
  \<^verbatim>\<open>parts.pop()\<close>: removes the last element and returns it, or returns
  \<open>undefined\<close> (here \<open>None\<close>) on the empty array.
\<close>

definition pop :: "'a list \<Rightarrow> 'a option \<times> 'a list" where
  "pop xs = (if xs = [] then (None, []) else (Some (last xs), butlast xs))"

text \<open>\<^verbatim>\<open>x || ''\<close> on a value that is a string or \<open>undefined\<close>.\<close>

definition or_empty :: "string option \<Rightarrow> string" where
  "or_empty v = (case v of None \<Rightarrow> [] | Some s \<Rightarrow> (if s = [] then [] else s))"

text \<open>
  The formatters of picocolors, as they are when colours are not supported (each one
  is \<open>String\<close>); the repository's own test compares against the uncoloured message.
\<close>

definition bold :: "string \<Rightarrow> string" where
  "bold s = s"

definition green :: "string \<Rightarrow> string" where
  "green s = s"

definition red :: "string \<Rightarrow> string" where
  "red s = s"

definition yellow :: "string \<Rightarrow> string" where
  "yellow s = s"

definition magenta :: "string \<Rightarrow> string" where
  "magenta s = s"

definition cyan :: "string \<Rightarrow> string" where
  "cyan s = s"

definition blue :: "string \<Rightarrow> string" where
  "blue s = s"

definition gray :: "string \<Rightarrow> string" where
  "gray s = s"

definition white :: "string \<Rightarrow> string" where
  "white s = s"

definition italic :: "string \<Rightarrow> string" where
  "italic s = s"

text \<open>The characters outside ASCII that the messages use, as their UTF-8 bytes.\<close>

definition writing_hand :: string where
  "writing_hand = [CHR 0xE2, CHR 0x9C, CHR 0x8D, CHR 0xEF, CHR 0xB8, CHR 0x8F]"

definition party_popper :: string where
  "party_popper = [CHR 0xF0, CHR 0x9F, CHR 0x8E, CHR 0x89]"

definition check_mark :: string where
  "check_mark = [CHR 0xE2, CHR 0x9C, CHR 0x85]"

definition cross_mark :: string where
  "cross_mark = [CHR 0xE2, CHR 0x9D, CHR 0x8C]"

definition sparkles :: string where
  "sparkles = [CHR 0xE2, CHR 0x9C, CHR 0xA8]"

definition palette :: string where
  "palette = [CHR 0xF0, CHR 0x9F, CHR 0x8E, CHR 0xA8]"

definition bug :: string where
  "bug = [CHR 0xF0, CHR 0x9F, CHR 0x90, CHR 0x9B]"

definition collision :: string where
  "collision = [CHR 0xF0, CHR 0x9F, CHR 0x92, CHR 0xA5]"

definition clipboard :: string where
  "clipboard = [CHR 0xF0, CHR 0x9F, CHR 0x93, CHR 0x8B]"

definition magnifier :: string where
  "magnifier = [CHR 0xF0, CHR 0x9F, CHR 0x94, CHR 0x8D]"

definition direct_hit :: string where
  "direct_hit = [CHR 0xF0, CHR 0x9F, CHR 0x8E, CHR 0xAF]"

definition books :: string where
  "books = [CHR 0xF0, CHR 0x9F, CHR 0x93, CHR 0x9A]"

definition light_bulb :: string where
  "light_bulb = [CHR 0xF0, CHR 0x9F, CHR 0x92, CHR 0xA1]"

definition bullet :: string where
  "bullet = [CHR 0xE2, CHR 0x80, CHR 0xA2]"

text \<open>\<^verbatim>\<open>s.repeat(n)\<close>, and the horizontal rule of the messages.\<close>

definition repeat :: "string \<Rightarrow> nat \<Rightarrow> string" where
  "repeat s n = concat (replicate n s)"

definition box_line :: string where
  "box_line = [CHR 0xE2, CHR 0x94, CHR 0x80]"

section \<open>The file system\<close>

text \<open>
  \<open>fs/promises\<close> is the environment: a file system is the content of each existing
  path, and the paths at which an operation is refused (a missing directory, no
  permission, a full disk) with the text of the system error.
\<close>

datatype io_error = IOError string

record filesystem =
  files :: "string \<rightharpoonup> string"
  refused :: "string \<rightharpoonup> string"

definition readFile :: "filesystem \<Rightarrow> string \<Rightarrow> io_error + string" where
  "readFile fs path =
     (case refused fs path of
        Some msg \<Rightarrow> Inl (IOError msg)
      | None \<Rightarrow>
          (case files fs path of
             None \<Rightarrow>
               Inl (IOError (''ENOENT: no such file or directory, open ''
                              @ [CHR 0x27] @ path @ [CHR 0x27]))
           | Some content \<Rightarrow> Inr content))"

definition writeFile :: "filesystem \<Rightarrow> string \<Rightarrow> string \<Rightarrow> io_error + filesystem" where
  "writeFile fs path content =
     (case refused fs path of
        Some msg \<Rightarrow> Inl (IOError msg)
      | None \<Rightarrow> Inr (fs\<lparr>files := (files fs)(path \<mapsto> content)\<rparr>))"

text \<open>\<^verbatim>\<open>`${error}`\<close> on the error of a rejected file operation.\<close>

fun io_error_toString :: "io_error \<Rightarrow> string" where
  "io_error_toString (IOError msg) = ''Error: '' @ msg"

text \<open>\<^verbatim>\<open>try { body } catch (error) { handler }\<close> around a computation that may throw.\<close>

definition try_catch :: "('e + 'a) \<Rightarrow> ('e \<Rightarrow> 'e + 'a) \<Rightarrow> 'e + 'a" where
  "try_catch body handler = (case body of Inl e \<Rightarrow> handler e | Inr v \<Rightarrow> Inr v)"

section \<open>The writer\<close>

text \<open>
  The path computed in \<open>writeTextFile\<close>; the edit command passes \<open>_edited.\<close> and
  the fix command \<open>_fixed.\<close>.
\<close>

definition flPath :: "string \<Rightarrow> string \<Rightarrow> string" where
  "flPath sfx filePath =
     (let (popped, parts) = pop (split_dot filePath);
          extension = or_empty popped;
          flName = join_dot parts
      in flName @ sfx @ extension)"

definition edit_writeTextFile ::
  "filesystem \<Rightarrow> string \<Rightarrow> string \<Rightarrow> io_error + (string \<times> filesystem)" where
  "edit_writeTextFile fs filePath content =
     try_catch
       (case writeFile fs (flPath ''_edited.'' filePath) content of
          Inl error \<Rightarrow> Inl error
        | Inr fs' \<Rightarrow>
            Inr (''Successfully edited your file! Find the edited version at: ''
                   @ green (bold (flPath ''_edited.'' filePath)), fs'))
       (\<lambda>error. Inr (''Error creating the edited file: '' @ io_error_toString error, fs))"

definition fix_writeTextFile ::
  "filesystem \<Rightarrow> string \<Rightarrow> string \<Rightarrow> io_error + (string \<times> filesystem)" where
  "fix_writeTextFile fs filePath content =
     try_catch
       (case writeFile fs (flPath ''_fixed.'' filePath) content of
          Inl error \<Rightarrow> Inl error
        | Inr fs' \<Rightarrow>
            Inr (''Successfully fixed your file! Find the fixed version at: ''
                   @ green (bold (flPath ''_fixed.'' filePath)), fs'))
       (\<lambda>error. Inr (''Error creating the edited file: '' @ io_error_toString error, fs))"

section \<open>Structured responses\<close>

text \<open>
  \<open>JSON.parse\<close> is a builtin: the text of a model response is represented by what
  \<open>JSON.parse\<close> makes of it, either a syntax error or a value. A number keeps its
  literal; an object is the list of its own properties.
\<close>

datatype json =
    JNull
  | JBool bool
  | JNumber string
  | JString string
  | JArray "json list"
  | JObject "(string \<times> json) list"

datatype message_content = NotJSON string | JSON json

datatype zod_issue = ZodIssue (issue_path: "string list") (issue_message: string)

datatype error =
    IO io_error
  | SyntaxError string
  | ZodError (errors: "zod_issue list")
  | APIError string

fun JSON_parse :: "message_content \<Rightarrow> error + json" where
  "JSON_parse (NotJSON text) = Inl (SyntaxError text)"
| "JSON_parse (JSON v) = Inr v"

text \<open>
  \<^verbatim>\<open>String(n)\<close> for a non-negative integer: its decimal digits. \<open>digit\<close> is
  only applied to numbers below ten.
\<close>

definition digit :: "nat \<Rightarrow> char" where
  "digit d = ''0123456789'' ! d"

fun show_nat :: "nat \<Rightarrow> string" where
  "show_nat n = (if n < 10 then [digit n] else show_nat (n div 10) @ [digit (n mod 10)])"

declare show_nat.simps [simp del]

text \<open>
  zod 3, as far as the schemas of the repository use it: \<open>z.string()\<close>,
  \<open>z.boolean()\<close>, \<open>z.array(z.string())\<close> and \<open>z.object\<close> over them. A value
  of the wrong type is one issue, with the path of the field and the message of the default
  error map; a missing key reads as \<open>undefined\<close> (here \<open>None\<close>) and gives
  \<open>Required\<close>; the issues of all fields are collected; unknown keys are dropped.
\<close>

fun parsed_type :: "json \<Rightarrow> string" where
  "parsed_type JNull = ''null''"
| "parsed_type (JBool b) = ''boolean''"
| "parsed_type (JNumber n) = ''number''"
| "parsed_type (JString s) = ''string''"
| "parsed_type (JArray xs) = ''array''"
| "parsed_type (JObject kvs) = ''object''"

definition invalid_type :: "string list \<Rightarrow> string \<Rightarrow> json option \<Rightarrow> zod_issue" where
  "invalid_type path expected received =
     ZodIssue path
       (case received of
          None \<Rightarrow> ''Required''
        | Some v \<Rightarrow> ''Expected '' @ expected @ '', received '' @ parsed_type v)"

fun z_string :: "string list \<Rightarrow> json option \<Rightarrow> zod_issue list + string" where
  "z_string path (Some (JString s)) = Inr s"
| "z_string path v = Inl [invalid_type path ''string'' v]"

fun z_boolean :: "string list \<Rightarrow> json option \<Rightarrow> zod_issue list + bool" where
  "z_boolean path (Some (JBool b)) = Inr b"
| "z_boolean path v = Inl [invalid_type path ''boolean'' v]"

fun issues_of :: "zod_issue list + 'a \<Rightarrow> zod_issue list" where
  "issues_of (Inl issues) = issues"
| "issues_of (Inr v) = []"

text \<open>The elements of an array of strings, from index \<open>i\<close> on.\<close>

fun z_strings_from :: "string list \<Rightarrow> nat \<Rightarrow> json list \<Rightarrow> zod_issue list + string list" where
  "z_strings_from path i [] = Inr []"
| "z_strings_from path i (x # xs) =
     (case (z_string (path @ [show_nat i]) (Some x), z_strings_from path (Suc i) xs) of
        (Inr s, Inr ss) \<Rightarrow> Inr (s # ss)
      | (r, rs) \<Rightarrow> Inl (issues_of r @ issues_of rs))"

fun z_array_string :: "string list \<Rightarrow> json option \<Rightarrow> zod_issue list + string list" where
  "z_array_string path (Some (JArray xs)) = z_strings_from path 0 xs"
| "z_array_string path v = Inl [invalid_type path ''array'' v]"

fun z_object :: "json \<Rightarrow> zod_issue list + (string \<rightharpoonup> json)" where
  "z_object (JObject kvs) = Inr (map_of kvs)"
| "z_object v = Inl [invalid_type [] ''object'' (Some v)]"

record code_response = code_content :: string

record judging_response =
  pass :: bool
  feedback :: string

record error_response =
  error_explanation :: string
  proposed_fix :: string

record fix_response = fixed_content :: string

record AnalysisResult =
  code_overview :: string
  focal_points :: "string list"
  core_concepts_to_learn :: "string list"
  extra_information :: string

definition CODE_SCHEMA_parse :: "json \<Rightarrow> error + code_response" where
  "CODE_SCHEMA_parse data =
     (case z_object data of
        Inl issues \<Rightarrow> Inl (ZodError issues)
      | Inr obj \<Rightarrow>
          (case z_string [''code_content''] (obj ''code_content'') of
             Inr c \<Rightarrow> Inr \<lparr>code_content = c\<rparr>
           | Inl issues \<Rightarrow> Inl (ZodError issues)))"

definition JUDGING_SCHEMA_parse :: "json \<Rightarrow> error + judging_response" where
  "JUDGING_SCHEMA_parse data =
     (case z_object data of
        Inl issues \<Rightarrow> Inl (ZodError issues)
      | Inr obj \<Rightarrow>
          (case (z_boolean [''pass''] (obj ''pass''), z_string [''feedback''] (obj ''feedback'')) of
             (Inr p, Inr f) \<Rightarrow> Inr \<lparr>pass = p, feedback = f\<rparr>
           | (p, f) \<Rightarrow> Inl (ZodError (issues_of p @ issues_of f))))"

definition ERROR_SCHEMA_parse :: "json \<Rightarrow> error + error_response" where
  "ERROR_SCHEMA_parse data =
     (case z_object data of
        Inl issues \<Rightarrow> Inl (ZodError issues)
      | Inr obj \<Rightarrow>
          (case (z_string [''error_explanation''] (obj ''error_explanation''),
                 z_string [''proposed_fix''] (obj ''proposed_fix'')) of
             (Inr e, Inr p) \<Rightarrow> Inr \<lparr>error_explanation = e, proposed_fix = p\<rparr>
           | (e, p) \<Rightarrow> Inl (ZodError (issues_of e @ issues_of p))))"

definition FIX_SCHEMA_parse :: "json \<Rightarrow> error + fix_response" where
  "FIX_SCHEMA_parse data =
     (case z_object data of
        Inl issues \<Rightarrow> Inl (ZodError issues)
      | Inr obj \<Rightarrow>
          (case z_string [''fixed_content''] (obj ''fixed_content'') of
             Inr c \<Rightarrow> Inr \<lparr>fixed_content = c\<rparr>
           | Inl issues \<Rightarrow> Inl (ZodError issues)))"

definition SCHEMA_parse :: "json \<Rightarrow> error + AnalysisResult" where
  "SCHEMA_parse data =
     (case z_object data of
        Inl issues \<Rightarrow> Inl (ZodError issues)
      | Inr obj \<Rightarrow>
          (case (z_string [''code_overview''] (obj ''code_overview''),
                 z_array_string [''focal_points''] (obj ''focal_points''),
                 z_array_string [''core_concepts_to_learn''] (obj ''core_concepts_to_learn''),
                 z_string [''extra_information''] (obj ''extra_information'')) of
             (Inr ov, Inr fp, Inr cc, Inr ex) \<Rightarrow>
               Inr \<lparr>code_overview = ov, focal_points = fp,
                    core_concepts_to_learn = cc, extra_information = ex\<rparr>
           | (ov, fp, cc, ex) \<Rightarrow>
               Inl (ZodError (issues_of ov @ issues_of fp @ issues_of cc @ issues_of ex))))"

section \<open>The model backend, the logger and the world\<close>

datatype response_format = CODE_SCHEMA | JUDGING_SCHEMA | ERROR_SCHEMA | FIX_SCHEMA | SCHEMA

record chat_request =
  model :: string
  system_content :: string
  user_content :: string
  responseFormat :: response_format

text \<open>
  The backend is any function from the requests made so far and the present request to
  the outcome of the call: a rejection, or the content of the returned message.
\<close>

type_synonym llm = "chat_request list \<Rightarrow> chat_request \<Rightarrow> error + message_content"

datatype log_entry =
    logger_log string
  | logger_error string
  | logger_error_with string error

record world =
  disk :: filesystem
  calls :: "chat_request list"
  logs :: "log_entry list"

definition chat :: "llm \<Rightarrow> world \<Rightarrow> chat_request \<Rightarrow> (error + message_content) \<times> world" where
  "chat backend w request = (backend (calls w) request, w\<lparr>calls := calls w @ [request]\<rparr>)"

definition log :: "world \<Rightarrow> log_entry \<Rightarrow> world" where
  "log w entry = w\<lparr>logs := logs w @ [entry]\<rparr>"

text \<open>
  \<open>readTextFile\<close>, the same function in the three commands: it awaits \<open>readFile\<close>
  with no handler around it.
\<close>

definition readTextFile :: "filesystem \<Rightarrow> string \<Rightarrow> error + string" where
  "readTextFile fs filePath =
     (case readFile fs filePath of
        Inl e \<Rightarrow> Inl (IO e)
      | Inr content \<Rightarrow> Inr content)"

section \<open>The workflow runtime\<close>

text \<open>
  A run of a workflow ends when the consumer of the stream receives the result event and
  breaks, or when a handler rejects: no code of the repository catches the rejection
  of a handler, so the run stops there with that error.
\<close>

datatype outcome = Completed | Rejected error

text \<open>
  The state of a workflow context. The fields that the edit and the fix command share
  are declared once, and each command extends them with its own.
\<close>

record session =
  generatedContent :: string
  filePath :: string
  codeLanguage :: string
  numIterations :: nat
  maxIterations :: nat

section \<open>The edit command\<close>

record edit_state = session +
  feature :: string
  implementationDetails :: string

definition edit_initial :: edit_state where
  "edit_initial =
     \<lparr>generatedContent = [], filePath = [], codeLanguage = [],
      numIterations = 0, maxIterations = 3,
      feature = [], implementationDetails = []\<rparr>"

text \<open>
  The events, with the fields of their data in the order of the declarations:
  the start event carries \<open>filePath\<close>, \<open>feature\<close>, \<open>implementationDetails\<close>
  and \<open>codeLanguage\<close>; the judging event \<open>pass\<close> and \<open>feedback\<close>.
\<close>

datatype edit_event =
    EditStartEvent string string string string
  | EditGenerationEvent string
  | EditJudgingEvent bool string
  | EditWritingEvent string
  | EditResultEvent string

definition edit_generation_request :: "string \<Rightarrow> string \<Rightarrow> string \<Rightarrow> string \<Rightarrow> string \<Rightarrow> chat_request" where
  "edit_generation_request path feat details language fileContent =
     \<lparr>model = ''gpt-4.1'',
      system_content =
        ''You are an expert '' @ language @ '' programmer. Your task is to generate high-quality code following the feature request and implementation details that are provided to you by the user. Please output only the code.'',
      user_content =
        ''I am working as a '' @ language @ '' developer and I would like to edit '' @ path
        @ '' with this feature: '' @ feat @ ''; following these implementation details: '' @ details
        @ ''. This is the content of the file you should edit for me:\<newline>\<newline>'' @ triple_quote
        @ ''\<newline>'' @ fileContent @ ''\<newline>'' @ triple_quote
        @ ''\<newline>\<newline>. Please generate the edited code.'',
      responseFormat = CODE_SCHEMA\<rparr>"

definition edit_judging_request :: "edit_state \<Rightarrow> string \<Rightarrow> chat_request" where
  "edit_judging_request state content =
     \<lparr>model = ''gpt-4.1-mini'',
      system_content =
        ''You are an expert '' @ codeLanguage state
        @ '' programmer. Your task is to judge the quality of a code that should implement this feature: ''
        @ feature state @ '' with these implementation details: '' @ implementationDetails state
        @ ''. You should output wether the code passes or not your evaluation, and the feedback on the code.'',
      user_content = content,
      responseFormat = JUDGING_SCHEMA\<rparr>"

definition edit_startEvent_handler ::
  "llm \<Rightarrow> world \<Rightarrow> edit_state \<Rightarrow> string \<Rightarrow> string \<Rightarrow> string \<Rightarrow> string
     \<Rightarrow> (error + edit_event) \<times> world \<times> edit_state" where
  "edit_startEvent_handler backend w state path feat details language =
     (case readTextFile (disk w) path of
        Inl e \<Rightarrow> (Inl e, w, state)
      | Inr fileContent \<Rightarrow>
          (case chat backend w (edit_generation_request path feat details language fileContent) of
             (Inl e, w1) \<Rightarrow> (Inl e, w1, state)
           | (Inr content, w1) \<Rightarrow>
               (case JSON_parse content of
                  Inl e \<Rightarrow> (Inl e, w1, state)
                | Inr jsonResponse \<Rightarrow>
                    (case CODE_SCHEMA_parse jsonResponse of
                       Inl e \<Rightarrow> (Inl e, w1, state)
                     | Inr schemaResponse \<Rightarrow>
                         (let state1 = state
                                \<lparr>numIterations := numIterations state + 1,
                                 filePath := path,
                                 codeLanguage := language,
                                 generatedContent := code_content schemaResponse,
                                 feature := feat,
                                 implementationDetails := details\<rparr>
                          in if numIterations state1 > maxIterations state1
                             then (Inr (EditWritingEvent (code_content schemaResponse)), w1, state1)
                             else (Inr (EditGenerationEvent (code_content schemaResponse)), w1, state1))))))"

definition edit_generationEvent_handler ::
  "llm \<Rightarrow> world \<Rightarrow> edit_state \<Rightarrow> string \<Rightarrow> (error + edit_event) \<times> world \<times> edit_state" where
  "edit_generationEvent_handler backend w state content =
     (case chat backend w (edit_judging_request state content) of
        (Inl e, w1) \<Rightarrow> (Inl e, w1, state)
      | (Inr judgeContent, w1) \<Rightarrow>
          (case JSON_parse judgeContent of
             Inl e \<Rightarrow> (Inl e, w1, state)
           | Inr jsonResponse \<Rightarrow>
               (case JUDGING_SCHEMA_parse jsonResponse of
                  Inl e \<Rightarrow> (Inl e, w1, state)
                | Inr schemaResponse \<Rightarrow>
                    (Inr (EditJudgingEvent (pass schemaResponse) (feedback schemaResponse)), w1, state))))"

definition edit_retry_details :: "string \<Rightarrow> string \<Rightarrow> string" where
  "edit_retry_details generated fb =
     ''Your previous implementation:\<newline>\<newline>'' @ triple_quote @ ''\<newline>'' @ generated
     @ ''\<newline>'' @ triple_quote
     @ ''\<newline>\<newline>Did not pass the evaluation, and this is the feedback on it: '' @ fb"

definition edit_judgingEvent_handler ::
  "world \<Rightarrow> edit_state \<Rightarrow> bool \<Rightarrow> string \<Rightarrow> (error + edit_event) \<times> world \<times> edit_state" where
  "edit_judgingEvent_handler w state passed fb =
     (if passed then (Inr (EditWritingEvent (generatedContent state)), w, state)
      else (Inr (EditStartEvent (filePath state) (feature state)
                   (edit_retry_details (generatedContent state) fb) (codeLanguage state)), w, state))"

definition edit_writingEvent_handler ::
  "world \<Rightarrow> edit_state \<Rightarrow> string \<Rightarrow> (error + edit_event) \<times> world \<times> edit_state" where
  "edit_writingEvent_handler w state content =
     (case edit_writeTextFile (disk w) (filePath state) content of
        Inl e \<Rightarrow> (Inl (IO e), w, state)
      | Inr (msg, fs') \<Rightarrow> (Inr (EditResultEvent msg), w\<lparr>disk := fs'\<rparr>, state))"

text \<open>
  A configuration of a run: the world, the state of the context, the counter
  \<open>iteration\<close> of \<open>runWorkflow\<close>, the events the consumer has received, and the
  event the stream yields next.
\<close>

type_synonym edit_config = "world \<times> edit_state \<times> nat \<times> edit_event list \<times> edit_event"

type_synonym edit_result = "outcome \<times> world \<times> edit_state \<times> edit_event list"

fun edit_next ::
  "(error + edit_event) \<times> world \<times> edit_state \<Rightarrow> nat \<Rightarrow> edit_event list
     \<Rightarrow> edit_result + edit_config" where
  "edit_next (Inl e, w, state) iteration seen = Inl (Rejected e, w, state, seen)"
| "edit_next (Inr event, w, state) iteration seen = Inr (w, state, iteration, seen, event)"

text \<open>
  One turn of the \<open>for await\<close> loop of \<open>runWorkflow\<close> on the event the stream yields,
  together with the handler that the workflow runs on that event.
\<close>

fun edit_step :: "llm \<Rightarrow> edit_config \<Rightarrow> edit_result + edit_config" where
  "edit_step backend (w, state, iteration, seen, EditStartEvent path feat details language) =
     edit_next
       (edit_startEvent_handler backend
          (log (log w (logger_log (''Started round '' @ green (bold (show_nat (iteration + 1)))
                                     @ '' of editing'' @ writing_hand)))
               (logger_log []))
          state path feat details language)
       (iteration + 1) (seen @ [EditStartEvent path feat details language])"
| "edit_step backend (w, state, iteration, seen, EditGenerationEvent content) =
     edit_next
       (edit_generationEvent_handler backend
          (log (log w (logger_log (yellow (bold (''File has been edited!'' @ party_popper)))))
               (logger_log []))
          state content)
       iteration (seen @ [EditGenerationEvent content])"
| "edit_step backend (w, state, iteration, seen, EditJudgingEvent passed fb) =
     edit_next
       (edit_judgingEvent_handler
          (log (if passed
                then log w (logger_log (''Evaluation: '' @ green (bold ''PASS'') @ check_mark))
                else log (log w (logger_log (''Evaluation: '' @ red (bold ''FAIL'') @ cross_mark)))
                         (logger_log (''Reasons: '' @ fb)))
               (logger_log []))
          state passed fb)
       iteration (seen @ [EditJudgingEvent passed fb])"
| "edit_step backend (w, state, iteration, seen, EditWritingEvent content) =
     edit_next
       (edit_writingEvent_handler
          (log (log w (logger_log (magenta (italic ''Writing your file...''))))
               (logger_log []))
          state content)
       iteration (seen @ [EditWritingEvent content])"
| "edit_step backend (w, state, iteration, seen, EditResultEvent message) =
     Inl (Completed, log w (logger_log message), state, seen @ [EditResultEvent message])"

text \<open>The loop stops for every backend: each turn lowers this number.\<close>

fun edit_rank :: "edit_event \<Rightarrow> nat" where
  "edit_rank (EditStartEvent path feat details language) = 2"
| "edit_rank (EditGenerationEvent content) = 4"
| "edit_rank (EditJudgingEvent passed fb) = 3"
| "edit_rank (EditWritingEvent content) = 1"
| "edit_rank (EditResultEvent message) = 0"

definition edit_measure :: "edit_config \<Rightarrow> nat" where
  "edit_measure c =
     (case c of (w, state, iteration, seen, event) \<Rightarrow>
        4 * (maxIterations state + 1 - numIterations state) + edit_rank event)"

lemma edit_step_decreases:
  "edit_step backend c = Inr c' \<Longrightarrow> edit_measure c' < edit_measure c"
proof -
  assume step: "edit_step backend c = Inr c'"
  obtain w state iteration seen event where c: "c = (w, state, iteration, seen, event)"
    by (cases c) auto
  show ?thesis
  proof (cases event)
    case (EditStartEvent path feat details language)
    with step c show ?thesis
      by (auto simp: edit_measure_def edit_startEvent_handler_def chat_def Let_def
               split: sum.splits prod.splits if_splits)
  next
    case (EditGenerationEvent content)
    with step c show ?thesis
      by (auto simp: edit_measure_def edit_generationEvent_handler_def chat_def
               split: sum.splits prod.splits if_splits)
  next
    case (EditJudgingEvent passed fb)
    with step c show ?thesis
      by (auto simp: edit_measure_def edit_judgingEvent_handler_def
               split: sum.splits prod.splits if_splits)
  next
    case (EditWritingEvent content)
    with step c show ?thesis
      by (auto simp: edit_measure_def edit_writingEvent_handler_def
               split: sum.splits prod.splits if_splits)
  next
    case (EditResultEvent message)
    with step c show ?thesis by simp
  qed
qed

function edit_loop :: "llm \<Rightarrow> edit_config \<Rightarrow> edit_result" where
  "edit_loop backend c =
     (case edit_step backend c of
        Inl r \<Rightarrow> r
      | Inr c' \<Rightarrow> edit_loop backend c')"
  by pat_completeness auto
termination
  by (relation "measure (\<lambda>(backend, c). edit_measure c)") (auto dest: edit_step_decreases)

declare edit_loop.simps [simp del]

definition edit_runWorkflow ::
  "llm \<Rightarrow> world \<Rightarrow> string \<Rightarrow> string \<Rightarrow> string \<Rightarrow> string \<Rightarrow> edit_result" where
  "edit_runWorkflow backend w path feat details language =
     edit_loop backend (w, edit_initial, 0, [], EditStartEvent path feat details language)"

text \<open>
  The command handler: the four answers of the prompts are its inputs, in the order in
  which it asks for them.
\<close>

definition edit_handler :: "llm \<Rightarrow> world \<Rightarrow> string \<Rightarrow> string \<Rightarrow> string \<Rightarrow> string \<Rightarrow> edit_result" where
  "edit_handler backend w language path userFeature userImpDet =
     edit_runWorkflow backend
       (log (log (log w (logger_log (gray (repeat box_line 50))))
                 (logger_log (bold (cyan (sparkles @ '' Starting the editing process... Almost ready! ''
                                            @ palette)))))
            (logger_log []))
       path userFeature userImpDet language"

section \<open>The fix command\<close>

record fix_state = session +
  fileContent :: string
  error :: string
  errorDetails :: string

definition fix_initial :: fix_state where
  "fix_initial =
     \<lparr>generatedContent = [], filePath = [], codeLanguage = [],
      numIterations = 0, maxIterations = 3,
      fileContent = [], error = [], errorDetails = []\<rparr>"

text \<open>
  The events: the start event carries \<open>filePath\<close>, \<open>error\<close>, \<open>errorDetails\<close> and
  \<open>codeLanguage\<close>; the error evaluation event \<open>error_explanation\<close> and
  \<open>proposed_fix\<close>; the judging event \<open>pass\<close> and \<open>feedback\<close>.
\<close>

datatype fix_event =
    FixStartEvent string string string string
  | FixErrorEvaluationEvent string string
  | FixGenerationEvent string
  | FixJudgingEvent bool string
  | FixWritingEvent string
  | FixResultEvent string

definition fix_evaluation_request :: "string \<Rightarrow> string \<Rightarrow> string \<Rightarrow> string \<Rightarrow> string \<Rightarrow> chat_request" where
  "fix_evaluation_request path err details language content =
     \<lparr>model = ''gpt-4.1'',
      system_content =
        ''You are an expert '' @ language
        @ '' programmer. Your task is to provide an error explanation and to detail a potential error fixing solution.'',
      user_content =
        ''I am working as a '' @ language @ '' developer and I would  like to fix '' @ path
        @ '' because of this error: '' @ err @ ''. These are some error details: '' @ details
        @ ''. This is the content of the file you should edit for me:\<newline>\<newline>'' @ triple_quote
        @ ''\<newline>'' @ content @ ''\<newline>'' @ triple_quote
        @ ''\<newline>\<newline>. Please generate the edited code.'',
      responseFormat = ERROR_SCHEMA\<rparr>"

definition fix_generation_request :: "fix_state \<Rightarrow> string \<Rightarrow> string \<Rightarrow> chat_request" where
  "fix_generation_request state explanation proposed =
     \<lparr>model = ''gpt-4.1'',
      system_content =
        ''You are an expert '' @ codeLanguage state
        @ '' programmer. Your task is to generate high quality code that fixes errors based on the error explanation and on a proposed fix.'',
      user_content =
        ''An error is occurring in '' @ filePath state @ '', that is defined as follows:\<newline>\<newline>''
        @ triple_quote @ ''\<newline>'' @ fileContent state @ ''\<newline>'' @ triple_quote
        @ ''\<newline>\<newline>. The error is '' @ error state
        @ '' and there are some details on it: '' @ errorDetails state
        @ ''. A potential error explanation is: '' @ explanation
        @ ''. I am proposing the following fix: '' @ proposed @ ''. Could you implement it?'',
      responseFormat = FIX_SCHEMA\<rparr>"

definition fix_judging_request :: "fix_state \<Rightarrow> string \<Rightarrow> chat_request" where
  "fix_judging_request state content =
     \<lparr>model = ''gpt-4o'',
      system_content =
        ''You are an expert '' @ codeLanguage state
        @ '' programmer. Your task is to judge the quality of a code that should fix this feature: ''
        @ error state @ '' with these error details: '' @ errorDetails state
        @ ''. You should output wether the code passes or not your evaluation, and the feedback on the code.'',
      user_content = content,
      responseFormat = JUDGING_SCHEMA\<rparr>"

definition fix_startEvent_handler ::
  "llm \<Rightarrow> world \<Rightarrow> fix_state \<Rightarrow> string \<Rightarrow> string \<Rightarrow> string \<Rightarrow> string
     \<Rightarrow> (error + fix_event) \<times> world \<times> fix_state" where
  "fix_startEvent_handler backend w state path err details language =
     (case readTextFile (disk w) path of
        Inl e \<Rightarrow> (Inl e, w, state)
      | Inr content \<Rightarrow>
          (case chat backend w (fix_evaluation_request path err details language content) of
             (Inl e, w1) \<Rightarrow> (Inl e, w1, state)
           | (Inr response, w1) \<Rightarrow>
               (case JSON_parse response of
                  Inl e \<Rightarrow> (Inl e, w1, state)
                | Inr jsonResponse \<Rightarrow>
                    (case ERROR_SCHEMA_parse jsonResponse of
                       Inl e \<Rightarrow> (Inl e, w1, state)
                     | Inr schemaResponse \<Rightarrow>
                         (Inr (FixErrorEvaluationEvent (error_explanation schemaResponse)
                                 (proposed_fix schemaResponse)),
                          w1,
                          state\<lparr>filePath := path,
                                codeLanguage := language,
                                error := err,
                                errorDetails := details,
                                fileContent := content\<rparr>)))))"

definition fix_errorEvaluationEvent_handler ::
  "llm \<Rightarrow> world \<Rightarrow> fix_state \<Rightarrow> string \<Rightarrow> string \<Rightarrow> (error + fix_event) \<times> world \<times> fix_state" where
  "fix_errorEvaluationEvent_handler backend w state0 explanation proposed =
     (let state = state0\<lparr>numIterations := numIterations state0 + 1\<rparr> in
      case chat backend w (fix_generation_request state explanation proposed) of
        (Inl e, w1) \<Rightarrow> (Inl e, w1, state)
      | (Inr response, w1) \<Rightarrow>
          (case JSON_parse response of
             Inl e \<Rightarrow> (Inl e, w1, state)
           | Inr jsonResponse \<Rightarrow>
               (case FIX_SCHEMA_parse jsonResponse of
                  Inl e \<Rightarrow> (Inl e, w1, state)
                | Inr schemaResponse \<Rightarrow>
                    (let state1 = state\<lparr>generatedContent := fixed_content schemaResponse\<rparr>
                     in if numIterations state1 > maxIterations state1
                        then (Inr (FixWritingEvent (fixed_content schemaResponse)), w1, state1)
                        else (Inr (FixGenerationEvent (fixed_content schemaResponse)), w1, state1)))))"

definition fix_generationEvent_handler ::
  "llm \<Rightarrow> world \<Rightarrow> fix_state \<Rightarrow> string \<Rightarrow> (error + fix_event) \<times> world \<times> fix_state" where
  "fix_generationEvent_handler backend w state content =
     (case chat backend w (fix_judging_request state content) of
        (Inl e, w1) \<Rightarrow> (Inl e, w1, state)
      | (Inr judgeContent, w1) \<Rightarrow>
          (case JSON_parse judgeContent of
             Inl e \<Rightarrow> (Inl e, w1, state)
           | Inr jsonResponse \<Rightarrow>
               (case JUDGING_SCHEMA_parse jsonResponse of
                  Inl e \<Rightarrow> (Inl e, w1, state)
                | Inr schemaResponse \<Rightarrow>
                    (Inr (FixJudgingEvent (pass schemaResponse) (feedback schemaResponse)), w1, state))))"

definition fix_retry_details :: "string \<Rightarrow> string \<Rightarrow> string" where
  "fix_retry_details generated fb =
     ''Your previous fix:\<newline>\<newline>'' @ triple_quote @ ''\<newline>'' @ generated
     @ ''\<newline>'' @ triple_quote
     @ ''\<newline>\<newline>Did not pass the evaluation, and this is the feedback on it: '' @ fb"

definition fix_judgingEvent_handler ::
  "world \<Rightarrow> fix_state \<Rightarrow> bool \<Rightarrow> string \<Rightarrow> (error + fix_event) \<times> world \<times> fix_state" where
  "fix_judgingEvent_handler w state passed fb =
     (if passed then (Inr (FixWritingEvent (generatedContent state)), w, state)
      else (Inr (FixStartEvent (filePath state) (error state)
                   (fix_retry_details (generatedContent state) fb) (codeLanguage state)), w, state))"

definition fix_writingEvent_handler ::
  "world \<Rightarrow> fix_state \<Rightarrow> string \<Rightarrow> (error + fix_event) \<times> world \<times> fix_state" where
  "fix_writingEvent_handler w state content =
     (case fix_writeTextFile (disk w) (filePath state) content of
        Inl e \<Rightarrow> (Inl (IO e), w, state)
      | Inr (msg, fs') \<Rightarrow> (Inr (FixResultEvent msg), w\<lparr>disk := fs'\<rparr>, state))"

type_synonym fix_config = "world \<times> fix_state \<times> nat \<times> fix_event list \<times> fix_event"

type_synonym fix_result = "outcome \<times> world \<times> fix_state \<times> fix_event list"

fun fix_next ::
  "(error + fix_event) \<times> world \<times> fix_state \<Rightarrow> nat \<Rightarrow> fix_event list
     \<Rightarrow> fix_result + fix_config" where
  "fix_next (Inl e, w, state) iteration seen = Inl (Rejected e, w, state, seen)"
| "fix_next (Inr event, w, state) iteration seen = Inr (w, state, iteration, seen, event)"

fun fix_step :: "llm \<Rightarrow> fix_config \<Rightarrow> fix_result + fix_config" where
  "fix_step backend (w, state, iteration, seen, FixStartEvent path err details language) =
     fix_next
       (fix_startEvent_handler backend
          (log (log w (logger_log (''Started round '' @ magenta (bold (show_nat (iteration + 1)))
                                     @ '' of editing'' @ writing_hand)))
               (logger_log []))
          state path err details language)
       (iteration + 1) (seen @ [FixStartEvent path err details language])"
| "fix_step backend (w, state, iteration, seen, FixErrorEvaluationEvent explanation proposed) =
     fix_next
       (fix_errorEvaluationEvent_handler backend
          (log (log (log (log w
             (logger_log (''Your error '' @ green (bold ''might be explained'')
                            @ '' as follows:\<newline>'' @ explanation)))
             (logger_log []))
             (logger_log (''I am '' @ cyan (bold ''proposing this fix'') @ '':\<newline>'' @ proposed)))
             (logger_log []))
          state explanation proposed)
       iteration (seen @ [FixErrorEvaluationEvent explanation proposed])"
| "fix_step backend (w, state, iteration, seen, FixGenerationEvent content) =
     fix_next
       (fix_generationEvent_handler backend
          (log (log w (logger_log (yellow (bold (''A fix has been generated for your file!''
                                                   @ party_popper)))))
               (logger_log []))
          state content)
       iteration (seen @ [FixGenerationEvent content])"
| "fix_step backend (w, state, iteration, seen, FixJudgingEvent passed fb) =
     fix_next
       (fix_judgingEvent_handler
          (log (if passed
                then log w (logger_log (''Evaluation: '' @ green (bold ''PASS'') @ check_mark))
                else log (log w (logger_log (''Evaluation: '' @ red (bold ''FAIL'') @ cross_mark)))
                         (logger_log (''Reasons: '' @ fb)))
               (logger_log []))
          state passed fb)
       iteration (seen @ [FixJudgingEvent passed fb])"
| "fix_step backend (w, state, iteration, seen, FixWritingEvent content) =
     fix_next
       (fix_writingEvent_handler
          (log (log w (logger_log (magenta (italic ''Writing your file...''))))
               (logger_log []))
          state content)
       iteration (seen @ [FixWritingEvent content])"
| "fix_step backend (w, state, iteration, seen, FixResultEvent message) =
     Inl (Completed, log w (logger_log message), state, seen @ [FixResultEvent message])"

fun fix_rank :: "fix_event \<Rightarrow> nat" where
  "fix_rank (FixStartEvent path err details language) = 3"
| "fix_rank (FixErrorEvaluationEvent explanation proposed) = 2"
| "fix_rank (FixGenerationEvent content) = 5"
| "fix_rank (FixJudgingEvent passed fb) = 4"
| "fix_rank (FixWritingEvent content) = 1"
| "fix_rank (FixResultEvent message) = 0"

definition fix_measure :: "fix_config \<Rightarrow> nat" where
  "fix_measure c =
     (case c of (w, state, iteration, seen, event) \<Rightarrow>
        4 * (maxIterations state + 1 - numIterations state) + fix_rank event)"

lemma fix_step_decreases:
  "fix_step backend c = Inr c' \<Longrightarrow> fix_measure c' < fix_measure c"
proof -
  assume step: "fix_step backend c = Inr c'"
  obtain w state iteration seen event where c: "c = (w, state, iteration, seen, event)"
    by (cases c) auto
  show ?thesis
  proof (cases event)
    case (FixStartEvent path err details language)
    with step c show ?thesis
      by (auto simp: fix_measure_def fix_startEvent_handler_def chat_def
               split: sum.splits prod.splits if_splits)
  next
    case (FixErrorEvaluationEvent explanation proposed)
    with step c show ?thesis
      by (auto simp: fix_measure_def fix_errorEvaluationEvent_handler_def chat_def Let_def
               split: sum.splits prod.splits if_splits)
  next
    case (FixGenerationEvent content)
    with step c show ?thesis
      by (auto simp: fix_measure_def fix_generationEvent_handler_def chat_def
               split: sum.splits prod.splits if_splits)
  next
    case (FixJudgingEvent passed fb)
    with step c show ?thesis
      by (auto simp: fix_measure_def fix_judgingEvent_handler_def
               split: sum.splits prod.splits if_splits)
  next
    case (FixWritingEvent content)
    with step c show ?thesis
      by (auto simp: fix_measure_def fix_writingEvent_handler_def
               split: sum.splits prod.splits if_splits)
  next
    case (FixResultEvent message)
    with step c show ?thesis by simp
  qed
qed

function fix_loop :: "llm \<Rightarrow> fix_config \<Rightarrow> fix_result" where
  "fix_loop backend c =
     (case fix_step backend c of
        Inl r \<Rightarrow> r
      | Inr c' \<Rightarrow> fix_loop backend c')"
  by pat_completeness auto
termination
  by (relation "measure (\<lambda>(backend, c). fix_measure c)") (auto dest: fix_step_decreases)

declare fix_loop.simps [simp del]

definition fix_runWorkflow ::
  "llm \<Rightarrow> world \<Rightarrow> string \<Rightarrow> string \<Rightarrow> string \<Rightarrow> string \<Rightarrow> fix_result" where
  "fix_runWorkflow backend w path err details language =
     fix_loop backend (w, fix_initial, 0, [], FixStartEvent path err details language)"

definition fix_handler :: "llm \<Rightarrow> world \<Rightarrow> string \<Rightarrow> string \<Rightarrow> string \<Rightarrow> string \<Rightarrow> fix_result" where
  "fix_handler backend w language path userError userErrDet =
     fix_runWorkflow backend
       (log (log (log w (logger_log (gray (repeat box_line 50))))
                 (logger_log (bold (cyan (sparkles @ '' Starting the debugging process... Let''
                                            @ [CHR 0x27] @ ''s squash those bugs! ''
                                            @ bug @ collision)))))
            (logger_log []))
       path userError userErrDet language"

section \<open>The explain command\<close>

definition explain_request :: "string \<Rightarrow> string \<Rightarrow> string \<Rightarrow> string \<Rightarrow> string \<Rightarrow> chat_request" where
  "explain_request language path level problem content =
     \<lparr>model = ''gpt-4o'',
      system_content =
        ''You are an expert '' @ language
        @ '' programmer. Your task is to explain the code in a file by producing a code overview, highlighting the focal points of the code, proposing core concepts to learn in order to understand the code and adding also any extra information containing tips and trick related to the code you explained. Remember to always adapt your explanations to the level of the person who is asking you to explain the code, and to also address their problems with the code itself in the various part of the explanation.'',
      user_content =
        ''I am at a '' @ level @ '' level in '' @ language
        @ '' and I am struggling to understant this file: '' @ path
        @ '' because I have the following problem: '' @ problem
        @ ''. This is the content of the file you should explain to me:\<newline>\<newline>'' @ triple_quote
        @ ''\<newline>'' @ content @ ''\<newline>'' @ triple_quote
        @ ''\<newline>\<newline>. Please explain it to me.'',
      responseFormat = SCHEMA\<rparr>"

definition explainCode ::
  "llm \<Rightarrow> world \<Rightarrow> string \<Rightarrow> string \<Rightarrow> string \<Rightarrow> string \<Rightarrow> (error + message_content) \<times> world" where
  "explainCode backend w language path level problem =
     (case readTextFile (disk w) path of
        Inl e \<Rightarrow> (Inl e, w)
      | Inr content \<Rightarrow> chat backend w (explain_request language path level problem content))"

text \<open>The lines of \<open>forEach\<close> over the focal points, numbered from \<open>index + 1\<close>.\<close>

fun focal_lines :: "nat \<Rightarrow> string list \<Rightarrow> log_entry list" where
  "focal_lines index [] = []"
| "focal_lines index (point # points) =
     logger_log (cyan (show_nat (index + 1) @ ''. '') @ white point) # focal_lines (index + 1) points"

definition renderAnalysis :: "world \<Rightarrow> AnalysisResult \<Rightarrow> world" where
  "renderAnalysis w a =
     foldl log w
       ([logger_log (bold (blue (clipboard @ '' Code Analysis Report''))),
         logger_log [],
         logger_log (bold (green (magnifier @ '' Code Overview''))),
         logger_log (gray (repeat box_line 50)),
         logger_log (white (code_overview a)),
         logger_log [],
         logger_log (bold (yellow (direct_hit @ '' Focal Points''))),
         logger_log (gray (repeat box_line 50))]
        @ focal_lines 0 (focal_points a)
        @ [logger_log [],
           logger_log (bold (magenta (books @ '' Core Concepts to Learn''))),
           logger_log (gray (repeat box_line 50))]
        @ map (\<lambda>concept. logger_log (magenta (bullet @ '' '') @ white concept))
            (core_concepts_to_learn a)
        @ [logger_log [],
           logger_log (bold (red (light_bulb @ '' Extra Information''))),
           logger_log (gray (repeat box_line 50)),
           logger_log (white (extra_information a))])"

text \<open>The body of the \<open>try\<close> block of \<open>parseAndRenderAnalysis\<close>.\<close>

definition parseAndRender_body :: "world \<Rightarrow> message_content \<Rightarrow> error + world" where
  "parseAndRender_body w messageContent =
     (case JSON_parse messageContent of
        Inl e \<Rightarrow> Inl e
      | Inr jsonData \<Rightarrow>
          (case SCHEMA_parse jsonData of
             Inl e \<Rightarrow> Inl e
           | Inr validatedData \<Rightarrow> Inr (renderAnalysis w validatedData)))"

text \<open>The line that the \<open>catch\<close> block logs for one issue of a \<open>ZodError\<close>.\<close>

definition issue_line :: "zod_issue \<Rightarrow> log_entry" where
  "issue_line err =
     logger_error (red (''  - '' @ join_dot (issue_path err) @ '': '' @ issue_message err))"

fun parseAndRender_catch :: "world \<Rightarrow> error \<Rightarrow> error + world" where
  "parseAndRender_catch w (ZodError issues) =
     Inr (foldl log (log w (logger_error (red (cross_mark @ '' Schema validation failed:''))))
            (map issue_line issues))"
| "parseAndRender_catch w e =
     Inr (log w (logger_error_with (red (cross_mark @ '' Failed to parse message content:'')) e))"

definition parseAndRenderAnalysis :: "world \<Rightarrow> message_content \<Rightarrow> error + world" where
  "parseAndRenderAnalysis w messageContent =
     try_catch (parseAndRender_body w messageContent) (parseAndRender_catch w)"

text \<open>
  The command handler; its inputs are the answers of the prompts: the language, the
  level, the file and the problem.
\<close>

definition explain_handler ::
  "llm \<Rightarrow> world \<Rightarrow> string \<Rightarrow> string \<Rightarrow> string \<Rightarrow> string \<Rightarrow> outcome \<times> world" where
  "explain_handler backend w language userLevel path userProblem =
     (case explainCode backend
             (log (log (log w (logger_log (gray (repeat box_line 50))))
                       (logger_log (bold (cyan ''Hang on, I will provide you with the explanation soon...''))))
                  (logger_log []))
             language path userLevel userProblem of
        (Inl e, w1) \<Rightarrow> (Rejected e, w1)
      | (Inr codeExplanation, w1) \<Rightarrow>
          (case parseAndRenderAnalysis w1 codeExplanation of
             Inl e \<Rightarrow> (Rejected e, w1)
           | Inr w2 \<Rightarrow> (Completed, w2)))"

section \<open>Observations on a run\<close>

text \<open>The components of the result of a run.\<close>

definition outcome_of :: "outcome \<times> world \<times> 's \<times> 'e list \<Rightarrow> outcome" where
  "outcome_of r = fst r"

definition world_of :: "outcome \<times> world \<times> 's \<times> 'e list \<Rightarrow> world" where
  "world_of r = fst (snd r)"

definition state_of :: "outcome \<times> world \<times> 's \<times> 'e list \<Rightarrow> 's" where
  "state_of r = fst (snd (snd r))"

definition events_of :: "outcome \<times> world \<times> 's \<times> 'e list \<Rightarrow> 'e list" where
  "events_of r = snd (snd (snd r))"

text \<open>The number of requests made so far with a given response format.\<close>

definition attempts :: "response_format \<Rightarrow> world \<Rightarrow> nat" where
  "attempts fmt w = length (filter (\<lambda>request. responseFormat request = fmt) (calls w))"

text \<open>
  The two statements by which every handler reads a response: \<open>JSON.parse\<close>, then
  the \<open>parse\<close> of the schema.
\<close>

definition parse_response :: "(json \<Rightarrow> error + 'a) \<Rightarrow> message_content \<Rightarrow> error + 'a" where
  "parse_response schema_parse content =
     (case JSON_parse content of
        Inl e \<Rightarrow> Inl e
      | Inr jsonResponse \<Rightarrow> schema_parse jsonResponse)"

text \<open>
  The components of a configuration of a run.
\<close>

definition config_world :: "world \<times> 's \<times> nat \<times> 'e list \<times> 'e \<Rightarrow> world" where
  "config_world c = fst c"

definition config_state :: "world \<times> 's \<times> nat \<times> 'e list \<times> 'e \<Rightarrow> 's" where
  "config_state c = fst (snd c)"

definition config_seen :: "world \<times> 's \<times> nat \<times> 'e list \<times> 'e \<Rightarrow> 'e list" where
  "config_seen c = fst (snd (snd (snd c)))"

definition config_event :: "world \<times> 's \<times> nat \<times> 'e list \<times> 'e \<Rightarrow> 'e" where
  "config_event c = snd (snd (snd (snd c)))"

text \<open>
  The answer of the backend to a request made after the requests of \<open>history\<close>, read as
  every handler reads it.
\<close>

definition reply ::
  "llm \<Rightarrow> (json \<Rightarrow> error + 'a) \<Rightarrow> chat_request list \<Rightarrow> chat_request \<Rightarrow> error + 'a" where
  "reply backend schema_parse history request =
     (case backend history request of
        Inl e \<Rightarrow> Inl e
      | Inr content \<Rightarrow> parse_response schema_parse content)"

text \<open>
  The contents that have been submitted to the judge so far, in the order of the requests.
\<close>

definition judged :: "world \<Rightarrow> string list" where
  "judged w = map user_content (filter (\<lambda>request. responseFormat request = JUDGING_SCHEMA) (calls w))"

text \<open>
  Of a list of events: the artifacts of its generation events, which are the events
  whose handler asks the judge; the contents of its writing events; and whether one of
  its judging events carries the verdict pass.
\<close>

definition edit_submitted :: "edit_event list \<Rightarrow> string list" where
  "edit_submitted events =
     concat (map (\<lambda>event. case event of EditGenerationEvent a \<Rightarrow> [a] | _ \<Rightarrow> []) events)"

definition edit_written :: "edit_event list \<Rightarrow> string list" where
  "edit_written events =
     concat (map (\<lambda>event. case event of EditWritingEvent c \<Rightarrow> [c] | _ \<Rightarrow> []) events)"

definition edit_passed :: "edit_event list \<Rightarrow> bool" where
  "edit_passed events =
     list_ex (\<lambda>event. case event of EditJudgingEvent v fb \<Rightarrow> v | _ \<Rightarrow> False) events"

definition fix_submitted :: "fix_event list \<Rightarrow> string list" where
  "fix_submitted events =
     concat (map (\<lambda>event. case event of FixGenerationEvent a \<Rightarrow> [a] | _ \<Rightarrow> []) events)"

definition fix_written :: "fix_event list \<Rightarrow> string list" where
  "fix_written events =
     concat (map (\<lambda>event. case event of FixWritingEvent c \<Rightarrow> [c] | _ \<Rightarrow> []) events)"

definition fix_passed :: "fix_event list \<Rightarrow> bool" where
  "fix_passed events =
     list_ex (\<lambda>event. case event of FixJudgingEvent v fb \<Rightarrow> v | _ \<Rightarrow> False) events"

section \<open>The order of the events and of the requests of a run\<close>

text \<open>
  Which event may come next after an event. After a start event comes the generation
  event or, at the cap, the writing event; after a judging event comes the writing event
  when the verdict is pass, and otherwise a start event whose details end with the
  feedback of that verdict.
\<close>

fun edit_follows :: "edit_event \<Rightarrow> edit_event \<Rightarrow> bool" where
  "edit_follows (EditStartEvent p f d l) (EditGenerationEvent a) = True"
| "edit_follows (EditStartEvent p f d l) (EditWritingEvent c) = True"
| "edit_follows (EditGenerationEvent a) (EditJudgingEvent v fb) = True"
| "edit_follows (EditJudgingEvent v fb) (EditWritingEvent c) = v"
| "edit_follows (EditJudgingEvent v fb) (EditStartEvent p f d l) = (\<not> v \<and> suffix fb d)"
| "edit_follows (EditWritingEvent c) (EditResultEvent m) = True"
| "edit_follows previous next = False"

fun fix_follows :: "fix_event \<Rightarrow> fix_event \<Rightarrow> bool" where
  "fix_follows (FixStartEvent p e d l) (FixErrorEvaluationEvent x y) = True"
| "fix_follows (FixErrorEvaluationEvent x y) (FixGenerationEvent a) = True"
| "fix_follows (FixErrorEvaluationEvent x y) (FixWritingEvent c) = True"
| "fix_follows (FixGenerationEvent a) (FixJudgingEvent v fb) = True"
| "fix_follows (FixJudgingEvent v fb) (FixWritingEvent c) = v"
| "fix_follows (FixJudgingEvent v fb) (FixStartEvent p e d l) = (\<not> v \<and> suffix fb d)"
| "fix_follows (FixWritingEvent c) (FixResultEvent m) = True"
| "fix_follows previous next = False"

text \<open>
  A list of requests in which every request follows the one before it, given the
  requests that were made before that one.
\<close>

fun chained :: "('a list \<Rightarrow> 'a \<Rightarrow> 'a \<Rightarrow> bool) \<Rightarrow> 'a list \<Rightarrow> 'a list \<Rightarrow> bool" where
  "chained follows history (previous # request # later) =
     (follows history previous request
      \<and> chained follows (history @ [previous]) (request # later))"
| "chained follows history requests = True"

text \<open>
  Which request of the edit command may come next after a request. A generation request
  comes after a request to the judge that the backend answered with a verdict that is
  not pass; it is the request for the same path, feature and language and for the
  content of the file, and its details are the retry details made of the content that
  was submitted to the judge and of the feedback of that verdict. A request to the
  judge comes after a generation request that the backend answered with a response
  valid for the schema, and it submits the code of that response.
\<close>

definition edit_request_follows ::
  "llm \<Rightarrow> filesystem \<Rightarrow> string \<Rightarrow> string \<Rightarrow> string
     \<Rightarrow> chat_request list \<Rightarrow> chat_request \<Rightarrow> chat_request \<Rightarrow> bool" where
  "edit_request_follows backend files_then path feat language history previous request =
     (case responseFormat request of
        CODE_SCHEMA \<Rightarrow>
          (case reply backend JUDGING_SCHEMA_parse history previous of
             Inl e \<Rightarrow> False
           | Inr verdict \<Rightarrow>
               (case readTextFile files_then path of
                  Inl e \<Rightarrow> False
                | Inr fc \<Rightarrow>
                    responseFormat previous = JUDGING_SCHEMA
                    \<and> pass verdict = False
                    \<and> request = edit_generation_request path feat
                                  (edit_retry_details (user_content previous) (feedback verdict))
                                  language fc))
      | JUDGING_SCHEMA \<Rightarrow>
          (case reply backend CODE_SCHEMA_parse history previous of
             Inl e \<Rightarrow> False
           | Inr generated \<Rightarrow>
               responseFormat previous = CODE_SCHEMA
               \<and> user_content request = code_content generated)
      | _ \<Rightarrow> False)"

text \<open>
  The first request of a run of the edit command is the generation request with the
  details of the user.
\<close>

definition edit_first_request ::
  "filesystem \<Rightarrow> string \<Rightarrow> string \<Rightarrow> string \<Rightarrow> string \<Rightarrow> chat_request list \<Rightarrow> bool" where
  "edit_first_request files_then path feat details language requests =
     (case requests of
        [] \<Rightarrow> True
      | request # later \<Rightarrow>
          (case readTextFile files_then path of
             Inl e \<Rightarrow> False
           | Inr fc \<Rightarrow> request = edit_generation_request path feat details language fc))"

text \<open>
  The same for the fix command. Its generation request comes after an evaluation request
  that the backend answered with a valid response; it is built from the explanation and
  the fix of that response and from a state that holds the path, the error, the
  language, the content of the file and the details of that evaluation request.
\<close>

definition fix_generation_follows ::
  "string \<Rightarrow> string \<Rightarrow> string \<Rightarrow> string \<Rightarrow> string \<Rightarrow> string
     \<Rightarrow> chat_request \<Rightarrow> chat_request \<Rightarrow> bool" where
  "fix_generation_follows path err language fc explanation proposed previous request =
     (\<exists>state. filePath state = path \<and> error state = err \<and> codeLanguage state = language
        \<and> fileContent state = fc
        \<and> previous = fix_evaluation_request path err (errorDetails state) language fc
        \<and> request = fix_generation_request state explanation proposed)"

definition fix_request_follows ::
  "llm \<Rightarrow> filesystem \<Rightarrow> string \<Rightarrow> string \<Rightarrow> string
     \<Rightarrow> chat_request list \<Rightarrow> chat_request \<Rightarrow> chat_request \<Rightarrow> bool" where
  "fix_request_follows backend files_then path err language history previous request =
     (case responseFormat request of
        ERROR_SCHEMA \<Rightarrow>
          (case reply backend JUDGING_SCHEMA_parse history previous of
             Inl e \<Rightarrow> False
           | Inr verdict \<Rightarrow>
               (case readTextFile files_then path of
                  Inl e \<Rightarrow> False
                | Inr fc \<Rightarrow>
                    responseFormat previous = JUDGING_SCHEMA
                    \<and> pass verdict = False
                    \<and> request = fix_evaluation_request path err
                                  (fix_retry_details (user_content previous) (feedback verdict))
                                  language fc))
      | FIX_SCHEMA \<Rightarrow>
          (case reply backend ERROR_SCHEMA_parse history previous of
             Inl e \<Rightarrow> False
           | Inr evaluation \<Rightarrow>
               (case readTextFile files_then path of
                  Inl e \<Rightarrow> False
                | Inr fc \<Rightarrow>
                    fix_generation_follows path err language fc
                      (error_explanation evaluation) (proposed_fix evaluation) previous request))
      | JUDGING_SCHEMA \<Rightarrow>
          (case reply backend FIX_SCHEMA_parse history previous of
             Inl e \<Rightarrow> False
           | Inr generated \<Rightarrow>
               responseFormat previous = FIX_SCHEMA
               \<and> user_content request = fixed_content generated)
      | _ \<Rightarrow> False)"

definition fix_first_request ::
  "filesystem \<Rightarrow> string \<Rightarrow> string \<Rightarrow> string \<Rightarrow> string \<Rightarrow> chat_request list \<Rightarrow> bool" where
  "fix_first_request files_then path err details language requests =
     (case requests of
        [] \<Rightarrow> True
      | request # later \<Rightarrow>
          (case readTextFile files_then path of
             Inl e \<Rightarrow> False
           | Inr fc \<Rightarrow> request = fix_evaluation_request path err details language fc))"

section \<open>What every configuration of a run satisfies\<close>

text \<open>
  A run of the edit command that started when \<open>g\<close> generation requests had been
  made: the cap is 3, the generation requests are at most \<open>g\<close> more than the counter,
  and the counter and the number of events received are bounded as the next event tells.
\<close>

definition edit_inv :: "nat \<Rightarrow> edit_config \<Rightarrow> bool" where
  "edit_inv g c =
     (case c of (w, state, iteration, seen, event) \<Rightarrow>
        maxIterations state = 3
        \<and> attempts CODE_SCHEMA w \<le> g + numIterations state
        \<and> (case event of
              EditStartEvent path feat details language \<Rightarrow>
                numIterations state \<le> 3 \<and> length seen \<le> 3 * numIterations state
            | EditGenerationEvent content \<Rightarrow>
                numIterations state \<le> 3 \<and> length seen + 2 \<le> 3 * numIterations state
            | EditJudgingEvent passed fb \<Rightarrow>
                numIterations state \<le> 3 \<and> length seen + 1 \<le> 3 * numIterations state
            | EditWritingEvent content \<Rightarrow>
                numIterations state \<le> 4 \<and> length seen \<le> 10
            | EditResultEvent message \<Rightarrow>
                numIterations state \<le> 4 \<and> length seen \<le> 11))"

text \<open>The bounds on the result of such a run.\<close>

definition edit_bounded :: "nat \<Rightarrow> edit_result \<Rightarrow> bool" where
  "edit_bounded g r =
     (attempts CODE_SCHEMA (world_of r) \<le> g + 4
      \<and> length (events_of r) \<le> 12
      \<and> numIterations (state_of r) \<le> 4)"

text \<open>The same for the fix command.\<close>

definition fix_inv :: "nat \<Rightarrow> fix_config \<Rightarrow> bool" where
  "fix_inv g c =
     (case c of (w, state, iteration, seen, event) \<Rightarrow>
        maxIterations state = 3
        \<and> attempts FIX_SCHEMA w \<le> g + numIterations state
        \<and> (case event of
              FixStartEvent path err details language \<Rightarrow>
                numIterations state \<le> 3 \<and> length seen \<le> 4 * numIterations state
            | FixErrorEvaluationEvent explanation proposed \<Rightarrow>
                numIterations state \<le> 3 \<and> length seen \<le> 4 * numIterations state + 1
            | FixGenerationEvent content \<Rightarrow>
                numIterations state \<le> 3 \<and> length seen + 2 \<le> 4 * numIterations state
            | FixJudgingEvent passed fb \<Rightarrow>
                numIterations state \<le> 3 \<and> length seen + 1 \<le> 4 * numIterations state
            | FixWritingEvent content \<Rightarrow>
                numIterations state \<le> 4 \<and> length seen \<le> 14
            | FixResultEvent message \<Rightarrow>
                numIterations state \<le> 4 \<and> length seen \<le> 15))"

definition fix_bounded :: "nat \<Rightarrow> fix_result \<Rightarrow> bool" where
  "fix_bounded g r =
     (attempts FIX_SCHEMA (world_of r) \<le> g + 4
      \<and> length (events_of r) \<le> 16
      \<and> numIterations (state_of r) \<le> 4)"

text \<open>
  What holds of every configuration of a run of the edit command on \<open>path\<close> that
  started on the file system \<open>fs\<close>: the path of the run is the one of the command, a
  writing event carries the content generated last, and the files are those of \<open>fs\<close>
  but for the output file, which holds the generated content once the result event is out
  and the write was not refused.
\<close>

definition edit_frame :: "string \<Rightarrow> filesystem \<Rightarrow> edit_config \<Rightarrow> bool" where
  "edit_frame path fs c =
     (case c of (w, state, iteration, seen, event) \<Rightarrow>
        refused (disk w) = refused fs
        \<and> (\<forall>p. p = flPath ''_edited.'' path \<or> files (disk w) p = files fs p)
        \<and> (case event of
              EditStartEvent path' feat details language \<Rightarrow> path' = path
            | EditGenerationEvent content \<Rightarrow> filePath state = path
            | EditJudgingEvent passed fb \<Rightarrow> filePath state = path
            | EditWritingEvent content \<Rightarrow> filePath state = path \<and> content = generatedContent state
            | EditResultEvent message \<Rightarrow>
                (case refused fs (flPath ''_edited.'' path) of
                   Some msg \<Rightarrow> True
                 | None \<Rightarrow>
                     files (disk w) (flPath ''_edited.'' path) = Some (generatedContent state))))"

text \<open>The same of the result of such a run.\<close>

definition edit_framed :: "string \<Rightarrow> filesystem \<Rightarrow> edit_result \<Rightarrow> bool" where
  "edit_framed path fs r =
     ((\<forall>p. p = flPath ''_edited.'' path \<or> files (disk (world_of r)) p = files fs p)
      \<and> (case outcome_of r of
            Rejected e \<Rightarrow> True
          | Completed \<Rightarrow>
              (case refused fs (flPath ''_edited.'' path) of
                 Some msg \<Rightarrow> True
               | None \<Rightarrow>
                   files (disk (world_of r)) (flPath ''_edited.'' path)
                     = Some (generatedContent (state_of r)))))"

text \<open>The same for the fix command.\<close>

definition fix_frame :: "string \<Rightarrow> filesystem \<Rightarrow> fix_config \<Rightarrow> bool" where
  "fix_frame path fs c =
     (case c of (w, state, iteration, seen, event) \<Rightarrow>
        refused (disk w) = refused fs
        \<and> (\<forall>p. p = flPath ''_fixed.'' path \<or> files (disk w) p = files fs p)
        \<and> (case event of
              FixStartEvent path' err details language \<Rightarrow> path' = path
            | FixErrorEvaluationEvent explanation proposed \<Rightarrow> filePath state = path
            | FixGenerationEvent content \<Rightarrow> filePath state = path
            | FixJudgingEvent passed fb \<Rightarrow> filePath state = path
            | FixWritingEvent content \<Rightarrow> filePath state = path \<and> content = generatedContent state
            | FixResultEvent message \<Rightarrow>
                (case refused fs (flPath ''_fixed.'' path) of
                   Some msg \<Rightarrow> True
                 | None \<Rightarrow>
                     files (disk w) (flPath ''_fixed.'' path) = Some (generatedContent state))))"

definition fix_framed :: "string \<Rightarrow> filesystem \<Rightarrow> fix_result \<Rightarrow> bool" where
  "fix_framed path fs r =
     ((\<forall>p. p = flPath ''_fixed.'' path \<or> files (disk (world_of r)) p = files fs p)
      \<and> (case outcome_of r of
            Rejected e \<Rightarrow> True
          | Completed \<Rightarrow>
              (case refused fs (flPath ''_fixed.'' path) of
                 Some msg \<Rightarrow> True
               | None \<Rightarrow>
                   files (disk (world_of r)) (flPath ''_fixed.'' path)
                     = Some (generatedContent (state_of r)))))"

text \<open>
  Of the order: the events received and the event to come are in order, and the
  contents submitted to the judge are those of the generation events received,
  after the contents \<open>j\<close> submitted before the run.
\<close>

definition edit_ordered :: "string list \<Rightarrow> edit_config \<Rightarrow> bool" where
  "edit_ordered j c =
     (case c of (w, state, iteration, seen, event) \<Rightarrow>
        successively edit_follows (seen @ [event])
        \<and> judged w = j @ edit_submitted seen)"

text \<open>The same of the result of such a run.\<close>

definition edit_order_kept :: "string list \<Rightarrow> edit_result \<Rightarrow> bool" where
  "edit_order_kept j r =
     (successively edit_follows (events_of r)
      \<and> judged (world_of r) = j @ edit_submitted (events_of r))"

text \<open>
  Of the decision: nothing is written before the writing event, the writing event
  carries the generated content of the state, and it comes only after a verdict pass
  or with the counter above the cap.
\<close>

definition edit_deciding :: "edit_config \<Rightarrow> bool" where
  "edit_deciding c =
     (case c of (w, state, iteration, seen, event) \<Rightarrow>
        (case event of
           EditWritingEvent content \<Rightarrow>
             edit_written seen = [] \<and> content = generatedContent state
             \<and> (edit_passed seen \<or> maxIterations state < numIterations state)
         | EditResultEvent message \<Rightarrow>
             edit_written seen = [generatedContent state]
             \<and> (edit_passed seen \<or> maxIterations state < numIterations state)
         | _ \<Rightarrow>
             edit_written seen = [] \<and> \<not> edit_passed seen
             \<and> numIterations state \<le> maxIterations state))"

text \<open>The same of the result of such a run.\<close>

definition edit_decided :: "edit_result \<Rightarrow> bool" where
  "edit_decided r =
     (edit_written (events_of r)
        = (if outcome_of r = Completed then [generatedContent (state_of r)] else [])
      \<and> (outcome_of r = Completed)
          = (edit_passed (events_of r)
             \<or> maxIterations (state_of r) < numIterations (state_of r)))"

text \<open>
  Of the requests to the judge: the judge has been asked at most once for each
  generation counted, after the \<open>j\<close> requests made to it before the run.
\<close>

definition edit_judging :: "nat \<Rightarrow> edit_config \<Rightarrow> bool" where
  "edit_judging j c =
     (case c of (w, state, iteration, seen, event) \<Rightarrow>
        maxIterations state = 3
        \<and> (case event of
              EditStartEvent path feat details language \<Rightarrow>
                numIterations state \<le> 3 \<and> attempts JUDGING_SCHEMA w \<le> j + numIterations state
            | EditGenerationEvent content \<Rightarrow>
                numIterations state \<le> 3 \<and> attempts JUDGING_SCHEMA w + 1 \<le> j + numIterations state
            | EditJudgingEvent passed fb \<Rightarrow>
                numIterations state \<le> 3 \<and> attempts JUDGING_SCHEMA w \<le> j + numIterations state
            | EditWritingEvent content \<Rightarrow> attempts JUDGING_SCHEMA w \<le> j + 3
            | EditResultEvent message \<Rightarrow> attempts JUDGING_SCHEMA w \<le> j + 3))"

text \<open>
  Of the requests: the requests \<open>cs\<close> made since the start of the run are chained, the
  first of them is the request with the details of the user, and the event to come
  agrees with the last of them and with the answer of the backend to it. The files are
  those of the start of the run as long as nothing has been written.
\<close>

definition edit_told ::
  "llm \<Rightarrow> filesystem \<Rightarrow> string \<Rightarrow> string \<Rightarrow> string \<Rightarrow> string \<Rightarrow> chat_request list
     \<Rightarrow> chat_request list \<Rightarrow> edit_config \<Rightarrow> bool" where
  "edit_told backend files_then path feat details language h cs c =
     (case c of (w, state, iteration, seen, event) \<Rightarrow>
        calls w = h @ cs
        \<and> edit_first_request files_then path feat details language cs
        \<and> chained (edit_request_follows backend files_then path feat language) h cs
        \<and> (case event of
              EditStartEvent path' feat' details' language' \<Rightarrow>
                disk w = files_then
                \<and> path' = path \<and> feat' = feat \<and> language' = language
                \<and> (if cs = [] then details' = details
                    else responseFormat (last cs) = JUDGING_SCHEMA
                         \<and> (case reply backend JUDGING_SCHEMA_parse (h @ butlast cs) (last cs) of
                               Inl e \<Rightarrow> False
                             | Inr verdict \<Rightarrow>
                                 pass verdict = False
                                 \<and> details' = edit_retry_details (user_content (last cs))
                                                (feedback verdict)))
            | EditGenerationEvent artifact \<Rightarrow>
                disk w = files_then
                \<and> filePath state = path \<and> feature state = feat \<and> codeLanguage state = language
                \<and> generatedContent state = artifact
                \<and> cs \<noteq> [] \<and> responseFormat (last cs) = CODE_SCHEMA
                \<and> (case reply backend CODE_SCHEMA_parse (h @ butlast cs) (last cs) of
                      Inl e \<Rightarrow> False
                    | Inr generated \<Rightarrow> artifact = code_content generated)
            | EditJudgingEvent passed fb \<Rightarrow>
                disk w = files_then
                \<and> filePath state = path \<and> feature state = feat \<and> codeLanguage state = language
                \<and> cs \<noteq> [] \<and> responseFormat (last cs) = JUDGING_SCHEMA
                \<and> user_content (last cs) = generatedContent state
                \<and> (case reply backend JUDGING_SCHEMA_parse (h @ butlast cs) (last cs) of
                      Inl e \<Rightarrow> False
                    | Inr verdict \<Rightarrow> passed = pass verdict \<and> fb = feedback verdict)
            | EditWritingEvent content \<Rightarrow> True
            | EditResultEvent message \<Rightarrow> True))"

definition edit_talked ::
  "llm \<Rightarrow> filesystem \<Rightarrow> string \<Rightarrow> string \<Rightarrow> string \<Rightarrow> string \<Rightarrow> chat_request list
     \<Rightarrow> edit_result \<Rightarrow> bool" where
  "edit_talked backend files_then path feat details language h r =
     (\<exists>cs. calls (world_of r) = h @ cs
        \<and> edit_first_request files_then path feat details language cs
        \<and> chained (edit_request_follows backend files_then path feat language) h cs)"

text \<open>The same for the fix command.\<close>

definition fix_ordered :: "string list \<Rightarrow> fix_config \<Rightarrow> bool" where
  "fix_ordered j c =
     (case c of (w, state, iteration, seen, event) \<Rightarrow>
        successively fix_follows (seen @ [event])
        \<and> judged w = j @ fix_submitted seen)"

definition fix_order_kept :: "string list \<Rightarrow> fix_result \<Rightarrow> bool" where
  "fix_order_kept j r =
     (successively fix_follows (events_of r)
      \<and> judged (world_of r) = j @ fix_submitted (events_of r))"

definition fix_deciding :: "fix_config \<Rightarrow> bool" where
  "fix_deciding c =
     (case c of (w, state, iteration, seen, event) \<Rightarrow>
        (case event of
           FixWritingEvent content \<Rightarrow>
             fix_written seen = [] \<and> content = generatedContent state
             \<and> (fix_passed seen \<or> maxIterations state < numIterations state)
         | FixResultEvent message \<Rightarrow>
             fix_written seen = [generatedContent state]
             \<and> (fix_passed seen \<or> maxIterations state < numIterations state)
         | _ \<Rightarrow> fix_written seen = [] \<and> \<not> fix_passed seen))"

definition fix_decided :: "fix_result \<Rightarrow> bool" where
  "fix_decided r =
     (fix_written (events_of r)
        = (if outcome_of r = Completed then [generatedContent (state_of r)] else [])
      \<and> (fix_passed (events_of r) \<longrightarrow> outcome_of r = Completed)
      \<and> (outcome_of r = Completed
           \<longrightarrow> fix_passed (events_of r)
               \<or> maxIterations (state_of r) < numIterations (state_of r)))"

definition fix_judging :: "nat \<Rightarrow> fix_config \<Rightarrow> bool" where
  "fix_judging j c =
     (case c of (w, state, iteration, seen, event) \<Rightarrow>
        maxIterations state = 3
        \<and> (case event of
              FixStartEvent path err details language \<Rightarrow>
                numIterations state \<le> 3 \<and> attempts JUDGING_SCHEMA w \<le> j + numIterations state
            | FixErrorEvaluationEvent explanation proposed \<Rightarrow>
                numIterations state \<le> 3 \<and> attempts JUDGING_SCHEMA w \<le> j + numIterations state
            | FixGenerationEvent content \<Rightarrow>
                numIterations state \<le> 3 \<and> attempts JUDGING_SCHEMA w + 1 \<le> j + numIterations state
            | FixJudgingEvent passed fb \<Rightarrow>
                numIterations state \<le> 3 \<and> attempts JUDGING_SCHEMA w \<le> j + numIterations state
            | FixWritingEvent content \<Rightarrow> attempts JUDGING_SCHEMA w \<le> j + 3
            | FixResultEvent message \<Rightarrow> attempts JUDGING_SCHEMA w \<le> j + 3))"

definition fix_told ::
  "llm \<Rightarrow> filesystem \<Rightarrow> string \<Rightarrow> string \<Rightarrow> string \<Rightarrow> string \<Rightarrow> chat_request list
     \<Rightarrow> chat_request list \<Rightarrow> fix_config \<Rightarrow> bool" where
  "fix_told backend files_then path err details language h cs c =
     (case c of (w, state, iteration, seen, event) \<Rightarrow>
        calls w = h @ cs
        \<and> fix_first_request files_then path err details language cs
        \<and> chained (fix_request_follows backend files_then path err language) h cs
        \<and> (case event of
              FixStartEvent path' err' details' language' \<Rightarrow>
                disk w = files_then
                \<and> path' = path \<and> err' = err \<and> language' = language
                \<and> (if cs = [] then details' = details
                    else responseFormat (last cs) = JUDGING_SCHEMA
                         \<and> (case reply backend JUDGING_SCHEMA_parse (h @ butlast cs) (last cs) of
                               Inl e \<Rightarrow> False
                             | Inr verdict \<Rightarrow>
                                 pass verdict = False
                                 \<and> details' = fix_retry_details (user_content (last cs))
                                                (feedback verdict)))
            | FixErrorEvaluationEvent explanation proposed \<Rightarrow>
                disk w = files_then
                \<and> filePath state = path \<and> error state = err \<and> codeLanguage state = language
                \<and> readTextFile files_then path = Inr (fileContent state)
                \<and> cs \<noteq> []
                \<and> last cs = fix_evaluation_request path err (errorDetails state) language
                              (fileContent state)
                \<and> (case reply backend ERROR_SCHEMA_parse (h @ butlast cs) (last cs) of
                      Inl e \<Rightarrow> False
                    | Inr evaluation \<Rightarrow>
                        explanation = error_explanation evaluation
                        \<and> proposed = proposed_fix evaluation)
            | FixGenerationEvent artifact \<Rightarrow>
                disk w = files_then
                \<and> filePath state = path \<and> error state = err \<and> codeLanguage state = language
                \<and> generatedContent state = artifact
                \<and> cs \<noteq> [] \<and> responseFormat (last cs) = FIX_SCHEMA
                \<and> (case reply backend FIX_SCHEMA_parse (h @ butlast cs) (last cs) of
                      Inl e \<Rightarrow> False
                    | Inr generated \<Rightarrow> artifact = fixed_content generated)
            | FixJudgingEvent passed fb \<Rightarrow>
                disk w = files_then
                \<and> filePath state = path \<and> error state = err \<and> codeLanguage state = language
                \<and> cs \<noteq> [] \<and> responseFormat (last cs) = JUDGING_SCHEMA
                \<and> user_content (last cs) = generatedContent state
                \<and> (case reply backend JUDGING_SCHEMA_parse (h @ butlast cs) (last cs) of
                      Inl e \<Rightarrow> False
                    | Inr verdict \<Rightarrow> passed = pass verdict \<and> fb = feedback verdict)
            | FixWritingEvent content \<Rightarrow> True
            | FixResultEvent message \<Rightarrow> True))"

definition fix_talked ::
  "llm \<Rightarrow> filesystem \<Rightarrow> string \<Rightarrow> string \<Rightarrow> string \<Rightarrow> string \<Rightarrow> chat_request list
     \<Rightarrow> fix_result \<Rightarrow> bool" where
  "fix_talked backend files_then path err details language h r =
     (\<exists>cs. calls (world_of r) = h @ cs
        \<and> fix_first_request files_then path err details language cs
        \<and> chained (fix_request_follows backend files_then path err language) h cs)"

section \<open>Sample inputs\<close>

text \<open>A world with one source file, no request made and nothing logged, and a world with no file.\<close>

definition sample_world :: world where
  "sample_world =
     \<lparr>disk = \<lparr>files = [''foo.py'' \<mapsto> ''x = 1''], refused = Map.empty\<rparr>,
      calls = [], logs = []\<rparr>"

definition empty_world :: world where
  "empty_world = \<lparr>disk = \<lparr>files = Map.empty, refused = Map.empty\<rparr>, calls = [], logs = []\<rparr>"

text \<open>A backend whose generations are well-formed and whose judge passes every artifact.\<close>

definition judge_passes :: llm where
  "judge_passes history request =
     (case responseFormat request of
        CODE_SCHEMA \<Rightarrow> Inr (JSON (JObject [(''code_content'', JString ''x = 2'')]))
      | JUDGING_SCHEMA \<Rightarrow>
          Inr (JSON (JObject [(''pass'', JBool True), (''feedback'', JString ''fine'')]))
      | ERROR_SCHEMA \<Rightarrow>
          Inr (JSON (JObject [(''error_explanation'', JString ''x is unset''),
                              (''proposed_fix'', JString ''set x'')]))
      | FIX_SCHEMA \<Rightarrow> Inr (JSON (JObject [(''fixed_content'', JString ''x = 2'')]))
      | SCHEMA \<Rightarrow> Inr (NotJSON ''I cannot help with that''))"

text \<open>A backend whose generations are well-formed and whose judge fails every artifact.\<close>

definition judge_never_passes :: llm where
  "judge_never_passes history request =
     (case responseFormat request of
        CODE_SCHEMA \<Rightarrow> Inr (JSON (JObject [(''code_content'', JString ''x = 2'')]))
      | JUDGING_SCHEMA \<Rightarrow>
          Inr (JSON (JObject [(''pass'', JBool False), (''feedback'', JString ''too slow'')]))
      | ERROR_SCHEMA \<Rightarrow>
          Inr (JSON (JObject [(''error_explanation'', JString ''x is unset''),
                              (''proposed_fix'', JString ''set x'')]))
      | FIX_SCHEMA \<Rightarrow> Inr (JSON (JObject [(''fixed_content'', JString ''x = 2'')]))
      | SCHEMA \<Rightarrow> Inr (NotJSON ''I cannot help with that''))"

text \<open>A backend whose responses are well-formed JSON of the wrong shape for every schema.\<close>

definition wrong_types :: llm where
  "wrong_types history request =
     (case responseFormat request of
        CODE_SCHEMA \<Rightarrow> Inr (JSON (JObject [(''code_content'', JNumber ''42'')]))
      | JUDGING_SCHEMA \<Rightarrow> Inr (JSON (JObject [(''pass'', JString ''yes'')]))
      | ERROR_SCHEMA \<Rightarrow> Inr (JSON (JArray []))
      | FIX_SCHEMA \<Rightarrow> Inr (JSON (JObject [(''fixed_content'', JNull)]))
      | SCHEMA \<Rightarrow>
          Inr (JSON (JObject [(''code_overview'', JString ''a script''),
                              (''focal_points'', JArray [JString ''x'', JNumber ''1'']),
                              (''extra_information'', JBool True)])))"

text \<open>The states in which the fourth round of a run with the failing judge starts.\<close>

definition edit_last_round :: edit_state where
  "edit_last_round =
     \<lparr>generatedContent = ''x = 2'', filePath = ''foo.py'', codeLanguage = ''python'',
      numIterations = 3, maxIterations = 3,
      feature = ''double x'',
      implementationDetails = edit_retry_details ''x = 2'' ''too slow''\<rparr>"

definition fix_last_round :: fix_state where
  "fix_last_round =
     \<lparr>generatedContent = ''x = 2'', filePath = ''foo.py'', codeLanguage = ''python'',
      numIterations = 3, maxIterations = 3,
      fileContent = ''x = 1'', error = ''NameError'',
      errorDetails = fix_retry_details ''x = 2'' ''too slow''\<rparr>"

section \<open>Splitting and joining a path\<close>

lemma split_dot_not_Nil: "split_dot s \<noteq> []"
  by (induction s) (auto split: list.splits)

lemma split_dot_append: "split_dot (xs @ dot # ys) = split_dot xs @ split_dot ys"
proof (induction xs)
  case Nil
  show ?case by simp
next
  case (Cons c xs)
  obtain p ps where "split_dot xs = p # ps"
    using split_dot_not_Nil [of xs] by (cases "split_dot xs") auto
  with Cons show ?case by simp
qed

lemma split_dot_plain: "dot \<notin> set s \<Longrightarrow> split_dot s = [s]"
  by (induction s) auto

lemma join_split_dot: "join_dot (split_dot s) = s"
proof (induction s)
  case Nil
  show ?case by simp
next
  case (Cons c s)
  obtain p ps where ps: "split_dot s = p # ps"
    using split_dot_not_Nil [of s] by (cases "split_dot s") auto
  with Cons show ?case by (cases ps) auto
qed

text \<open>A path without a dot is taken whole as the extension, and the name is empty.\<close>

lemma flPath_plain: "dot \<notin> set path \<Longrightarrow> flPath sfx path = sfx @ path"
  by (simp add: flPath_def split_dot_plain pop_def or_empty_def)

text \<open>Otherwise the text after the last dot is the extension.\<close>

lemma flPath_dotted:
  "dot \<notin> set ext \<Longrightarrow> flPath sfx (base @ dot # ext) = base @ sfx @ ext"
  by (simp add: flPath_def split_dot_append split_dot_plain pop_def or_empty_def
                split_dot_not_Nil join_split_dot butlast_append)

lemma last_dot_split:
  "dot \<in> set s \<Longrightarrow> \<exists>base ext. s = base @ dot # ext \<and> dot \<notin> set ext"
  using split_list_last by fastforce

lemma flPath_length:
  "length (flPath sfx path) =
     (if dot \<in> set path then length path + length sfx - 1 else length path + length sfx)"
proof (cases "dot \<in> set path")
  case True
  then obtain base ext where "path = base @ dot # ext" "dot \<notin> set ext"
    using last_dot_split by blast
  then show ?thesis by (simp add: flPath_dotted)
next
  case False
  then show ?thesis by (simp add: flPath_plain)
qed

lemma flPath_differs: "2 \<le> length sfx \<Longrightarrow> flPath sfx path \<noteq> path"
proof
  assume "2 \<le> length sfx" and "flPath sfx path = path"
  then have "length (flPath sfx path) = length path" by simp
  with \<open>2 \<le> length sfx\<close> show False by (simp add: flPath_length split: if_splits)
qed

lemma flPath_foo_py: "flPath sfx ''foo.py'' = ''foo'' @ sfx @ ''py''"
  using flPath_dotted [of "''py''" sfx "''foo''"] by (simp add: dot_def)

section \<open>The writer, case by case\<close>

lemma edit_writeTextFile_eq:
  "edit_writeTextFile fs path content =
     (case refused fs (flPath ''_edited.'' path) of
        Some msg \<Rightarrow> Inr (''Error creating the edited file: Error: '' @ msg, fs)
      | None \<Rightarrow>
          Inr (''Successfully edited your file! Find the edited version at: ''
                 @ flPath ''_edited.'' path,
               fs\<lparr>files := (files fs)(flPath ''_edited.'' path \<mapsto> content)\<rparr>))"
  by (simp add: edit_writeTextFile_def try_catch_def writeFile_def green_def bold_def
           split: option.splits)

lemma fix_writeTextFile_eq:
  "fix_writeTextFile fs path content =
     (case refused fs (flPath ''_fixed.'' path) of
        Some msg \<Rightarrow> Inr (''Error creating the edited file: Error: '' @ msg, fs)
      | None \<Rightarrow>
          Inr (''Successfully fixed your file! Find the fixed version at: ''
                 @ flPath ''_fixed.'' path,
               fs\<lparr>files := (files fs)(flPath ''_fixed.'' path \<mapsto> content)\<rparr>))"
  by (simp add: fix_writeTextFile_def try_catch_def writeFile_def green_def bold_def
           split: option.splits)

section \<open>Reasoning about a run\<close>

lemma attempts_log [simp]: "attempts fmt (log w entry) = attempts fmt w"
  by (simp add: attempts_def log_def)

lemma attempts_disk [simp]: "attempts fmt (w\<lparr>disk := fs'\<rparr>) = attempts fmt w"
  by (simp add: attempts_def)

lemma attempts_chat:
  "chat backend w request = (r, w') \<Longrightarrow>
     attempts fmt w' = attempts fmt w + (if responseFormat request = fmt then 1 else 0)"
  by (auto simp: attempts_def chat_def)

lemma result_parts [simp]:
  "outcome_of (out, w, state, seen) = out"
  "world_of (out, w, state, seen) = w"
  "state_of (out, w, state, seen) = state"
  "events_of (out, w, state, seen) = seen"
  by (simp_all add: outcome_of_def world_of_def state_of_def events_of_def)

lemma disk_log [simp]: "disk (log w entry) = disk w"
  by (simp add: log_def)

lemma calls_log [simp]: "calls (log w entry) = calls w"
  by (simp add: log_def)

lemma logs_log [simp]: "logs (log w entry) = logs w @ [entry]"
  by (simp add: log_def)

lemma responseFormat_requests [simp]:
  "responseFormat (edit_generation_request path feat details language content) = CODE_SCHEMA"
  "responseFormat (edit_judging_request state artifact) = JUDGING_SCHEMA"
  "responseFormat (fix_evaluation_request path err details language content) = ERROR_SCHEMA"
  "responseFormat (fix_generation_request fstate explanation proposed) = FIX_SCHEMA"
  "responseFormat (fix_judging_request fstate artifact) = JUDGING_SCHEMA"
  "responseFormat (explain_request language path level problem content) = SCHEMA"
  by (simp_all add: edit_generation_request_def edit_judging_request_def
        fix_evaluation_request_def fix_generation_request_def fix_judging_request_def
        explain_request_def)

lemma parse_response_Inr:
  "JSON_parse content = Inr j \<Longrightarrow> parse_response schema_parse content = schema_parse j"
  by (simp add: parse_response_def)

lemma parse_response_Inl:
  "parse_response schema_parse content = Inl e \<Longrightarrow>
     (JSON_parse content = Inl e)
     \<or> (\<exists>j. JSON_parse content = Inr j \<and> schema_parse j = Inl e)"
  by (auto simp: parse_response_def split: sum.splits)

lemma show_nat_digits [simp]: "show_nat 0 = ''0''" "show_nat (Suc 0) = ''1''"
  by (simp_all add: show_nat.simps [of 0] show_nat.simps [of "Suc 0"] digit_def)

lemma initial_counters [simp]:
  "numIterations edit_initial = 0" "numIterations fix_initial = 0"
  by (simp_all add: edit_initial_def fix_initial_def)

text \<open>
  A property that holds at the start of the loop, that every turn keeps and that gives
  \<open>Q\<close> of the result when the loop stops, gives \<open>Q\<close> of the result of the loop.
\<close>

lemma edit_loop_rule:
  assumes "I c"
    and "\<And>c c'. I c \<Longrightarrow> edit_step backend c = Inr c' \<Longrightarrow> I c'"
    and "\<And>c r. I c \<Longrightarrow> edit_step backend c = Inl r \<Longrightarrow> Q r"
  shows "Q (edit_loop backend c)"
  using assms(1)
proof (induction c rule: measure_induct_rule [where f = edit_measure])
  case (less c)
  show ?case
  proof (cases "edit_step backend c")
    case (Inl r)
    with less.prems assms(3) show ?thesis by (simp add: edit_loop.simps [of backend c])
  next
    case (Inr c')
    then have "edit_measure c' < edit_measure c" by (rule edit_step_decreases)
    moreover from less.prems Inr have "I c'" by (rule assms(2))
    ultimately have "Q (edit_loop backend c')" by (rule less.IH)
    with Inr show ?thesis by (simp add: edit_loop.simps [of backend c])
  qed
qed

lemma fix_loop_rule:
  assumes "I c"
    and "\<And>c c'. I c \<Longrightarrow> fix_step backend c = Inr c' \<Longrightarrow> I c'"
    and "\<And>c r. I c \<Longrightarrow> fix_step backend c = Inl r \<Longrightarrow> Q r"
  shows "Q (fix_loop backend c)"
  using assms(1)
proof (induction c rule: measure_induct_rule [where f = fix_measure])
  case (less c)
  show ?case
  proof (cases "fix_step backend c")
    case (Inl r)
    with less.prems assms(3) show ?thesis by (simp add: fix_loop.simps [of backend c])
  next
    case (Inr c')
    then have "fix_measure c' < fix_measure c" by (rule fix_step_decreases)
    moreover from less.prems Inr have "I c'" by (rule assms(2))
    ultimately have "Q (fix_loop backend c')" by (rule less.IH)
    with Inr show ?thesis by (simp add: fix_loop.simps [of backend c])
  qed
qed

lemma edit_loop_stop:
  "isl (edit_step backend c) \<Longrightarrow> edit_loop backend c = projl (edit_step backend c)"
  by (cases "edit_step backend c") (simp_all add: edit_loop.simps [of backend c])

lemma edit_loop_continue:
  "\<not> isl (edit_step backend c) \<Longrightarrow>
     edit_loop backend c = edit_loop backend (projr (edit_step backend c))"
  by (cases "edit_step backend c") (simp_all add: edit_loop.simps [of backend c])

lemma fix_loop_stop:
  "isl (fix_step backend c) \<Longrightarrow> fix_loop backend c = projl (fix_step backend c)"
  by (cases "fix_step backend c") (simp_all add: fix_loop.simps [of backend c])

lemma fix_loop_continue:
  "\<not> isl (fix_step backend c) \<Longrightarrow>
     fix_loop backend c = fix_loop backend (projr (fix_step backend c))"
  by (cases "fix_step backend c") (simp_all add: fix_loop.simps [of backend c])

lemma config_parts [simp]:
  "config_world (w, state, iteration, seen, event) = w"
  "config_state (w, state, iteration, seen, event) = state"
  "config_seen (w, state, iteration, seen, event) = seen"
  "config_event (w, state, iteration, seen, event) = event"
  by (simp_all add: config_world_def config_state_def config_seen_def config_event_def)

lemma judged_log [simp]: "judged (log w entry) = judged w"
  by (simp add: judged_def log_def)

lemma judged_disk [simp]: "judged (w\<lparr>disk := fs'\<rparr>) = judged w"
  by (simp add: judged_def)

lemma judged_chat:
  "chat backend w request = (r, w') \<Longrightarrow>
     judged w'
       = judged w @ (if responseFormat request = JUDGING_SCHEMA then [user_content request] else [])"
  by (auto simp: judged_def chat_def)

lemma user_content_judging [simp]:
  "user_content (edit_judging_request state artifact) = artifact"
  "user_content (fix_judging_request fstate artifact) = artifact"
  by (simp_all add: edit_judging_request_def fix_judging_request_def)

lemma edit_trace_snoc [simp]:
  "edit_submitted (events @ [event])
     = edit_submitted events @ (case event of EditGenerationEvent a \<Rightarrow> [a] | _ \<Rightarrow> [])"
  "edit_written (events @ [event])
     = edit_written events @ (case event of EditWritingEvent c \<Rightarrow> [c] | _ \<Rightarrow> [])"
  "edit_passed (events @ [event])
     = (edit_passed events \<or> (case event of EditJudgingEvent v fb \<Rightarrow> v | _ \<Rightarrow> False))"
  "edit_submitted [] = []" "edit_written [] = []" "edit_passed [] = False"
  by (simp_all add: edit_submitted_def edit_written_def edit_passed_def)

lemma fix_trace_snoc [simp]:
  "fix_submitted (events @ [event])
     = fix_submitted events @ (case event of FixGenerationEvent a \<Rightarrow> [a] | _ \<Rightarrow> [])"
  "fix_written (events @ [event])
     = fix_written events @ (case event of FixWritingEvent c \<Rightarrow> [c] | _ \<Rightarrow> [])"
  "fix_passed (events @ [event])
     = (fix_passed events \<or> (case event of FixJudgingEvent v fb \<Rightarrow> v | _ \<Rightarrow> False))"
  "fix_submitted [] = []" "fix_written [] = []" "fix_passed [] = False"
  by (simp_all add: fix_submitted_def fix_written_def fix_passed_def)

lemma successively_snoc:
  "successively P (xs @ [x, y]) = (successively P (xs @ [x]) \<and> P x y)"
  by (auto simp: successively_append_iff)

lemma chained_snoc:
  "chained follows h (cs @ [request])
     = (chained follows h cs \<and> (cs = [] \<or> follows (h @ butlast cs) (last cs) request))"
proof (induction cs arbitrary: h)
  case Nil
  show ?case by simp
next
  case (Cons a cs)
  show ?case
  proof (cases cs)
    case Nil
    then show ?thesis by simp
  next
    case (Cons b ds)
    with Cons.IH [of "h @ [a]"] show ?thesis by auto
  qed
qed

text \<open>
  One turn of the loop, event by event: what it asks of the file system and of the
  backend, and the configuration that it leaves.
\<close>

lemma edit_step_start:
  assumes "edit_step backend (w, state, iteration, seen, EditStartEvent path feat details language)
             = Inr c'"
  shows "\<exists>fc content v.
           readTextFile (disk w) path = Inr fc
           \<and> backend (calls w) (edit_generation_request path feat details language fc) = Inr content
           \<and> parse_response CODE_SCHEMA_parse content = Inr v
           \<and> calls (config_world c')
               = calls w @ [edit_generation_request path feat details language fc]
           \<and> disk (config_world c') = disk w
           \<and> config_state c'
               = state\<lparr>numIterations := numIterations state + 1, filePath := path,
                       codeLanguage := language, generatedContent := code_content v,
                       feature := feat, implementationDetails := details\<rparr>
           \<and> config_seen c' = seen @ [EditStartEvent path feat details language]
           \<and> config_event c'
               = (if maxIterations state < numIterations state + 1
                  then EditWritingEvent (code_content v)
                  else EditGenerationEvent (code_content v))"
  using assms
  by (auto simp: edit_startEvent_handler_def Let_def chat_def parse_response_Inr
           split: sum.splits prod.splits if_splits)

lemma edit_step_generation:
  assumes "edit_step backend (w, state, iteration, seen, EditGenerationEvent artifact) = Inr c'"
  shows "\<exists>content v.
           backend (calls w) (edit_judging_request state artifact) = Inr content
           \<and> parse_response JUDGING_SCHEMA_parse content = Inr v
           \<and> calls (config_world c') = calls w @ [edit_judging_request state artifact]
           \<and> disk (config_world c') = disk w
           \<and> config_state c' = state
           \<and> config_seen c' = seen @ [EditGenerationEvent artifact]
           \<and> config_event c' = EditJudgingEvent (pass v) (feedback v)"
  using assms
  by (auto simp: edit_generationEvent_handler_def chat_def parse_response_Inr
           split: sum.splits prod.splits if_splits)

lemma edit_step_judging:
  "\<exists>c'. edit_step backend (w, state, iteration, seen, EditJudgingEvent passed fb) = Inr c'
         \<and> calls (config_world c') = calls w
         \<and> disk (config_world c') = disk w
         \<and> config_state c' = state
         \<and> config_seen c' = seen @ [EditJudgingEvent passed fb]
         \<and> config_event c'
             = (if passed then EditWritingEvent (generatedContent state)
                else EditStartEvent (filePath state) (feature state)
                       (edit_retry_details (generatedContent state) fb) (codeLanguage state))"
  by (simp add: edit_judgingEvent_handler_def)

lemma edit_step_writing:
  "\<exists>c' msg fs'. edit_step backend (w, state, iteration, seen, EditWritingEvent content) = Inr c'
         \<and> edit_writeTextFile (disk w) (filePath state) content = Inr (msg, fs')
         \<and> calls (config_world c') = calls w
         \<and> disk (config_world c') = fs'
         \<and> config_state c' = state
         \<and> config_seen c' = seen @ [EditWritingEvent content]
         \<and> config_event c' = EditResultEvent msg"
  by (simp add: edit_writingEvent_handler_def edit_writeTextFile_eq split: option.splits)

lemma edit_step_result:
  "\<exists>w'. edit_step backend (w, state, iteration, seen, EditResultEvent message)
           = Inl (Completed, w', state, seen @ [EditResultEvent message])
         \<and> calls w' = calls w \<and> disk w' = disk w"
  by simp

lemma edit_handler_start:
  "\<exists>w0. edit_handler backend w language path feat details
           = edit_loop backend (w0, edit_initial, 0, [], EditStartEvent path feat details language)
        \<and> calls w0 = calls w \<and> disk w0 = disk w"
  unfolding edit_handler_def edit_runWorkflow_def
  by (intro exI conjI, rule refl) simp_all

lemma fix_step_start:
  assumes "fix_step backend (w, state, iteration, seen, FixStartEvent path err details language)
             = Inr c'"
  shows "\<exists>fc content v.
           readTextFile (disk w) path = Inr fc
           \<and> backend (calls w) (fix_evaluation_request path err details language fc) = Inr content
           \<and> parse_response ERROR_SCHEMA_parse content = Inr v
           \<and> calls (config_world c')
               = calls w @ [fix_evaluation_request path err details language fc]
           \<and> disk (config_world c') = disk w
           \<and> config_state c'
               = state\<lparr>filePath := path, codeLanguage := language, error := err,
                       errorDetails := details, fileContent := fc\<rparr>
           \<and> config_seen c' = seen @ [FixStartEvent path err details language]
           \<and> config_event c' = FixErrorEvaluationEvent (error_explanation v) (proposed_fix v)"
  using assms
  by (auto simp: fix_startEvent_handler_def chat_def parse_response_Inr
           split: sum.splits prod.splits if_splits)

lemma fix_step_errorEvaluation:
  assumes "fix_step backend (w, state, iteration, seen, FixErrorEvaluationEvent explanation proposed)
             = Inr c'"
  shows "\<exists>content v.
           backend (calls w)
             (fix_generation_request (state\<lparr>numIterations := numIterations state + 1\<rparr>)
                explanation proposed) = Inr content
           \<and> parse_response FIX_SCHEMA_parse content = Inr v
           \<and> calls (config_world c')
               = calls w @ [fix_generation_request
                              (state\<lparr>numIterations := numIterations state + 1\<rparr>)
                              explanation proposed]
           \<and> disk (config_world c') = disk w
           \<and> config_state c'
               = state\<lparr>numIterations := numIterations state + 1,
                       generatedContent := fixed_content v\<rparr>
           \<and> config_seen c' = seen @ [FixErrorEvaluationEvent explanation proposed]
           \<and> config_event c'
               = (if maxIterations state < numIterations state + 1
                  then FixWritingEvent (fixed_content v)
                  else FixGenerationEvent (fixed_content v))"
  using assms
  by (auto simp: fix_errorEvaluationEvent_handler_def Let_def chat_def parse_response_Inr
           split: sum.splits prod.splits if_splits)

lemma fix_step_generation:
  assumes "fix_step backend (w, state, iteration, seen, FixGenerationEvent artifact) = Inr c'"
  shows "\<exists>content v.
           backend (calls w) (fix_judging_request state artifact) = Inr content
           \<and> parse_response JUDGING_SCHEMA_parse content = Inr v
           \<and> calls (config_world c') = calls w @ [fix_judging_request state artifact]
           \<and> disk (config_world c') = disk w
           \<and> config_state c' = state
           \<and> config_seen c' = seen @ [FixGenerationEvent artifact]
           \<and> config_event c' = FixJudgingEvent (pass v) (feedback v)"
  using assms
  by (auto simp: fix_generationEvent_handler_def chat_def parse_response_Inr
           split: sum.splits prod.splits if_splits)

lemma fix_step_judging:
  "\<exists>c'. fix_step backend (w, state, iteration, seen, FixJudgingEvent passed fb) = Inr c'
         \<and> calls (config_world c') = calls w
         \<and> disk (config_world c') = disk w
         \<and> config_state c' = state
         \<and> config_seen c' = seen @ [FixJudgingEvent passed fb]
         \<and> config_event c'
             = (if passed then FixWritingEvent (generatedContent state)
                else FixStartEvent (filePath state) (error state)
                       (fix_retry_details (generatedContent state) fb) (codeLanguage state))"
  by (simp add: fix_judgingEvent_handler_def)

lemma fix_step_writing:
  "\<exists>c' msg fs'. fix_step backend (w, state, iteration, seen, FixWritingEvent content) = Inr c'
         \<and> fix_writeTextFile (disk w) (filePath state) content = Inr (msg, fs')
         \<and> calls (config_world c') = calls w
         \<and> disk (config_world c') = fs'
         \<and> config_state c' = state
         \<and> config_seen c' = seen @ [FixWritingEvent content]
         \<and> config_event c' = FixResultEvent msg"
  by (simp add: fix_writingEvent_handler_def fix_writeTextFile_eq split: option.splits)

lemma fix_step_result:
  "\<exists>w'. fix_step backend (w, state, iteration, seen, FixResultEvent message)
           = Inl (Completed, w', state, seen @ [FixResultEvent message])
         \<and> calls w' = calls w \<and> disk w' = disk w"
  by simp

lemma fix_handler_start:
  "\<exists>w0. fix_handler backend w language path err details
           = fix_loop backend (w0, fix_initial, 0, [], FixStartEvent path err details language)
        \<and> calls w0 = calls w \<and> disk w0 = disk w"
  unfolding fix_handler_def fix_runWorkflow_def
  by (intro exI conjI, rule refl) simp_all

section \<open>The sample inputs, evaluated\<close>

lemma sample_world_parts [simp]:
  "calls sample_world = []"
  "logs sample_world = []"
  "readTextFile (disk sample_world) ''foo.py'' = Inr ''x = 1''"
  by (simp_all add: sample_world_def readTextFile_def readFile_def)

lemma sample_world_fresh [simp]: "attempts fmt sample_world = 0"
  by (simp add: attempts_def sample_world_def)

lemma sample_disk [simp]:
  "refused (disk sample_world) p = None"
  by (simp add: sample_world_def)

lemma edit_last_round_writes:
  "edit_startEvent_handler judge_never_passes sample_world edit_last_round
      ''foo.py'' ''double x'' (edit_retry_details ''x = 2'' ''too slow'') ''python''
   = (Inr (EditWritingEvent ''x = 2''),
      sample_world\<lparr>calls := [edit_generation_request ''foo.py'' ''double x''
                                (edit_retry_details ''x = 2'' ''too slow'') ''python'' ''x = 1'']\<rparr>,
      edit_last_round\<lparr>numIterations := 4\<rparr>)"
  by (simp add: edit_startEvent_handler_def readTextFile_def readFile_def chat_def
        sample_world_def judge_never_passes_def edit_last_round_def CODE_SCHEMA_parse_def
        edit_generation_request_def)

lemma fix_last_round_writes:
  "fix_errorEvaluationEvent_handler judge_never_passes sample_world fix_last_round
      ''x is unset'' ''set x''
   = (Inr (FixWritingEvent ''x = 2''),
      sample_world\<lparr>calls := [fix_generation_request (fix_last_round\<lparr>numIterations := 4\<rparr>)
                                ''x is unset'' ''set x'']\<rparr>,
      fix_last_round\<lparr>numIterations := 4\<rparr>)"
  by (simp add: fix_errorEvaluationEvent_handler_def chat_def Let_def
        sample_world_def judge_never_passes_def fix_last_round_def FIX_SCHEMA_parse_def
        fix_generation_request_def)

lemma wrong_types_responses:
  "parse_response CODE_SCHEMA_parse (JSON (JObject [(''code_content'', JNumber ''42'')]))
     = Inl (ZodError [ZodIssue [''code_content''] ''Expected string, received number''])"
  "parse_response JUDGING_SCHEMA_parse (JSON (JObject [(''pass'', JString ''yes'')]))
     = Inl (ZodError [ZodIssue [''pass''] ''Expected boolean, received string'',
                      ZodIssue [''feedback''] ''Required''])"
  "parse_response ERROR_SCHEMA_parse (JSON (JArray []))
     = Inl (ZodError [ZodIssue [] ''Expected object, received array''])"
  "parse_response FIX_SCHEMA_parse (JSON (JObject [(''fixed_content'', JNull)]))
     = Inl (ZodError [ZodIssue [''fixed_content''] ''Expected string, received null''])"
  by (simp_all add: parse_response_def CODE_SCHEMA_parse_def JUDGING_SCHEMA_parse_def
        ERROR_SCHEMA_parse_def FIX_SCHEMA_parse_def invalid_type_def)

lemma sample_edit_run:
  "outcome_of (edit_handler judge_never_passes sample_world
                 ''python'' ''foo.py'' ''double x'' ''use a loop'') = Completed"
  "map responseFormat
     (calls (world_of (edit_handler judge_never_passes sample_world
                         ''python'' ''foo.py'' ''double x'' ''use a loop'')))
     = [CODE_SCHEMA, JUDGING_SCHEMA, CODE_SCHEMA, JUDGING_SCHEMA,
        CODE_SCHEMA, JUDGING_SCHEMA, CODE_SCHEMA]"
  "calls (world_of (edit_handler judge_never_passes sample_world
                      ''python'' ''foo.py'' ''double x'' ''use a loop'')) ! 0
     = edit_generation_request ''foo.py'' ''double x'' ''use a loop'' ''python'' ''x = 1''"
  "calls (world_of (edit_handler judge_never_passes sample_world
                      ''python'' ''foo.py'' ''double x'' ''use a loop'')) ! 2
     = edit_generation_request ''foo.py'' ''double x''
         (edit_retry_details ''x = 2'' ''too slow'') ''python'' ''x = 1''"
  "files (disk (world_of (edit_handler judge_never_passes sample_world
                            ''python'' ''foo.py'' ''double x'' ''use a loop''))) ''foo_edited.py''
     = Some ''x = 2''"
  by (simp_all add: edit_handler_def edit_runWorkflow_def edit_loop_stop edit_loop_continue
        edit_startEvent_handler_def edit_generationEvent_handler_def
        edit_judgingEvent_handler_def edit_writingEvent_handler_def edit_writeTextFile_eq
        readTextFile_def readFile_def chat_def log_def
        CODE_SCHEMA_parse_def JUDGING_SCHEMA_parse_def edit_initial_def
        judge_never_passes_def sample_world_def flPath_foo_py)

lemma passing_runs:
  "outcome_of (edit_handler judge_passes sample_world ''python'' ''foo.py'' ''double x'' ''use a loop'')
     = Completed"
  "generatedContent
     (state_of (edit_handler judge_passes sample_world ''python'' ''foo.py'' ''double x'' ''use a loop''))
     = ''x = 2''"
  "outcome_of (fix_handler judge_passes sample_world ''python'' ''foo.py'' ''NameError'' ''line 1'')
     = Completed"
  "generatedContent
     (state_of (fix_handler judge_passes sample_world ''python'' ''foo.py'' ''NameError'' ''line 1''))
     = ''x = 2''"
  by (simp_all add: edit_handler_def edit_runWorkflow_def edit_loop_stop edit_loop_continue
        edit_startEvent_handler_def edit_generationEvent_handler_def
        edit_judgingEvent_handler_def edit_writingEvent_handler_def edit_writeTextFile_eq
        fix_handler_def fix_runWorkflow_def fix_loop_stop fix_loop_continue
        fix_startEvent_handler_def fix_errorEvaluationEvent_handler_def
        fix_generationEvent_handler_def fix_judgingEvent_handler_def fix_writingEvent_handler_def
        fix_writeTextFile_eq chat_def log_def
        CODE_SCHEMA_parse_def JUDGING_SCHEMA_parse_def ERROR_SCHEMA_parse_def FIX_SCHEMA_parse_def
        edit_initial_def fix_initial_def judge_passes_def sample_world_def readTextFile_def
        readFile_def flPath_foo_py)

lemma sample_fix_run:
  "calls (world_of (fix_handler judge_never_passes sample_world
                      ''python'' ''foo.py'' ''NameError'' ''line 1'')) ! 0
     = fix_evaluation_request ''foo.py'' ''NameError'' ''line 1'' ''python'' ''x = 1''"
  "calls (world_of (fix_handler judge_never_passes sample_world
                      ''python'' ''foo.py'' ''NameError'' ''line 1'')) ! 3
     = fix_evaluation_request ''foo.py'' ''NameError''
         (fix_retry_details ''x = 2'' ''too slow'') ''python'' ''x = 1''"
  "map responseFormat
     (calls (world_of (fix_handler judge_never_passes sample_world
                         ''python'' ''foo.py'' ''NameError'' ''line 1'')))
     = [ERROR_SCHEMA, FIX_SCHEMA, JUDGING_SCHEMA, ERROR_SCHEMA, FIX_SCHEMA, JUDGING_SCHEMA,
        ERROR_SCHEMA, FIX_SCHEMA, JUDGING_SCHEMA, ERROR_SCHEMA, FIX_SCHEMA]"
  by (simp_all add: fix_handler_def fix_runWorkflow_def fix_loop_stop fix_loop_continue
        fix_startEvent_handler_def fix_errorEvaluationEvent_handler_def
        fix_generationEvent_handler_def fix_judgingEvent_handler_def fix_writingEvent_handler_def
        fix_writeTextFile_eq readTextFile_def readFile_def chat_def log_def Let_def
        ERROR_SCHEMA_parse_def FIX_SCHEMA_parse_def JUDGING_SCHEMA_parse_def fix_initial_def
        judge_never_passes_def sample_world_def flPath_foo_py)

section \<open>Termination and the bound on the generations\<close>

lemma edit_inv_step:
  assumes "edit_inv g c" and "edit_step backend c = Inr c'"
  shows "edit_inv g c'"
proof -
  obtain w state iteration seen event where c: "c = (w, state, iteration, seen, event)"
    by (cases c) auto
  show ?thesis
  proof (cases event)
    case (EditStartEvent path feat details language)
    with assms c show ?thesis
      by (auto simp: edit_inv_def edit_startEvent_handler_def Let_def
               split: sum.splits prod.splits if_splits
               dest!: attempts_chat [where fmt = CODE_SCHEMA])
  next
    case (EditGenerationEvent content)
    with assms c show ?thesis
      by (auto simp: edit_inv_def edit_generationEvent_handler_def edit_judging_request_def
               split: sum.splits prod.splits if_splits
               dest!: attempts_chat [where fmt = CODE_SCHEMA])
  next
    case (EditJudgingEvent passed fb)
    with assms c show ?thesis
      by (auto simp: edit_inv_def edit_judgingEvent_handler_def
               split: sum.splits prod.splits if_splits)
  next
    case (EditWritingEvent content)
    with assms c show ?thesis
      by (auto simp: edit_inv_def edit_writingEvent_handler_def
               split: sum.splits prod.splits if_splits)
  next
    case (EditResultEvent message)
    with assms c show ?thesis by simp
  qed
qed

lemma edit_inv_final:
  assumes "edit_inv g c" and "edit_step backend c = Inl r"
  shows "edit_bounded g r"
proof -
  obtain w state iteration seen event where c: "c = (w, state, iteration, seen, event)"
    by (cases c) auto
  show ?thesis
  proof (cases event)
    case (EditStartEvent path feat details language)
    with assms c show ?thesis
      by (auto simp: edit_inv_def edit_bounded_def edit_startEvent_handler_def Let_def
                     edit_generation_request_def
               split: sum.splits prod.splits if_splits
               dest!: attempts_chat [where fmt = CODE_SCHEMA])
  next
    case (EditGenerationEvent content)
    with assms c show ?thesis
      by (auto simp: edit_inv_def edit_bounded_def edit_generationEvent_handler_def
                     edit_judging_request_def
               split: sum.splits prod.splits if_splits
               dest!: attempts_chat [where fmt = CODE_SCHEMA])
  next
    case (EditJudgingEvent passed fb)
    with assms c show ?thesis
      by (auto simp: edit_inv_def edit_bounded_def edit_judgingEvent_handler_def
               split: sum.splits prod.splits if_splits)
  next
    case (EditWritingEvent content)
    with assms c show ?thesis
      by (auto simp: edit_inv_def edit_bounded_def edit_writingEvent_handler_def
               split: sum.splits prod.splits if_splits)
  next
    case (EditResultEvent message)
    with assms c show ?thesis by (auto simp: edit_inv_def edit_bounded_def)
  qed
qed

lemma edit_run_bounded:
  "edit_bounded (attempts CODE_SCHEMA w) (edit_runWorkflow backend w path feat details language)"
  unfolding edit_runWorkflow_def
proof (rule edit_loop_rule [where I = "edit_inv (attempts CODE_SCHEMA w)"])
  show "edit_inv (attempts CODE_SCHEMA w)
          (w, edit_initial, 0, [], EditStartEvent path feat details language)"
    by (simp add: edit_inv_def edit_initial_def)
qed (auto intro: edit_inv_step edit_inv_final)

lemma fix_inv_step:
  assumes "fix_inv g c" and "fix_step backend c = Inr c'"
  shows "fix_inv g c'"
proof -
  obtain w state iteration seen event where c: "c = (w, state, iteration, seen, event)"
    by (cases c) auto
  show ?thesis
  proof (cases event)
    case (FixStartEvent path err details language)
    with assms c show ?thesis
      by (auto simp: fix_inv_def fix_startEvent_handler_def fix_evaluation_request_def
               split: sum.splits prod.splits if_splits
               dest!: attempts_chat [where fmt = FIX_SCHEMA])
  next
    case (FixErrorEvaluationEvent explanation proposed)
    with assms c show ?thesis
      by (auto simp: fix_inv_def fix_errorEvaluationEvent_handler_def Let_def
                     fix_generation_request_def
               split: sum.splits prod.splits if_splits
               dest!: attempts_chat [where fmt = FIX_SCHEMA])
  next
    case (FixGenerationEvent content)
    with assms c show ?thesis
      by (auto simp: fix_inv_def fix_generationEvent_handler_def fix_judging_request_def
               split: sum.splits prod.splits if_splits
               dest!: attempts_chat [where fmt = FIX_SCHEMA])
  next
    case (FixJudgingEvent passed fb)
    with assms c show ?thesis
      by (auto simp: fix_inv_def fix_judgingEvent_handler_def
               split: sum.splits prod.splits if_splits)
  next
    case (FixWritingEvent content)
    with assms c show ?thesis
      by (auto simp: fix_inv_def fix_writingEvent_handler_def
               split: sum.splits prod.splits if_splits)
  next
    case (FixResultEvent message)
    with assms c show ?thesis by simp
  qed
qed

lemma fix_inv_final:
  assumes "fix_inv g c" and "fix_step backend c = Inl r"
  shows "fix_bounded g r"
proof -
  obtain w state iteration seen event where c: "c = (w, state, iteration, seen, event)"
    by (cases c) auto
  show ?thesis
  proof (cases event)
    case (FixStartEvent path err details language)
    with assms c show ?thesis
      by (auto simp: fix_inv_def fix_bounded_def fix_startEvent_handler_def
                     fix_evaluation_request_def
               split: sum.splits prod.splits if_splits
               dest!: attempts_chat [where fmt = FIX_SCHEMA])
  next
    case (FixErrorEvaluationEvent explanation proposed)
    with assms c show ?thesis
      by (auto simp: fix_inv_def fix_bounded_def fix_errorEvaluationEvent_handler_def Let_def
                     fix_generation_request_def
               split: sum.splits prod.splits if_splits
               dest!: attempts_chat [where fmt = FIX_SCHEMA])
  next
    case (FixGenerationEvent content)
    with assms c show ?thesis
      by (auto simp: fix_inv_def fix_bounded_def fix_generationEvent_handler_def
                     fix_judging_request_def
               split: sum.splits prod.splits if_splits
               dest!: attempts_chat [where fmt = FIX_SCHEMA])
  next
    case (FixJudgingEvent passed fb)
    with assms c show ?thesis
      by (auto simp: fix_inv_def fix_bounded_def fix_judgingEvent_handler_def
               split: sum.splits prod.splits if_splits)
  next
    case (FixWritingEvent content)
    with assms c show ?thesis
      by (auto simp: fix_inv_def fix_bounded_def fix_writingEvent_handler_def
               split: sum.splits prod.splits if_splits)
  next
    case (FixResultEvent message)
    with assms c show ?thesis by (auto simp: fix_inv_def fix_bounded_def)
  qed
qed

lemma fix_run_bounded:
  "fix_bounded (attempts FIX_SCHEMA w) (fix_runWorkflow backend w path err details language)"
  unfolding fix_runWorkflow_def
proof (rule fix_loop_rule [where I = "fix_inv (attempts FIX_SCHEMA w)"])
  show "fix_inv (attempts FIX_SCHEMA w)
          (w, fix_initial, 0, [], FixStartEvent path err details language)"
    by (simp add: fix_inv_def fix_initial_def)
qed (auto intro: fix_inv_step fix_inv_final)

lemma edit_start_success:
  assumes "edit_startEvent_handler backend w state path feat details language = (Inr event, w1, state1)"
  shows "numIterations state1 = numIterations state + 1"
    and "maxIterations state1 = maxIterations state"
    and "attempts CODE_SCHEMA w1 = attempts CODE_SCHEMA w + 1"
    and "event = (if maxIterations state < numIterations state + 1
                  then EditWritingEvent (generatedContent state1)
                  else EditGenerationEvent (generatedContent state1))"
  using assms
  by (auto simp: edit_startEvent_handler_def Let_def edit_generation_request_def
           split: sum.splits prod.splits if_splits
           dest!: attempts_chat [where fmt = CODE_SCHEMA])

lemma fix_errorEvaluation_success:
  assumes "fix_errorEvaluationEvent_handler backend w state explanation proposed = (Inr event, w1, state1)"
  shows "numIterations state1 = numIterations state + 1"
    and "maxIterations state1 = maxIterations state"
    and "attempts FIX_SCHEMA w1 = attempts FIX_SCHEMA w + 1"
    and "event = (if maxIterations state < numIterations state + 1
                  then FixWritingEvent (generatedContent state1)
                  else FixGenerationEvent (generatedContent state1))"
  using assms
  by (auto simp: fix_errorEvaluationEvent_handler_def Let_def fix_generation_request_def
           split: sum.splits prod.splits if_splits
           dest!: attempts_chat [where fmt = FIX_SCHEMA])

lemma edit_handler_bounded:
  "edit_bounded (attempts CODE_SCHEMA w) (edit_handler backend w language path feat details)"
  using edit_run_bounded [of "log (log (log w a) b) c" backend path feat details language for a b c]
  by (simp add: edit_handler_def)

lemma fix_handler_bounded:
  "fix_bounded (attempts FIX_SCHEMA w) (fix_handler backend w language path err details)"
  using fix_run_bounded [of "log (log (log w a) b) c" backend path err details language for a b c]
  by (simp add: fix_handler_def)

text \<open>
  C1. Every run of the edit and of the fix command stops, after at most 12 (edit) and
  16 (fix) events, and makes at most four generation requests, whatever the backend
  and so whatever the verdicts of the judge. The counter starts at 0 and the cap is 3;
  each generation that returns raises the counter by one and is one request; and when
  the counter had reached the cap before it, the next event is the writing event.
\<close>

theorem generation_attempts_bounded:
  "attempts CODE_SCHEMA (world_of (edit_handler backend w language path feat details))
     \<le> attempts CODE_SCHEMA w + 4
   \<and> length (events_of (edit_handler backend w language path feat details)) \<le> 12
   \<and> attempts FIX_SCHEMA (world_of (fix_handler backend w language path err details))
     \<le> attempts FIX_SCHEMA w + 4
   \<and> length (events_of (fix_handler backend w language path err details)) \<le> 16
   \<and> numIterations edit_initial = 0 \<and> maxIterations edit_initial = 3
   \<and> numIterations fix_initial = 0 \<and> maxIterations fix_initial = 3
   \<and> (edit_startEvent_handler backend w state path feat details language = (Inr event, w1, state1)
        \<longrightarrow> numIterations state1 = numIterations state + 1
          \<and> attempts CODE_SCHEMA w1 = attempts CODE_SCHEMA w + 1
          \<and> (maxIterations state \<le> numIterations state
               \<longrightarrow> event = EditWritingEvent (generatedContent state1)))
   \<and> (fix_errorEvaluationEvent_handler backend w fstate explanation proposed
          = (Inr fevent, w2, fstate1)
        \<longrightarrow> numIterations fstate1 = numIterations fstate + 1
          \<and> attempts FIX_SCHEMA w2 = attempts FIX_SCHEMA w + 1
          \<and> (maxIterations fstate \<le> numIterations fstate
               \<longrightarrow> fevent = FixWritingEvent (generatedContent fstate1)))"
proof -
  have "edit_bounded (attempts CODE_SCHEMA w) (edit_handler backend w language path feat details)"
    by (rule edit_handler_bounded)
  then have runs_edit:
    "attempts CODE_SCHEMA (world_of (edit_handler backend w language path feat details))
       \<le> attempts CODE_SCHEMA w + 4
     \<and> length (events_of (edit_handler backend w language path feat details)) \<le> 12"
    by (simp add: edit_bounded_def)
  have "fix_bounded (attempts FIX_SCHEMA w) (fix_handler backend w language path err details)"
    by (rule fix_handler_bounded)
  then have runs_fix:
    "attempts FIX_SCHEMA (world_of (fix_handler backend w language path err details))
       \<le> attempts FIX_SCHEMA w + 4
     \<and> length (events_of (fix_handler backend w language path err details)) \<le> 16"
    by (simp add: fix_bounded_def)
  have start:
    "numIterations edit_initial = 0 \<and> maxIterations edit_initial = 3
     \<and> numIterations fix_initial = 0 \<and> maxIterations fix_initial = 3"
    by (simp add: edit_initial_def fix_initial_def)
  have gen_edit:
    "edit_startEvent_handler backend w state path feat details language = (Inr event, w1, state1)
       \<longrightarrow> numIterations state1 = numIterations state + 1
         \<and> attempts CODE_SCHEMA w1 = attempts CODE_SCHEMA w + 1
         \<and> (maxIterations state \<le> numIterations state
              \<longrightarrow> event = EditWritingEvent (generatedContent state1))"
    using edit_start_success [of backend w state path feat details language event w1 state1]
    by auto
  have gen_fix:
    "fix_errorEvaluationEvent_handler backend w fstate explanation proposed
        = (Inr fevent, w2, fstate1)
       \<longrightarrow> numIterations fstate1 = numIterations fstate + 1
         \<and> attempts FIX_SCHEMA w2 = attempts FIX_SCHEMA w + 1
         \<and> (maxIterations fstate \<le> numIterations fstate
              \<longrightarrow> fevent = FixWritingEvent (generatedContent fstate1))"
    using fix_errorEvaluation_success [of backend w fstate explanation proposed fevent w2 fstate1]
    by auto
  from runs_edit runs_fix start gen_edit gen_fix show ?thesis by blast
qed

theorem generation_attempts_bounded_witness:
  "attempts CODE_SCHEMA
     (world_of (edit_handler judge_never_passes sample_world ''python'' ''foo.py'' ''double x''
                  (edit_retry_details ''x = 2'' ''too slow'')))
     \<le> 4
   \<and> attempts FIX_SCHEMA
     (world_of (fix_handler judge_never_passes sample_world ''python'' ''foo.py'' ''NameError''
                  (edit_retry_details ''x = 2'' ''too slow'')))
     \<le> 4
   \<and> fst (edit_startEvent_handler judge_never_passes sample_world edit_last_round
             ''foo.py'' ''double x'' (edit_retry_details ''x = 2'' ''too slow'') ''python'')
       = Inr (EditWritingEvent ''x = 2'')
   \<and> fst (fix_errorEvaluationEvent_handler judge_never_passes sample_world fix_last_round
             ''x is unset'' ''set x'')
       = Inr (FixWritingEvent ''x = 2'')"
  using generation_attempts_bounded
    [where backend = judge_never_passes and w = sample_world and language = "''python''"
       and path = "''foo.py''" and feat = "''double x''"
       and details = "edit_retry_details ''x = 2'' ''too slow''" and err = "''NameError''"
       and state = edit_last_round and event = "EditWritingEvent ''x = 2''"
       and ?w1.0 = "sample_world\<lparr>calls := [edit_generation_request ''foo.py'' ''double x''
                                (edit_retry_details ''x = 2'' ''too slow'') ''python'' ''x = 1'']\<rparr>"
       and ?state1.0 = "edit_last_round\<lparr>numIterations := 4\<rparr>"
       and fstate = fix_last_round and explanation = "''x is unset''" and proposed = "''set x''"
       and fevent = "FixWritingEvent ''x = 2''"
       and ?w2.0 = "sample_world\<lparr>calls := [fix_generation_request (fix_last_round\<lparr>numIterations := 4\<rparr>)
                                ''x is unset'' ''set x'']\<rparr>"
       and ?fstate1.0 = "fix_last_round\<lparr>numIterations := 4\<rparr>"]
  by (simp add: edit_last_round_writes fix_last_round_writes)

section \<open>The files after a run\<close>

lemma edit_frame_step:
  assumes "edit_frame path fs c" and "edit_step backend c = Inr c'"
  shows "edit_frame path fs c'"
proof -
  obtain w state iteration seen event where c: "c = (w, state, iteration, seen, event)"
    by (cases c) auto
  show ?thesis
  proof (cases event)
    case (EditStartEvent path' feat details language)
    with assms c show ?thesis
      by (auto simp: edit_frame_def edit_startEvent_handler_def Let_def chat_def
               split: sum.splits prod.splits if_splits)
  next
    case (EditGenerationEvent content)
    with assms c show ?thesis
      by (auto simp: edit_frame_def edit_generationEvent_handler_def chat_def
               split: sum.splits prod.splits if_splits)
  next
    case (EditJudgingEvent passed fb)
    with assms c show ?thesis
      by (auto simp: edit_frame_def edit_judgingEvent_handler_def
               split: sum.splits prod.splits if_splits)
  next
    case (EditWritingEvent content)
    with assms c show ?thesis
      by (auto simp: edit_frame_def edit_writingEvent_handler_def edit_writeTextFile_eq
               split: sum.splits prod.splits if_splits option.splits)
  next
    case (EditResultEvent message)
    with assms c show ?thesis by simp
  qed
qed

lemma edit_frame_final:
  assumes "edit_frame path fs c" and "edit_step backend c = Inl r"
  shows "edit_framed path fs r"
proof -
  obtain w state iteration seen event where c: "c = (w, state, iteration, seen, event)"
    by (cases c) auto
  show ?thesis
  proof (cases event)
    case (EditStartEvent path' feat details language)
    with assms c show ?thesis
      by (auto simp: edit_frame_def edit_framed_def edit_startEvent_handler_def Let_def chat_def
               split: sum.splits prod.splits if_splits)
  next
    case (EditGenerationEvent content)
    with assms c show ?thesis
      by (auto simp: edit_frame_def edit_framed_def edit_generationEvent_handler_def chat_def
               split: sum.splits prod.splits if_splits)
  next
    case (EditJudgingEvent passed fb)
    with assms c show ?thesis
      by (auto simp: edit_frame_def edit_framed_def edit_judgingEvent_handler_def
               split: sum.splits prod.splits if_splits)
  next
    case (EditWritingEvent content)
    with assms c show ?thesis
      by (auto simp: edit_frame_def edit_framed_def edit_writingEvent_handler_def
                     edit_writeTextFile_eq
               split: sum.splits prod.splits if_splits option.splits)
  next
    case (EditResultEvent message)
    with assms c show ?thesis
      by (auto simp: edit_frame_def edit_framed_def split: option.splits)
  qed
qed

lemma edit_handler_framed:
  "edit_framed path (disk w) (edit_handler backend w language path feat details)"
  unfolding edit_handler_def edit_runWorkflow_def
proof (rule edit_loop_rule [where I = "edit_frame path (disk w)"])
  show "edit_frame path (disk w)
          (log (log (log w (logger_log (gray (repeat box_line 50))))
             (logger_log (bold (cyan (sparkles @ '' Starting the editing process... Almost ready! ''
                                        @ palette)))))
             (logger_log []),
           edit_initial, 0, [], EditStartEvent path feat details language)"
    by (simp add: edit_frame_def)
qed (auto intro: edit_frame_step edit_frame_final)

lemma fix_frame_step:
  assumes "fix_frame path fs c" and "fix_step backend c = Inr c'"
  shows "fix_frame path fs c'"
proof -
  obtain w state iteration seen event where c: "c = (w, state, iteration, seen, event)"
    by (cases c) auto
  show ?thesis
  proof (cases event)
    case (FixStartEvent path' err details language)
    with assms c show ?thesis
      by (auto simp: fix_frame_def fix_startEvent_handler_def chat_def
               split: sum.splits prod.splits if_splits)
  next
    case (FixErrorEvaluationEvent explanation proposed)
    with assms c show ?thesis
      by (auto simp: fix_frame_def fix_errorEvaluationEvent_handler_def Let_def chat_def
               split: sum.splits prod.splits if_splits)
  next
    case (FixGenerationEvent content)
    with assms c show ?thesis
      by (auto simp: fix_frame_def fix_generationEvent_handler_def chat_def
               split: sum.splits prod.splits if_splits)
  next
    case (FixJudgingEvent passed fb)
    with assms c show ?thesis
      by (auto simp: fix_frame_def fix_judgingEvent_handler_def
               split: sum.splits prod.splits if_splits)
  next
    case (FixWritingEvent content)
    with assms c show ?thesis
      by (auto simp: fix_frame_def fix_writingEvent_handler_def fix_writeTextFile_eq
               split: sum.splits prod.splits if_splits option.splits)
  next
    case (FixResultEvent message)
    with assms c show ?thesis by simp
  qed
qed

lemma fix_frame_final:
  assumes "fix_frame path fs c" and "fix_step backend c = Inl r"
  shows "fix_framed path fs r"
proof -
  obtain w state iteration seen event where c: "c = (w, state, iteration, seen, event)"
    by (cases c) auto
  show ?thesis
  proof (cases event)
    case (FixStartEvent path' err details language)
    with assms c show ?thesis
      by (auto simp: fix_frame_def fix_framed_def fix_startEvent_handler_def chat_def
               split: sum.splits prod.splits if_splits)
  next
    case (FixErrorEvaluationEvent explanation proposed)
    with assms c show ?thesis
      by (auto simp: fix_frame_def fix_framed_def fix_errorEvaluationEvent_handler_def Let_def
                     chat_def
               split: sum.splits prod.splits if_splits)
  next
    case (FixGenerationEvent content)
    with assms c show ?thesis
      by (auto simp: fix_frame_def fix_framed_def fix_generationEvent_handler_def chat_def
               split: sum.splits prod.splits if_splits)
  next
    case (FixJudgingEvent passed fb)
    with assms c show ?thesis
      by (auto simp: fix_frame_def fix_framed_def fix_judgingEvent_handler_def
               split: sum.splits prod.splits if_splits)
  next
    case (FixWritingEvent content)
    with assms c show ?thesis
      by (auto simp: fix_frame_def fix_framed_def fix_writingEvent_handler_def
                     fix_writeTextFile_eq
               split: sum.splits prod.splits if_splits option.splits)
  next
    case (FixResultEvent message)
    with assms c show ?thesis
      by (auto simp: fix_frame_def fix_framed_def split: option.splits)
  qed
qed

lemma fix_handler_framed:
  "fix_framed path (disk w) (fix_handler backend w language path err details)"
  unfolding fix_handler_def fix_runWorkflow_def
proof (rule fix_loop_rule [where I = "fix_frame path (disk w)"])
  show "fix_frame path (disk w)
          (log (log (log w (logger_log (gray (repeat box_line 50))))
             (logger_log (bold (cyan (sparkles @ '' Starting the debugging process... Let''
                                        @ [CHR 0x27] @ ''s squash those bugs! ''
                                        @ bug @ collision)))))
             (logger_log []),
           fix_initial, 0, [], FixStartEvent path err details language)"
    by (simp add: fix_frame_def)
qed (auto intro: fix_frame_step fix_frame_final)

lemma edit_run_keeps_original:
  "files (disk (world_of (edit_handler backend w language path feat details))) path
     = files (disk w) path"
proof -
  have "edit_framed path (disk w) (edit_handler backend w language path feat details)"
    by (rule edit_handler_framed)
  then have "path = flPath ''_edited.'' path
      \<or> files (disk (world_of (edit_handler backend w language path feat details))) path
          = files (disk w) path"
    by (simp add: edit_framed_def)
  moreover have "flPath ''_edited.'' path \<noteq> path"
    by (rule flPath_differs) simp
  ultimately show ?thesis by auto
qed

lemma fix_run_keeps_original:
  "files (disk (world_of (fix_handler backend w language path err details))) path
     = files (disk w) path"
proof -
  have "fix_framed path (disk w) (fix_handler backend w language path err details)"
    by (rule fix_handler_framed)
  then have "path = flPath ''_fixed.'' path
      \<or> files (disk (world_of (fix_handler backend w language path err details))) path
          = files (disk w) path"
    by (simp add: fix_framed_def)
  moreover have "flPath ''_fixed.'' path \<noteq> path"
    by (rule flPath_differs) simp
  ultimately show ?thesis by auto
qed

lemma edit_run_writes_generated:
  assumes "outcome_of (edit_handler backend w language path feat details) = Completed"
    and "refused (disk w) (flPath ''_edited.'' path) = None"
  shows "files (disk (world_of (edit_handler backend w language path feat details)))
           (flPath ''_edited.'' path)
         = Some (generatedContent (state_of (edit_handler backend w language path feat details)))"
  using edit_handler_framed [of path w backend language feat details] assms
  by (simp add: edit_framed_def)

lemma fix_run_writes_generated:
  assumes "outcome_of (fix_handler backend w language path err details) = Completed"
    and "refused (disk w) (flPath ''_fixed.'' path) = None"
  shows "files (disk (world_of (fix_handler backend w language path err details)))
           (flPath ''_fixed.'' path)
         = Some (generatedContent (state_of (fix_handler backend w language path err details)))"
  using fix_handler_framed [of path w backend language err details] assms
  by (simp add: fix_framed_def)

section \<open>The order of an iteration\<close>

text \<open>
  C2 as it is stated fails at the last round. With a judge that fails every artifact
  the run of the edit command completes after four generation requests and three
  requests to the judge: the last request of the run is a generation, its artifact is
  never submitted to the judge, and it is the content of the file that is written.
\<close>

theorem last_artifact_not_judged:
  "outcome_of (edit_handler judge_never_passes sample_world
                 ''python'' ''foo.py'' ''double x'' ''use a loop'') = Completed
   \<and> attempts CODE_SCHEMA
        (world_of (edit_handler judge_never_passes sample_world
                     ''python'' ''foo.py'' ''double x'' ''use a loop'')) = 4
   \<and> attempts JUDGING_SCHEMA
        (world_of (edit_handler judge_never_passes sample_world
                     ''python'' ''foo.py'' ''double x'' ''use a loop'')) = 3
   \<and> responseFormat
        (last (calls (world_of (edit_handler judge_never_passes sample_world
                                  ''python'' ''foo.py'' ''double x'' ''use a loop''))))
       = CODE_SCHEMA
   \<and> files (disk (world_of (edit_handler judge_never_passes sample_world
                               ''python'' ''foo.py'' ''double x'' ''use a loop'')))
        ''foo_edited.py'' = Some ''x = 2''"
proof -
  let ?W = "world_of (edit_handler judge_never_passes sample_world
                        ''python'' ''foo.py'' ''double x'' ''use a loop'')"
  have fmts: "map responseFormat (calls ?W)
     = [CODE_SCHEMA, JUDGING_SCHEMA, CODE_SCHEMA, JUDGING_SCHEMA,
        CODE_SCHEMA, JUDGING_SCHEMA, CODE_SCHEMA]"
    by (rule sample_edit_run)
  have "attempts fmt ?W = length (filter (\<lambda>f. f = fmt) (map responseFormat (calls ?W)))" for fmt
    by (simp add: attempts_def filter_map comp_def)
  then have a: "attempts CODE_SCHEMA ?W = 4" "attempts JUDGING_SCHEMA ?W = 3"
    by (simp_all add: fmts)
  have "calls ?W \<noteq> []" using fmts by auto
  then have "responseFormat (last (calls ?W)) = last (map responseFormat (calls ?W))"
    by (simp add: last_map)
  then have l: "responseFormat (last (calls ?W)) = CODE_SCHEMA"
    by (simp add: fmts)
  from a l sample_edit_run(1) sample_edit_run(5) show ?thesis by simp
qed

lemma edit_ordered_step:
  assumes "edit_ordered j c" and "edit_step backend c = Inr c'"
  shows "edit_ordered j c'"
proof -
  obtain w state iteration seen event where c: "c = (w, state, iteration, seen, event)"
    by (cases c) auto
  show ?thesis
  proof (cases event)
    case (EditStartEvent path feat details language)
    with assms c show ?thesis
      by (auto simp: edit_ordered_def edit_startEvent_handler_def Let_def successively_snoc
               split: sum.splits prod.splits if_splits dest!: judged_chat)
  next
    case (EditGenerationEvent content)
    with assms c show ?thesis
      by (auto simp: edit_ordered_def edit_generationEvent_handler_def successively_snoc
               split: sum.splits prod.splits if_splits dest!: judged_chat)
  next
    case (EditJudgingEvent passed fb)
    with assms c show ?thesis
      by (auto simp: edit_ordered_def edit_judgingEvent_handler_def successively_snoc
                     edit_retry_details_def suffix_def
               split: sum.splits prod.splits if_splits)
  next
    case (EditWritingEvent content)
    with assms c show ?thesis
      by (auto simp: edit_ordered_def edit_writingEvent_handler_def successively_snoc
               split: sum.splits prod.splits if_splits)
  next
    case (EditResultEvent message)
    with assms c show ?thesis by simp
  qed
qed

lemma edit_ordered_final:
  assumes "edit_ordered j c" and "edit_step backend c = Inl r"
  shows "edit_order_kept j r"
proof -
  obtain w state iteration seen event where c: "c = (w, state, iteration, seen, event)"
    by (cases c) auto
  show ?thesis
  proof (cases event)
    case (EditStartEvent path feat details language)
    with assms c show ?thesis
      by (auto simp: edit_ordered_def edit_order_kept_def edit_startEvent_handler_def Let_def
               split: sum.splits prod.splits if_splits dest!: judged_chat)
  next
    case (EditGenerationEvent content)
    with assms c show ?thesis
      by (auto simp: edit_ordered_def edit_order_kept_def edit_generationEvent_handler_def
               split: sum.splits prod.splits if_splits dest!: judged_chat)
  next
    case (EditJudgingEvent passed fb)
    with assms c show ?thesis
      by (auto simp: edit_ordered_def edit_order_kept_def edit_judgingEvent_handler_def
               split: sum.splits prod.splits if_splits)
  next
    case (EditWritingEvent content)
    with assms c show ?thesis
      by (auto simp: edit_ordered_def edit_order_kept_def edit_writingEvent_handler_def
               split: sum.splits prod.splits if_splits)
  next
    case (EditResultEvent message)
    with assms c show ?thesis by (auto simp: edit_ordered_def edit_order_kept_def)
  qed
qed

lemma edit_handler_ordered:
  "edit_order_kept (judged w) (edit_handler backend w language path feat details)"
  unfolding edit_handler_def edit_runWorkflow_def
proof (rule edit_loop_rule [where I = "edit_ordered (judged w)"])
  show "edit_ordered (judged w)
          (log (log (log w (logger_log (gray (repeat box_line 50))))
             (logger_log (bold (cyan (sparkles @ '' Starting the editing process... Almost ready! ''
                                        @ palette)))))
             (logger_log []),
           edit_initial, 0, [], EditStartEvent path feat details language)"
    by (simp add: edit_ordered_def)
qed (auto intro: edit_ordered_step edit_ordered_final)

lemma edit_deciding_step:
  assumes "edit_deciding c" and "edit_step backend c = Inr c'"
  shows "edit_deciding c'"
proof -
  obtain w state iteration seen event where c: "c = (w, state, iteration, seen, event)"
    by (cases c) auto
  show ?thesis
  proof (cases event)
    case (EditStartEvent path feat details language)
    with assms c show ?thesis
      by (auto simp: edit_deciding_def edit_startEvent_handler_def Let_def chat_def
               split: sum.splits prod.splits if_splits)
  next
    case (EditGenerationEvent content)
    with assms c show ?thesis
      by (auto simp: edit_deciding_def edit_generationEvent_handler_def chat_def
               split: sum.splits prod.splits if_splits)
  next
    case (EditJudgingEvent passed fb)
    with assms c show ?thesis
      by (auto simp: edit_deciding_def edit_judgingEvent_handler_def
               split: sum.splits prod.splits if_splits)
  next
    case (EditWritingEvent content)
    with assms c show ?thesis
      by (auto simp: edit_deciding_def edit_writingEvent_handler_def
               split: sum.splits prod.splits if_splits)
  next
    case (EditResultEvent message)
    with assms c show ?thesis by simp
  qed
qed

lemma edit_deciding_final:
  assumes "edit_deciding c" and "edit_step backend c = Inl r"
  shows "edit_decided r"
proof -
  obtain w state iteration seen event where c: "c = (w, state, iteration, seen, event)"
    by (cases c) auto
  show ?thesis
  proof (cases event)
    case (EditStartEvent path feat details language)
    with assms c show ?thesis
      by (auto simp: edit_deciding_def edit_decided_def edit_startEvent_handler_def Let_def
                     chat_def
               split: sum.splits prod.splits if_splits)
  next
    case (EditGenerationEvent content)
    with assms c show ?thesis
      by (auto simp: edit_deciding_def edit_decided_def edit_generationEvent_handler_def chat_def
               split: sum.splits prod.splits if_splits)
  next
    case (EditJudgingEvent passed fb)
    with assms c show ?thesis
      by (auto simp: edit_deciding_def edit_decided_def edit_judgingEvent_handler_def
               split: sum.splits prod.splits if_splits)
  next
    case (EditWritingEvent content)
    with assms c show ?thesis
      by (auto simp: edit_deciding_def edit_decided_def edit_writingEvent_handler_def
                     edit_writeTextFile_eq
               split: sum.splits prod.splits if_splits option.splits)
  next
    case (EditResultEvent message)
    with assms c show ?thesis by (auto simp: edit_deciding_def edit_decided_def)
  qed
qed

lemma edit_handler_decided:
  "edit_decided (edit_handler backend w language path feat details)"
  unfolding edit_handler_def edit_runWorkflow_def
proof (rule edit_loop_rule [where I = edit_deciding])
  show "edit_deciding
          (log (log (log w (logger_log (gray (repeat box_line 50))))
             (logger_log (bold (cyan (sparkles @ '' Starting the editing process... Almost ready! ''
                                        @ palette)))))
             (logger_log []),
           edit_initial, 0, [], EditStartEvent path feat details language)"
    by (simp add: edit_deciding_def edit_initial_def)
qed (auto intro: edit_deciding_step edit_deciding_final)

lemma edit_judging_step:
  assumes "edit_judging j c" and "edit_step backend c = Inr c'"
  shows "edit_judging j c'"
proof -
  obtain w state iteration seen event where c: "c = (w, state, iteration, seen, event)"
    by (cases c) auto
  show ?thesis
  proof (cases event)
    case (EditStartEvent path feat details language)
    with assms c show ?thesis
      by (auto simp: edit_judging_def edit_startEvent_handler_def Let_def
               split: sum.splits prod.splits if_splits
               dest!: attempts_chat [where fmt = JUDGING_SCHEMA])
  next
    case (EditGenerationEvent content)
    with assms c show ?thesis
      by (auto simp: edit_judging_def edit_generationEvent_handler_def
               split: sum.splits prod.splits if_splits
               dest!: attempts_chat [where fmt = JUDGING_SCHEMA])
  next
    case (EditJudgingEvent passed fb)
    with assms c show ?thesis
      by (auto simp: edit_judging_def edit_judgingEvent_handler_def
               split: sum.splits prod.splits if_splits)
  next
    case (EditWritingEvent content)
    with assms c show ?thesis
      by (auto simp: edit_judging_def edit_writingEvent_handler_def
               split: sum.splits prod.splits if_splits)
  next
    case (EditResultEvent message)
    with assms c show ?thesis by simp
  qed
qed

lemma edit_judging_final:
  assumes "edit_judging j c" and "edit_step backend c = Inl r"
  shows "attempts JUDGING_SCHEMA (world_of r) \<le> j + 3"
proof -
  obtain w state iteration seen event where c: "c = (w, state, iteration, seen, event)"
    by (cases c) auto
  show ?thesis
  proof (cases event)
    case (EditStartEvent path feat details language)
    with assms c show ?thesis
      by (auto simp: edit_judging_def edit_startEvent_handler_def Let_def
               split: sum.splits prod.splits if_splits
               dest!: attempts_chat [where fmt = JUDGING_SCHEMA])
  next
    case (EditGenerationEvent content)
    with assms c show ?thesis
      by (auto simp: edit_judging_def edit_generationEvent_handler_def
               split: sum.splits prod.splits if_splits
               dest!: attempts_chat [where fmt = JUDGING_SCHEMA])
  next
    case (EditJudgingEvent passed fb)
    with assms c show ?thesis
      by (auto simp: edit_judging_def edit_judgingEvent_handler_def
               split: sum.splits prod.splits if_splits)
  next
    case (EditWritingEvent content)
    with assms c show ?thesis
      by (auto simp: edit_judging_def edit_writingEvent_handler_def
               split: sum.splits prod.splits if_splits)
  next
    case (EditResultEvent message)
    with assms c show ?thesis by (auto simp: edit_judging_def)
  qed
qed

lemma edit_handler_judging:
  "attempts JUDGING_SCHEMA (world_of (edit_handler backend w language path feat details))
     \<le> attempts JUDGING_SCHEMA w + 3"
  unfolding edit_handler_def edit_runWorkflow_def
proof (rule edit_loop_rule [where I = "edit_judging (attempts JUDGING_SCHEMA w)"])
  show "edit_judging (attempts JUDGING_SCHEMA w)
          (log (log (log w (logger_log (gray (repeat box_line 50))))
             (logger_log (bold (cyan (sparkles @ '' Starting the editing process... Almost ready! ''
                                        @ palette)))))
             (logger_log []),
           edit_initial, 0, [], EditStartEvent path feat details language)"
    by (simp add: edit_judging_def edit_initial_def)
qed (auto intro: edit_judging_step edit_judging_final)

lemma fix_ordered_step:
  assumes "fix_ordered j c" and "fix_step backend c = Inr c'"
  shows "fix_ordered j c'"
proof -
  obtain w state iteration seen event where c: "c = (w, state, iteration, seen, event)"
    by (cases c) auto
  show ?thesis
  proof (cases event)
    case (FixStartEvent path err details language)
    with assms c show ?thesis
      by (auto simp: fix_ordered_def fix_startEvent_handler_def successively_snoc
               split: sum.splits prod.splits if_splits dest!: judged_chat)
  next
    case (FixErrorEvaluationEvent explanation proposed)
    with assms c show ?thesis
      by (auto simp: fix_ordered_def fix_errorEvaluationEvent_handler_def Let_def
                     successively_snoc
               split: sum.splits prod.splits if_splits dest!: judged_chat)
  next
    case (FixGenerationEvent content)
    with assms c show ?thesis
      by (auto simp: fix_ordered_def fix_generationEvent_handler_def successively_snoc
               split: sum.splits prod.splits if_splits dest!: judged_chat)
  next
    case (FixJudgingEvent passed fb)
    with assms c show ?thesis
      by (auto simp: fix_ordered_def fix_judgingEvent_handler_def successively_snoc
                     fix_retry_details_def suffix_def
               split: sum.splits prod.splits if_splits)
  next
    case (FixWritingEvent content)
    with assms c show ?thesis
      by (auto simp: fix_ordered_def fix_writingEvent_handler_def successively_snoc
               split: sum.splits prod.splits if_splits)
  next
    case (FixResultEvent message)
    with assms c show ?thesis by simp
  qed
qed

lemma fix_ordered_final:
  assumes "fix_ordered j c" and "fix_step backend c = Inl r"
  shows "fix_order_kept j r"
proof -
  obtain w state iteration seen event where c: "c = (w, state, iteration, seen, event)"
    by (cases c) auto
  show ?thesis
  proof (cases event)
    case (FixStartEvent path err details language)
    with assms c show ?thesis
      by (auto simp: fix_ordered_def fix_order_kept_def fix_startEvent_handler_def
               split: sum.splits prod.splits if_splits dest!: judged_chat)
  next
    case (FixErrorEvaluationEvent explanation proposed)
    with assms c show ?thesis
      by (auto simp: fix_ordered_def fix_order_kept_def fix_errorEvaluationEvent_handler_def
                     Let_def
               split: sum.splits prod.splits if_splits dest!: judged_chat)
  next
    case (FixGenerationEvent content)
    with assms c show ?thesis
      by (auto simp: fix_ordered_def fix_order_kept_def fix_generationEvent_handler_def
               split: sum.splits prod.splits if_splits dest!: judged_chat)
  next
    case (FixJudgingEvent passed fb)
    with assms c show ?thesis
      by (auto simp: fix_ordered_def fix_order_kept_def fix_judgingEvent_handler_def
               split: sum.splits prod.splits if_splits)
  next
    case (FixWritingEvent content)
    with assms c show ?thesis
      by (auto simp: fix_ordered_def fix_order_kept_def fix_writingEvent_handler_def
               split: sum.splits prod.splits if_splits)
  next
    case (FixResultEvent message)
    with assms c show ?thesis by (auto simp: fix_ordered_def fix_order_kept_def)
  qed
qed

lemma fix_handler_ordered:
  "fix_order_kept (judged w) (fix_handler backend w language path err details)"
  unfolding fix_handler_def fix_runWorkflow_def
proof (rule fix_loop_rule [where I = "fix_ordered (judged w)"])
  show "fix_ordered (judged w)
          (log (log (log w (logger_log (gray (repeat box_line 50))))
             (logger_log (bold (cyan (sparkles @ '' Starting the debugging process... Let''
                                        @ [CHR 0x27] @ ''s squash those bugs! ''
                                        @ bug @ collision)))))
             (logger_log []),
           fix_initial, 0, [], FixStartEvent path err details language)"
    by (simp add: fix_ordered_def)
qed (auto intro: fix_ordered_step fix_ordered_final)

lemma fix_deciding_step:
  assumes "fix_deciding c" and "fix_step backend c = Inr c'"
  shows "fix_deciding c'"
proof -
  obtain w state iteration seen event where c: "c = (w, state, iteration, seen, event)"
    by (cases c) auto
  show ?thesis
  proof (cases event)
    case (FixStartEvent path err details language)
    with assms c show ?thesis
      by (auto simp: fix_deciding_def fix_startEvent_handler_def chat_def
               split: sum.splits prod.splits if_splits)
  next
    case (FixErrorEvaluationEvent explanation proposed)
    with assms c show ?thesis
      by (auto simp: fix_deciding_def fix_errorEvaluationEvent_handler_def Let_def chat_def
               split: sum.splits prod.splits if_splits)
  next
    case (FixGenerationEvent content)
    with assms c show ?thesis
      by (auto simp: fix_deciding_def fix_generationEvent_handler_def chat_def
               split: sum.splits prod.splits if_splits)
  next
    case (FixJudgingEvent passed fb)
    with assms c show ?thesis
      by (auto simp: fix_deciding_def fix_judgingEvent_handler_def
               split: sum.splits prod.splits if_splits)
  next
    case (FixWritingEvent content)
    with assms c show ?thesis
      by (auto simp: fix_deciding_def fix_writingEvent_handler_def
               split: sum.splits prod.splits if_splits)
  next
    case (FixResultEvent message)
    with assms c show ?thesis by simp
  qed
qed

lemma fix_deciding_final:
  assumes "fix_deciding c" and "fix_step backend c = Inl r"
  shows "fix_decided r"
proof -
  obtain w state iteration seen event where c: "c = (w, state, iteration, seen, event)"
    by (cases c) auto
  show ?thesis
  proof (cases event)
    case (FixStartEvent path err details language)
    with assms c show ?thesis
      by (auto simp: fix_deciding_def fix_decided_def fix_startEvent_handler_def chat_def
               split: sum.splits prod.splits if_splits)
  next
    case (FixErrorEvaluationEvent explanation proposed)
    with assms c show ?thesis
      by (auto simp: fix_deciding_def fix_decided_def fix_errorEvaluationEvent_handler_def
                     Let_def chat_def
               split: sum.splits prod.splits if_splits)
  next
    case (FixGenerationEvent content)
    with assms c show ?thesis
      by (auto simp: fix_deciding_def fix_decided_def fix_generationEvent_handler_def chat_def
               split: sum.splits prod.splits if_splits)
  next
    case (FixJudgingEvent passed fb)
    with assms c show ?thesis
      by (auto simp: fix_deciding_def fix_decided_def fix_judgingEvent_handler_def
               split: sum.splits prod.splits if_splits)
  next
    case (FixWritingEvent content)
    with assms c show ?thesis
      by (auto simp: fix_deciding_def fix_decided_def fix_writingEvent_handler_def
                     fix_writeTextFile_eq
               split: sum.splits prod.splits if_splits option.splits)
  next
    case (FixResultEvent message)
    with assms c show ?thesis by (auto simp: fix_deciding_def fix_decided_def)
  qed
qed

lemma fix_handler_decided:
  "fix_decided (fix_handler backend w language path err details)"
  unfolding fix_handler_def fix_runWorkflow_def
proof (rule fix_loop_rule [where I = fix_deciding])
  show "fix_deciding
          (log (log (log w (logger_log (gray (repeat box_line 50))))
             (logger_log (bold (cyan (sparkles @ '' Starting the debugging process... Let''
                                        @ [CHR 0x27] @ ''s squash those bugs! ''
                                        @ bug @ collision)))))
             (logger_log []),
           fix_initial, 0, [], FixStartEvent path err details language)"
    by (simp add: fix_deciding_def)
qed (auto intro: fix_deciding_step fix_deciding_final)

lemma fix_judging_step:
  assumes "fix_judging j c" and "fix_step backend c = Inr c'"
  shows "fix_judging j c'"
proof -
  obtain w state iteration seen event where c: "c = (w, state, iteration, seen, event)"
    by (cases c) auto
  show ?thesis
  proof (cases event)
    case (FixStartEvent path err details language)
    with assms c show ?thesis
      by (auto simp: fix_judging_def fix_startEvent_handler_def
               split: sum.splits prod.splits if_splits
               dest!: attempts_chat [where fmt = JUDGING_SCHEMA])
  next
    case (FixErrorEvaluationEvent explanation proposed)
    with assms c show ?thesis
      by (auto simp: fix_judging_def fix_errorEvaluationEvent_handler_def Let_def
               split: sum.splits prod.splits if_splits
               dest!: attempts_chat [where fmt = JUDGING_SCHEMA])
  next
    case (FixGenerationEvent content)
    with assms c show ?thesis
      by (auto simp: fix_judging_def fix_generationEvent_handler_def
               split: sum.splits prod.splits if_splits
               dest!: attempts_chat [where fmt = JUDGING_SCHEMA])
  next
    case (FixJudgingEvent passed fb)
    with assms c show ?thesis
      by (auto simp: fix_judging_def fix_judgingEvent_handler_def
               split: sum.splits prod.splits if_splits)
  next
    case (FixWritingEvent content)
    with assms c show ?thesis
      by (auto simp: fix_judging_def fix_writingEvent_handler_def
               split: sum.splits prod.splits if_splits)
  next
    case (FixResultEvent message)
    with assms c show ?thesis by simp
  qed
qed

lemma fix_judging_final:
  assumes "fix_judging j c" and "fix_step backend c = Inl r"
  shows "attempts JUDGING_SCHEMA (world_of r) \<le> j + 3"
proof -
  obtain w state iteration seen event where c: "c = (w, state, iteration, seen, event)"
    by (cases c) auto
  show ?thesis
  proof (cases event)
    case (FixStartEvent path err details language)
    with assms c show ?thesis
      by (auto simp: fix_judging_def fix_startEvent_handler_def
               split: sum.splits prod.splits if_splits
               dest!: attempts_chat [where fmt = JUDGING_SCHEMA])
  next
    case (FixErrorEvaluationEvent explanation proposed)
    with assms c show ?thesis
      by (auto simp: fix_judging_def fix_errorEvaluationEvent_handler_def Let_def
               split: sum.splits prod.splits if_splits
               dest!: attempts_chat [where fmt = JUDGING_SCHEMA])
  next
    case (FixGenerationEvent content)
    with assms c show ?thesis
      by (auto simp: fix_judging_def fix_generationEvent_handler_def
               split: sum.splits prod.splits if_splits
               dest!: attempts_chat [where fmt = JUDGING_SCHEMA])
  next
    case (FixJudgingEvent passed fb)
    with assms c show ?thesis
      by (auto simp: fix_judging_def fix_judgingEvent_handler_def
               split: sum.splits prod.splits if_splits)
  next
    case (FixWritingEvent content)
    with assms c show ?thesis
      by (auto simp: fix_judging_def fix_writingEvent_handler_def
               split: sum.splits prod.splits if_splits)
  next
    case (FixResultEvent message)
    with assms c show ?thesis by (auto simp: fix_judging_def)
  qed
qed

lemma fix_handler_judging:
  "attempts JUDGING_SCHEMA (world_of (fix_handler backend w language path err details))
     \<le> attempts JUDGING_SCHEMA w + 3"
  unfolding fix_handler_def fix_runWorkflow_def
proof (rule fix_loop_rule [where I = "fix_judging (attempts JUDGING_SCHEMA w)"])
  show "fix_judging (attempts JUDGING_SCHEMA w)
          (log (log (log w (logger_log (gray (repeat box_line 50))))
             (logger_log (bold (cyan (sparkles @ '' Starting the debugging process... Let''
                                        @ [CHR 0x27] @ ''s squash those bugs! ''
                                        @ bug @ collision)))))
             (logger_log []),
           fix_initial, 0, [], FixStartEvent path err details language)"
    by (simp add: fix_judging_def fix_initial_def)
qed (auto intro: fix_judging_step fix_judging_final)

text \<open>
  C2, amended. One turn of the loop of the edit command on a start event reads the file,
  asks the backend for a generation and validates the response, raises the counter by
  one and then compares it with the cap: above the cap the next event is the writing
  event with the generated content, and no request has been made to the judge;
  otherwise the next event is the generation event. The turn on a generation event
  submits the artifact of the event to the judge and validates the verdict; the turn on
  the verdict yields the writing event exactly when the verdict is pass, and otherwise
  a start event whose details are made of the generated content and of the feedback of
  the judge; the turn on a writing event passes the content of the event to the writer
  and the turn on the result event completes the run. The loop is the repetition of
  these turns from the start event of the handler. So in every run, for every backend:
  the events come in this order; the contents submitted to the judge are exactly the
  artifacts of the generation events, in their order; the judge is asked at most three
  times; the only content written is the generated content of the state, and it is
  written exactly when the run completes; the run completes exactly when a verdict
  was pass or the counter is above the cap; and when the run completes and the write
  is not refused, the output file holds that content. The same holds of the fix
  command, where the generation is the turn on the error evaluation event and the
  counter is raised before the request of the generation: there a run that completes
  has a verdict pass or the counter above the cap, and a run with a verdict pass
  completes.
\<close>

theorem cap_checked_before_judge:
  "(edit_step backend (w, state, iteration, seen, EditStartEvent path feat details language) = Inr c1
      \<longrightarrow> (\<exists>fc content v.
              readTextFile (disk w) path = Inr fc
              \<and> backend (calls w) (edit_generation_request path feat details language fc) = Inr content
              \<and> parse_response CODE_SCHEMA_parse content = Inr v
              \<and> calls (config_world c1)
                  = calls w @ [edit_generation_request path feat details language fc]
              \<and> disk (config_world c1) = disk w
              \<and> config_state c1
                  = state\<lparr>numIterations := numIterations state + 1, filePath := path,
                          codeLanguage := language, generatedContent := code_content v,
                          feature := feat, implementationDetails := details\<rparr>
              \<and> config_seen c1 = seen @ [EditStartEvent path feat details language]
              \<and> config_event c1
                  = (if maxIterations state < numIterations state + 1
                     then EditWritingEvent (code_content v)
                     else EditGenerationEvent (code_content v))))
   \<and> (edit_step backend (w, state, iteration, seen, EditGenerationEvent artifact) = Inr c2
      \<longrightarrow> (\<exists>content v.
              backend (calls w) (edit_judging_request state artifact) = Inr content
              \<and> parse_response JUDGING_SCHEMA_parse content = Inr v
              \<and> calls (config_world c2) = calls w @ [edit_judging_request state artifact]
              \<and> disk (config_world c2) = disk w
              \<and> config_state c2 = state
              \<and> config_seen c2 = seen @ [EditGenerationEvent artifact]
              \<and> config_event c2 = EditJudgingEvent (pass v) (feedback v)))
   \<and> (\<exists>c3. edit_step backend (w, state, iteration, seen, EditJudgingEvent passed fb) = Inr c3
         \<and> calls (config_world c3) = calls w
         \<and> disk (config_world c3) = disk w
         \<and> config_state c3 = state
         \<and> config_seen c3 = seen @ [EditJudgingEvent passed fb]
         \<and> config_event c3
             = (if passed then EditWritingEvent (generatedContent state)
                else EditStartEvent (filePath state) (feature state)
                       (edit_retry_details (generatedContent state) fb) (codeLanguage state)))
   \<and> (\<exists>c4 msg fs'. edit_step backend (w, state, iteration, seen, EditWritingEvent accepted) = Inr c4
         \<and> edit_writeTextFile (disk w) (filePath state) accepted = Inr (msg, fs')
         \<and> calls (config_world c4) = calls w
         \<and> disk (config_world c4) = fs'
         \<and> config_state c4 = state
         \<and> config_seen c4 = seen @ [EditWritingEvent accepted]
         \<and> config_event c4 = EditResultEvent msg)
   \<and> (\<exists>w'. edit_step backend (w, state, iteration, seen, EditResultEvent message)
               = Inl (Completed, w', state, seen @ [EditResultEvent message])
         \<and> calls w' = calls w \<and> disk w' = disk w)
   \<and> edit_loop backend c
       = (case edit_step backend c of Inl r \<Rightarrow> r | Inr c' \<Rightarrow> edit_loop backend c')
   \<and> (\<exists>w0. edit_handler backend w language path feat details
               = edit_loop backend (w0, edit_initial, 0, [], EditStartEvent path feat details language)
         \<and> calls w0 = calls w \<and> disk w0 = disk w)
   \<and> (let r = edit_handler backend w language path feat details in
        successively edit_follows (events_of r)
        \<and> judged (world_of r) = judged w @ edit_submitted (events_of r)
        \<and> attempts JUDGING_SCHEMA (world_of r) \<le> attempts JUDGING_SCHEMA w + 3
        \<and> edit_written (events_of r)
            = (if outcome_of r = Completed then [generatedContent (state_of r)] else [])
        \<and> (outcome_of r = Completed)
            = (edit_passed (events_of r)
               \<or> maxIterations (state_of r) < numIterations (state_of r))
        \<and> (outcome_of r = Completed \<and> refused (disk w) (flPath ''_edited.'' path) = None
             \<longrightarrow> files (disk (world_of r)) (flPath ''_edited.'' path)
                 = Some (generatedContent (state_of r))))
   \<and> (fix_step backend (w, fstate, iteration, fseen, FixStartEvent path err fdetails language) = Inr d1
      \<longrightarrow> (\<exists>fc content v.
              readTextFile (disk w) path = Inr fc
              \<and> backend (calls w) (fix_evaluation_request path err fdetails language fc) = Inr content
              \<and> parse_response ERROR_SCHEMA_parse content = Inr v
              \<and> calls (config_world d1)
                  = calls w @ [fix_evaluation_request path err fdetails language fc]
              \<and> disk (config_world d1) = disk w
              \<and> config_state d1
                  = fstate\<lparr>filePath := path, codeLanguage := language, error := err,
                           errorDetails := fdetails, fileContent := fc\<rparr>
              \<and> config_seen d1 = fseen @ [FixStartEvent path err fdetails language]
              \<and> config_event d1 = FixErrorEvaluationEvent (error_explanation v) (proposed_fix v)))
   \<and> (fix_step backend (w, fstate, iteration, fseen, FixErrorEvaluationEvent explanation proposed)
         = Inr d2
      \<longrightarrow> (\<exists>content v.
              backend (calls w)
                (fix_generation_request (fstate\<lparr>numIterations := numIterations fstate + 1\<rparr>)
                   explanation proposed) = Inr content
              \<and> parse_response FIX_SCHEMA_parse content = Inr v
              \<and> calls (config_world d2)
                  = calls w @ [fix_generation_request
                                 (fstate\<lparr>numIterations := numIterations fstate + 1\<rparr>)
                                 explanation proposed]
              \<and> disk (config_world d2) = disk w
              \<and> config_state d2
                  = fstate\<lparr>numIterations := numIterations fstate + 1,
                           generatedContent := fixed_content v\<rparr>
              \<and> config_seen d2 = fseen @ [FixErrorEvaluationEvent explanation proposed]
              \<and> config_event d2
                  = (if maxIterations fstate < numIterations fstate + 1
                     then FixWritingEvent (fixed_content v)
                     else FixGenerationEvent (fixed_content v))))
   \<and> (fix_step backend (w, fstate, iteration, fseen, FixGenerationEvent artifact) = Inr d3
      \<longrightarrow> (\<exists>content v.
              backend (calls w) (fix_judging_request fstate artifact) = Inr content
              \<and> parse_response JUDGING_SCHEMA_parse content = Inr v
              \<and> calls (config_world d3) = calls w @ [fix_judging_request fstate artifact]
              \<and> disk (config_world d3) = disk w
              \<and> config_state d3 = fstate
              \<and> config_seen d3 = fseen @ [FixGenerationEvent artifact]
              \<and> config_event d3 = FixJudgingEvent (pass v) (feedback v)))
   \<and> (\<exists>d4. fix_step backend (w, fstate, iteration, fseen, FixJudgingEvent passed fb) = Inr d4
         \<and> calls (config_world d4) = calls w
         \<and> disk (config_world d4) = disk w
         \<and> config_state d4 = fstate
         \<and> config_seen d4 = fseen @ [FixJudgingEvent passed fb]
         \<and> config_event d4
             = (if passed then FixWritingEvent (generatedContent fstate)
                else FixStartEvent (filePath fstate) (error fstate)
                       (fix_retry_details (generatedContent fstate) fb) (codeLanguage fstate)))
   \<and> (\<exists>d5 msg fs'. fix_step backend (w, fstate, iteration, fseen, FixWritingEvent accepted) = Inr d5
         \<and> fix_writeTextFile (disk w) (filePath fstate) accepted = Inr (msg, fs')
         \<and> calls (config_world d5) = calls w
         \<and> disk (config_world d5) = fs'
         \<and> config_state d5 = fstate
         \<and> config_seen d5 = fseen @ [FixWritingEvent accepted]
         \<and> config_event d5 = FixResultEvent msg)
   \<and> (\<exists>w'. fix_step backend (w, fstate, iteration, fseen, FixResultEvent message)
               = Inl (Completed, w', fstate, fseen @ [FixResultEvent message])
         \<and> calls w' = calls w \<and> disk w' = disk w)
   \<and> fix_loop backend d
       = (case fix_step backend d of Inl r \<Rightarrow> r | Inr d' \<Rightarrow> fix_loop backend d')
   \<and> (\<exists>w0. fix_handler backend w language path err fdetails
               = fix_loop backend (w0, fix_initial, 0, [], FixStartEvent path err fdetails language)
         \<and> calls w0 = calls w \<and> disk w0 = disk w)
   \<and> (let r = fix_handler backend w language path err fdetails in
        successively fix_follows (events_of r)
        \<and> judged (world_of r) = judged w @ fix_submitted (events_of r)
        \<and> attempts JUDGING_SCHEMA (world_of r) \<le> attempts JUDGING_SCHEMA w + 3
        \<and> fix_written (events_of r)
            = (if outcome_of r = Completed then [generatedContent (state_of r)] else [])
        \<and> (fix_passed (events_of r) \<longrightarrow> outcome_of r = Completed)
        \<and> (outcome_of r = Completed
             \<longrightarrow> fix_passed (events_of r)
                 \<or> maxIterations (state_of r) < numIterations (state_of r))
        \<and> (outcome_of r = Completed \<and> refused (disk w) (flPath ''_fixed.'' path) = None
             \<longrightarrow> files (disk (world_of r)) (flPath ''_fixed.'' path)
                 = Some (generatedContent (state_of r))))"
proof -
  note e1 = edit_step_start [of backend w state iteration seen path feat details language c1]
  note e2 = edit_step_generation [of backend w state iteration seen artifact c2]
  note e3 = edit_step_judging [of backend w state iteration seen passed fb]
  note e4 = edit_step_writing [of backend w state iteration seen accepted]
  note e5 = edit_step_result [of backend w state iteration seen message]
  note e6 = edit_loop.simps [of backend c]
  note e7 = edit_handler_start [of backend w language path feat details]
  have e8: "let r = edit_handler backend w language path feat details in
        successively edit_follows (events_of r)
        \<and> judged (world_of r) = judged w @ edit_submitted (events_of r)
        \<and> attempts JUDGING_SCHEMA (world_of r) \<le> attempts JUDGING_SCHEMA w + 3
        \<and> edit_written (events_of r)
            = (if outcome_of r = Completed then [generatedContent (state_of r)] else [])
        \<and> (outcome_of r = Completed)
            = (edit_passed (events_of r)
               \<or> maxIterations (state_of r) < numIterations (state_of r))
        \<and> (outcome_of r = Completed \<and> refused (disk w) (flPath ''_edited.'' path) = None
             \<longrightarrow> files (disk (world_of r)) (flPath ''_edited.'' path)
                 = Some (generatedContent (state_of r)))"
    using edit_handler_ordered [of w backend language path feat details]
      edit_handler_judging [of backend w language path feat details]
      edit_handler_decided [of backend w language path feat details]
      edit_run_writes_generated [of backend w language path feat details]
    unfolding Let_def edit_order_kept_def edit_decided_def by (intro conjI) blast+
  note f1 = fix_step_start [of backend w fstate iteration fseen path err fdetails language d1]
  note f2 = fix_step_errorEvaluation [of backend w fstate iteration fseen explanation proposed d2]
  note f3 = fix_step_generation [of backend w fstate iteration fseen artifact d3]
  note f4 = fix_step_judging [of backend w fstate iteration fseen passed fb]
  note f5 = fix_step_writing [of backend w fstate iteration fseen accepted]
  note f6 = fix_step_result [of backend w fstate iteration fseen message]
  note f7 = fix_loop.simps [of backend d]
  note f8 = fix_handler_start [of backend w language path err fdetails]
  have f9: "let r = fix_handler backend w language path err fdetails in
        successively fix_follows (events_of r)
        \<and> judged (world_of r) = judged w @ fix_submitted (events_of r)
        \<and> attempts JUDGING_SCHEMA (world_of r) \<le> attempts JUDGING_SCHEMA w + 3
        \<and> fix_written (events_of r)
            = (if outcome_of r = Completed then [generatedContent (state_of r)] else [])
        \<and> (fix_passed (events_of r) \<longrightarrow> outcome_of r = Completed)
        \<and> (outcome_of r = Completed
             \<longrightarrow> fix_passed (events_of r)
                 \<or> maxIterations (state_of r) < numIterations (state_of r))
        \<and> (outcome_of r = Completed \<and> refused (disk w) (flPath ''_fixed.'' path) = None
             \<longrightarrow> files (disk (world_of r)) (flPath ''_fixed.'' path)
                 = Some (generatedContent (state_of r)))"
    using fix_handler_ordered [of w backend language path err fdetails]
      fix_handler_judging [of backend w language path err fdetails]
      fix_handler_decided [of backend w language path err fdetails]
      fix_run_writes_generated [of backend w language path err fdetails]
    unfolding Let_def fix_order_kept_def fix_decided_def by (intro conjI) blast+
  from e1 e2 e3 e4 e5 e6 e7 e8 f1 f2 f3 f4 f5 f6 f7 f8 f9 show ?thesis
    by (intro conjI impI)
qed

theorem cap_checked_before_judge_witness:
  "config_event (projr (edit_step judge_passes
      (sample_world, edit_last_round, 0, [],
       EditStartEvent ''foo.py'' ''double x'' ''use a loop'' ''python'')))
     = EditWritingEvent ''x = 2''
   \<and> calls (config_world (projr (edit_step judge_passes
        (sample_world, edit_last_round, 0, [],
         EditStartEvent ''foo.py'' ''double x'' ''use a loop'' ''python''))))
     = [edit_generation_request ''foo.py'' ''double x'' ''use a loop'' ''python'' ''x = 1'']
   \<and> config_event (projr (edit_step judge_passes
        (sample_world, edit_last_round, 0, [], EditGenerationEvent ''x = 2'')))
     = EditJudgingEvent True ''fine''
   \<and> calls (config_world (projr (edit_step judge_passes
        (sample_world, edit_last_round, 0, [], EditGenerationEvent ''x = 2''))))
     = [edit_judging_request edit_last_round ''x = 2'']
   \<and> outcome_of (edit_handler judge_passes sample_world
                    ''python'' ''foo.py'' ''double x'' ''use a loop'') = Completed
   \<and> judged (world_of (edit_handler judge_passes sample_world
                          ''python'' ''foo.py'' ''double x'' ''use a loop'')) = [''x = 2'']
   \<and> edit_written (events_of (edit_handler judge_passes sample_world
                          ''python'' ''foo.py'' ''double x'' ''use a loop'')) = [''x = 2'']
   \<and> files (disk (world_of (edit_handler judge_passes sample_world
                               ''python'' ''foo.py'' ''double x'' ''use a loop'')))
        ''foo_edited.py'' = Some ''x = 2''
   \<and> config_event (projr (fix_step judge_passes
        (sample_world, fix_last_round, 0, [],
         FixStartEvent ''foo.py'' ''NameError'' ''line 1'' ''python'')))
     = FixErrorEvaluationEvent ''x is unset'' ''set x''
   \<and> config_event (projr (fix_step judge_passes
        (sample_world, fix_last_round, 0, [], FixErrorEvaluationEvent ''x is unset'' ''set x'')))
     = FixWritingEvent ''x = 2''
   \<and> config_event (projr (fix_step judge_passes
        (sample_world, fix_last_round, 0, [], FixGenerationEvent ''x = 2'')))
     = FixJudgingEvent True ''fine''
   \<and> outcome_of (fix_handler judge_passes sample_world
                    ''python'' ''foo.py'' ''NameError'' ''line 1'') = Completed
   \<and> fix_passed (events_of (fix_handler judge_passes sample_world
                    ''python'' ''foo.py'' ''NameError'' ''line 1''))
   \<and> judged (world_of (fix_handler judge_passes sample_world
                          ''python'' ''foo.py'' ''NameError'' ''line 1'')) = [''x = 2'']
   \<and> files (disk (world_of (fix_handler judge_passes sample_world
                               ''python'' ''foo.py'' ''NameError'' ''line 1'')))
        ''foo_fixed.py'' = Some ''x = 2''"
  using cap_checked_before_judge
    [where backend = judge_passes and w = sample_world and state = edit_last_round
       and iteration = 0 and seen = "[]"
       and path = "''foo.py''" and feat = "''double x''" and details = "''use a loop''"
       and language = "''python''"
       and ?c1.0 = "projr (edit_step judge_passes
                      (sample_world, edit_last_round, 0, [],
                       EditStartEvent ''foo.py'' ''double x'' ''use a loop'' ''python''))"
       and artifact = "''x = 2''"
       and ?c2.0 = "projr (edit_step judge_passes
                      (sample_world, edit_last_round, 0, [], EditGenerationEvent ''x = 2''))"
       and passed = True and fb = "''fine''" and accepted = "''x = 2''" and message = "''done''"
       and c = "(sample_world, edit_last_round, 0, [], EditResultEvent ''done'')"
       and fstate = fix_last_round and fseen = "[]" and err = "''NameError''"
       and fdetails = "''line 1''"
       and ?d1.0 = "projr (fix_step judge_passes
                      (sample_world, fix_last_round, 0, [],
                       FixStartEvent ''foo.py'' ''NameError'' ''line 1'' ''python''))"
       and explanation = "''x is unset''" and proposed = "''set x''"
       and ?d2.0 = "projr (fix_step judge_passes
                      (sample_world, fix_last_round, 0, [],
                       FixErrorEvaluationEvent ''x is unset'' ''set x''))"
       and ?d3.0 = "projr (fix_step judge_passes
                      (sample_world, fix_last_round, 0, [], FixGenerationEvent ''x = 2''))"
       and d = "(sample_world, fix_last_round, 0, [], FixResultEvent ''done'')"]
  by (simp add: edit_handler_def edit_runWorkflow_def edit_loop_stop edit_loop_continue
        edit_startEvent_handler_def edit_generationEvent_handler_def
        edit_judgingEvent_handler_def edit_writingEvent_handler_def edit_writeTextFile_eq
        fix_handler_def fix_runWorkflow_def fix_loop_stop fix_loop_continue
        fix_startEvent_handler_def fix_errorEvaluationEvent_handler_def
        fix_generationEvent_handler_def fix_judgingEvent_handler_def fix_writingEvent_handler_def
        fix_writeTextFile_eq chat_def log_def judged_def
        CODE_SCHEMA_parse_def JUDGING_SCHEMA_parse_def ERROR_SCHEMA_parse_def FIX_SCHEMA_parse_def
        edit_initial_def fix_initial_def judge_passes_def sample_world_def readTextFile_def
        readFile_def flPath_foo_py edit_last_round_def fix_last_round_def
        edit_judging_request_def edit_generation_request_def Let_def parse_response_def)

section \<open>The output file\<close>

text \<open>
  C3. When the write of the output file is not refused, the writer of the edit command
  called on \<open>foo.py\<close> creates \<open>foo_edited.py\<close>, the writer of the fix command
  \<open>foo_fixed.py\<close>, and the content of the new file, read back, is the content that was
  passed in. In a run of either command on \<open>foo.py\<close> that completes, the file holds the
  content that was generated last, which is the accepted one.
\<close>

theorem foo_py_written:
  "(refused fs ''foo_edited.py'' = None \<longrightarrow>
      (\<exists>fs'. edit_writeTextFile fs ''foo.py'' content =
                Inr (''Successfully edited your file! Find the edited version at: foo_edited.py'', fs')
            \<and> fs' = fs\<lparr>files := (files fs)(''foo_edited.py'' \<mapsto> content)\<rparr>
            \<and> readFile fs' ''foo_edited.py'' = Inr content))
   \<and> (refused fs ''foo_fixed.py'' = None \<longrightarrow>
      (\<exists>fs'. fix_writeTextFile fs ''foo.py'' content =
                Inr (''Successfully fixed your file! Find the fixed version at: foo_fixed.py'', fs')
            \<and> fs' = fs\<lparr>files := (files fs)(''foo_fixed.py'' \<mapsto> content)\<rparr>
            \<and> readFile fs' ''foo_fixed.py'' = Inr content))
   \<and> (outcome_of (edit_handler backend w language ''foo.py'' feat details) = Completed
      \<and> refused (disk w) ''foo_edited.py'' = None \<longrightarrow>
        files (disk (world_of (edit_handler backend w language ''foo.py'' feat details)))
          ''foo_edited.py''
        = Some (generatedContent (state_of (edit_handler backend w language ''foo.py'' feat details))))
   \<and> (outcome_of (fix_handler backend w language ''foo.py'' err details) = Completed
      \<and> refused (disk w) ''foo_fixed.py'' = None \<longrightarrow>
        files (disk (world_of (fix_handler backend w language ''foo.py'' err details)))
          ''foo_fixed.py''
        = Some (generatedContent (state_of (fix_handler backend w language ''foo.py'' err details))))"
  using edit_run_writes_generated [of backend w language "''foo.py''" feat details]
    fix_run_writes_generated [of backend w language "''foo.py''" err details]
  by (simp add: edit_writeTextFile_eq fix_writeTextFile_eq flPath_foo_py readFile_def)

theorem foo_py_written_witness:
  "readFile (snd (projr (edit_writeTextFile (disk sample_world) ''foo.py'' ''x = 3'')))
     ''foo_edited.py'' = Inr ''x = 3''
   \<and> readFile (snd (projr (fix_writeTextFile (disk sample_world) ''foo.py'' ''x = 3'')))
       ''foo_fixed.py'' = Inr ''x = 3''
   \<and> files (disk (world_of (edit_handler judge_passes sample_world
                               ''python'' ''foo.py'' ''double x'' ''use a loop'')))
        ''foo_edited.py'' = Some ''x = 2''
   \<and> files (disk (world_of (fix_handler judge_passes sample_world
                               ''python'' ''foo.py'' ''NameError'' ''line 1'')))
        ''foo_fixed.py'' = Some ''x = 2''"
  using foo_py_written
    [of "disk sample_world" "''x = 3''" judge_passes sample_world "''python''" "''double x''"
        "''use a loop''" "''NameError''"]
    foo_py_written
    [of "disk sample_world" "''x = 3''" judge_passes sample_world "''python''" "''double x''"
        "''line 1''" "''NameError''"]
  by (auto simp: passing_runs)

text \<open>
  C4, at a path whose last component has no extension. The writer takes the text after
  the last dot of the whole path as the extension, and the whole path when it has no dot:
  for \<open>src/Makefile\<close> the output path is \<open>_fixed.src/Makefile\<close>, a file in another
  directory, and for \<open>../README\<close> it is \<open>._fixed./README\<close>.
\<close>

theorem path_without_extension:
  "flPath ''_fixed.'' ''src/Makefile'' = ''_fixed.src/Makefile''
   \<and> flPath ''_edited.'' ''src/Makefile'' = ''_edited.src/Makefile''
   \<and> flPath ''_fixed.'' ''../README'' = ''._fixed./README''
   \<and> fix_writeTextFile \<lparr>files = Map.empty, refused = Map.empty\<rparr> ''src/Makefile'' ''all:''
       = Inr (''Successfully fixed your file! Find the fixed version at: _fixed.src/Makefile'',
              \<lparr>files = [''_fixed.src/Makefile'' \<mapsto> ''all:''], refused = Map.empty\<rparr>)"
  by (simp add: fix_writeTextFile_eq flPath_def pop_def or_empty_def dot_def)

text \<open>
  C5. The writer never rejects: whatever the file system, the path and the content, it
  returns a string. When the write of the output file fails with an error, the string is
  \<open>Error creating the edited file: \<close> followed by the text of that error, and the file
  system is as it was.
\<close>

theorem writeTextFile_never_rejects:
  "(\<exists>msg fs'. edit_writeTextFile fs path content = Inr (msg, fs'))
   \<and> (\<exists>msg fs'. fix_writeTextFile fs path content = Inr (msg, fs'))
   \<and> (writeFile fs (flPath ''_edited.'' path) content = Inl e1 \<longrightarrow>
        edit_writeTextFile fs path content =
          Inr (''Error creating the edited file: '' @ io_error_toString e1, fs))
   \<and> (writeFile fs (flPath ''_fixed.'' path) content = Inl e2 \<longrightarrow>
        fix_writeTextFile fs path content =
          Inr (''Error creating the edited file: '' @ io_error_toString e2, fs))"
  by (auto simp: edit_writeTextFile_def fix_writeTextFile_def try_catch_def
           split: sum.splits)

theorem writeTextFile_never_rejects_witness:
  "edit_writeTextFile \<lparr>files = Map.empty, refused = (\<lambda>p. Some ''ENOSPC: no space left on device'')\<rparr>
     ''foo.py'' ''x = 1''
     = Inr (''Error creating the edited file: Error: ENOSPC: no space left on device'',
            \<lparr>files = Map.empty, refused = (\<lambda>p. Some ''ENOSPC: no space left on device'')\<rparr>)
   \<and> fix_writeTextFile \<lparr>files = Map.empty, refused = (\<lambda>p. Some ''ENOSPC: no space left on device'')\<rparr>
     ''foo.py'' ''x = 1''
     = Inr (''Error creating the edited file: Error: ENOSPC: no space left on device'',
            \<lparr>files = Map.empty, refused = (\<lambda>p. Some ''ENOSPC: no space left on device'')\<rparr>)"
  using writeTextFile_never_rejects
    [of "\<lparr>files = Map.empty, refused = (\<lambda>p. Some ''ENOSPC: no space left on device'')\<rparr>"
        "''foo.py''" "''x = 1''"
        "IOError ''ENOSPC: no space left on device''"
        "IOError ''ENOSPC: no space left on device''"]
  by (simp add: writeFile_def)

section \<open>Responses that fail validation\<close>

text \<open>
  C6. In each handler that reads a response of the backend, a response that is not
  JSON, or that the schema of the handler rejects, makes the handler reject with the
  error of the parse, and the state after it is the state the handler was called with.
  The one field that has changed is the counter of the fix command, which the handler of
  the error evaluation event raises before it sends its request: no field of the state
  holds a value of the rejected response.
\<close>

theorem invalid_response_leaves_state:
  "(readTextFile (disk w) path = Inr fc
      \<and> backend (calls w) (edit_generation_request path feat details language fc) = Inr content1
      \<and> parse_response CODE_SCHEMA_parse content1 = Inl e1
      \<longrightarrow> edit_startEvent_handler backend w state path feat details language
          = (Inl e1, w\<lparr>calls := calls w @ [edit_generation_request path feat details language fc]\<rparr>,
             state))
   \<and> (backend (calls w) (edit_judging_request state artifact) = Inr content2
      \<and> parse_response JUDGING_SCHEMA_parse content2 = Inl e2
      \<longrightarrow> edit_generationEvent_handler backend w state artifact
          = (Inl e2, w\<lparr>calls := calls w @ [edit_judging_request state artifact]\<rparr>, state))
   \<and> (readTextFile (disk w) path = Inr fc
      \<and> backend (calls w) (fix_evaluation_request path err details language fc) = Inr content3
      \<and> parse_response ERROR_SCHEMA_parse content3 = Inl e3
      \<longrightarrow> fix_startEvent_handler backend w fstate path err details language
          = (Inl e3, w\<lparr>calls := calls w @ [fix_evaluation_request path err details language fc]\<rparr>,
             fstate))
   \<and> (backend (calls w)
         (fix_generation_request (fstate\<lparr>numIterations := numIterations fstate + 1\<rparr>)
            explanation proposed) = Inr content4
      \<and> parse_response FIX_SCHEMA_parse content4 = Inl e4
      \<longrightarrow> fix_errorEvaluationEvent_handler backend w fstate explanation proposed
          = (Inl e4,
             w\<lparr>calls := calls w @
                  [fix_generation_request (fstate\<lparr>numIterations := numIterations fstate + 1\<rparr>)
                     explanation proposed]\<rparr>,
             fstate\<lparr>numIterations := numIterations fstate + 1\<rparr>))
   \<and> (backend (calls w) (fix_judging_request fstate artifact) = Inr content5
      \<and> parse_response JUDGING_SCHEMA_parse content5 = Inl e5
      \<longrightarrow> fix_generationEvent_handler backend w fstate artifact
          = (Inl e5, w\<lparr>calls := calls w @ [fix_judging_request fstate artifact]\<rparr>, fstate))"
proof -
  have a: "readTextFile (disk w) path = Inr fc
      \<and> backend (calls w) (edit_generation_request path feat details language fc) = Inr content1
      \<and> parse_response CODE_SCHEMA_parse content1 = Inl e1
      \<longrightarrow> edit_startEvent_handler backend w state path feat details language
          = (Inl e1, w\<lparr>calls := calls w @ [edit_generation_request path feat details language fc]\<rparr>,
             state)"
    by (auto simp: edit_startEvent_handler_def chat_def dest!: parse_response_Inl)
  have b: "backend (calls w) (edit_judging_request state artifact) = Inr content2
      \<and> parse_response JUDGING_SCHEMA_parse content2 = Inl e2
      \<longrightarrow> edit_generationEvent_handler backend w state artifact
          = (Inl e2, w\<lparr>calls := calls w @ [edit_judging_request state artifact]\<rparr>, state)"
    by (auto simp: edit_generationEvent_handler_def chat_def dest!: parse_response_Inl)
  have c: "readTextFile (disk w) path = Inr fc
      \<and> backend (calls w) (fix_evaluation_request path err details language fc) = Inr content3
      \<and> parse_response ERROR_SCHEMA_parse content3 = Inl e3
      \<longrightarrow> fix_startEvent_handler backend w fstate path err details language
          = (Inl e3, w\<lparr>calls := calls w @ [fix_evaluation_request path err details language fc]\<rparr>,
             fstate)"
    by (auto simp: fix_startEvent_handler_def chat_def dest!: parse_response_Inl)
  have d: "backend (calls w)
         (fix_generation_request (fstate\<lparr>numIterations := numIterations fstate + 1\<rparr>)
            explanation proposed) = Inr content4
      \<and> parse_response FIX_SCHEMA_parse content4 = Inl e4
      \<longrightarrow> fix_errorEvaluationEvent_handler backend w fstate explanation proposed
          = (Inl e4,
             w\<lparr>calls := calls w @
                  [fix_generation_request (fstate\<lparr>numIterations := numIterations fstate + 1\<rparr>)
                     explanation proposed]\<rparr>,
             fstate\<lparr>numIterations := numIterations fstate + 1\<rparr>)"
    by (auto simp: fix_errorEvaluationEvent_handler_def chat_def Let_def dest!: parse_response_Inl)
  have e: "backend (calls w) (fix_judging_request fstate artifact) = Inr content5
      \<and> parse_response JUDGING_SCHEMA_parse content5 = Inl e5
      \<longrightarrow> fix_generationEvent_handler backend w fstate artifact
          = (Inl e5, w\<lparr>calls := calls w @ [fix_judging_request fstate artifact]\<rparr>, fstate)"
    by (auto simp: fix_generationEvent_handler_def chat_def dest!: parse_response_Inl)
  from a b c d e show ?thesis by (intro conjI)
qed

theorem invalid_response_leaves_state_witness:
  "edit_startEvent_handler wrong_types sample_world edit_initial
      ''foo.py'' ''double x'' ''use a loop'' ''python''
     = (Inl (ZodError [ZodIssue [''code_content''] ''Expected string, received number'']),
        sample_world\<lparr>calls := [edit_generation_request ''foo.py'' ''double x'' ''use a loop''
                                  ''python'' ''x = 1'']\<rparr>,
        edit_initial)
   \<and> snd (snd (edit_generationEvent_handler wrong_types sample_world edit_initial ''x = 2''))
     = edit_initial
   \<and> snd (snd (fix_startEvent_handler wrong_types sample_world fix_initial
                  ''foo.py'' ''NameError'' ''use a loop'' ''python''))
     = fix_initial
   \<and> snd (snd (fix_errorEvaluationEvent_handler wrong_types sample_world fix_initial
                  ''x is unset'' ''set x''))
     = fix_initial\<lparr>numIterations := 1\<rparr>
   \<and> fst (fix_generationEvent_handler wrong_types sample_world fix_initial ''x = 2'')
     = Inl (ZodError [ZodIssue [''pass''] ''Expected boolean, received string'',
                      ZodIssue [''feedback''] ''Required''])"
  using invalid_response_leaves_state
    [where backend = wrong_types and w = sample_world
       and path = "''foo.py''" and feat = "''double x''" and details = "''use a loop''"
       and language = "''python''" and fc = "''x = 1''" and state = edit_initial
       and artifact = "''x = 2''"
       and ?content1.0 = "JSON (JObject [(''code_content'', JNumber ''42'')])"
       and ?e1.0 = "ZodError [ZodIssue [''code_content''] ''Expected string, received number'']"
       and ?content2.0 = "JSON (JObject [(''pass'', JString ''yes'')])"
       and ?e2.0 = "ZodError [ZodIssue [''pass''] ''Expected boolean, received string'',
                              ZodIssue [''feedback''] ''Required'']"
       and ?content3.0 = "JSON (JArray [])"
       and ?e3.0 = "ZodError [ZodIssue [] ''Expected object, received array'']"
       and err = "''NameError''" and fstate = fix_initial
       and explanation = "''x is unset''" and proposed = "''set x''"
       and ?content4.0 = "JSON (JObject [(''fixed_content'', JNull)])"
       and ?e4.0 = "ZodError [ZodIssue [''fixed_content''] ''Expected string, received null'']"
       and ?content5.0 = "JSON (JObject [(''pass'', JString ''yes'')])"
       and ?e5.0 = "ZodError [ZodIssue [''pass''] ''Expected boolean, received string'',
                              ZodIssue [''feedback''] ''Required'']"]
  by (simp add: wrong_types_responses wrong_types_def)

section \<open>What a retry carries\<close>

text \<open>
  C7 as it is stated fails at the first retry. The user asks for the implementation
  detail \<open>use a loop\<close>; the first generation request carries it, and the second
  generation request of the run, made after the judge has failed the first artifact,
  does not carry it any more, neither in the content of the user nor in that of the
  system.
\<close>

theorem user_details_dropped:
  "sublist ''use a loop''
     (user_content (calls (world_of (edit_handler judge_never_passes sample_world
                                       ''python'' ''foo.py'' ''double x'' ''use a loop'')) ! 0))
   \<and> responseFormat
        (calls (world_of (edit_handler judge_never_passes sample_world
                            ''python'' ''foo.py'' ''double x'' ''use a loop'')) ! 2) = CODE_SCHEMA
   \<and> \<not> sublist ''use a loop''
        (user_content (calls (world_of (edit_handler judge_never_passes sample_world
                                          ''python'' ''foo.py'' ''double x'' ''use a loop'')) ! 2))
   \<and> \<not> sublist ''use a loop''
        (system_content (calls (world_of (edit_handler judge_never_passes sample_world
                                          ''python'' ''foo.py'' ''double x'' ''use a loop'')) ! 2))"
  by (simp add: sample_edit_run edit_generation_request_def edit_retry_details_def
        triple_quote_def sublist_code)

lemma carried_here: "sublist x x"
  by simp

lemma carried_first: "sublist x (x @ ss)"
  by simp

lemma carried_later: "sublist x ys \<Longrightarrow> sublist x (ps @ ys)"
  by (auto simp: sublist_def) (metis append.assoc)

lemmas carried = carried_here carried_first carried_later

lemma edit_request_carries:
  "sublist language (user_content (edit_generation_request path feat details language fc))"
  "sublist path (user_content (edit_generation_request path feat details language fc))"
  "sublist feat (user_content (edit_generation_request path feat details language fc))"
  "sublist details (user_content (edit_generation_request path feat details language fc))"
  "sublist fc (user_content (edit_generation_request path feat details language fc))"
  by (simp_all only: edit_generation_request_def chat_request.select_convs append_assoc)
     (rule carried)+

lemma retry_details_carry:
  "sublist artifact (edit_retry_details artifact fb)"
  "sublist fb (edit_retry_details artifact fb)"
  "sublist artifact (fix_retry_details artifact fb)"
  "sublist fb (fix_retry_details artifact fb)"
  by (simp_all only: edit_retry_details_def fix_retry_details_def append_assoc)
     (rule carried)+

lemma fix_request_carries:
  "sublist language (user_content (fix_evaluation_request path err details language fc))"
  "sublist path (user_content (fix_evaluation_request path err details language fc))"
  "sublist err (user_content (fix_evaluation_request path err details language fc))"
  "sublist details (user_content (fix_evaluation_request path err details language fc))"
  "sublist fc (user_content (fix_evaluation_request path err details language fc))"
  by (simp_all only: fix_evaluation_request_def chat_request.select_convs append_assoc)
     (rule carried)+

lemma fix_generation_carries:
  "sublist (codeLanguage fstate)
     (system_content (fix_generation_request fstate explanation proposed))"
  "sublist (filePath fstate) (user_content (fix_generation_request fstate explanation proposed))"
  "sublist (error fstate) (user_content (fix_generation_request fstate explanation proposed))"
  "sublist (errorDetails fstate)
     (user_content (fix_generation_request fstate explanation proposed))"
  "sublist (fileContent fstate)
     (user_content (fix_generation_request fstate explanation proposed))"
  by (simp_all only: fix_generation_request_def chat_request.select_convs append_assoc)
     (rule carried)+

lemma edit_start_overwrites_details:
  "edit_startEvent_handler backend w state path feat details language = (Inr event, w1, state1) \<Longrightarrow>
   edit_startEvent_handler backend w (state\<lparr>implementationDetails := earlier\<rparr>)
       path feat details language
     = (Inr event, w1, state1)"
  by (auto simp: edit_startEvent_handler_def Let_def split: sum.splits prod.splits if_splits)

lemma fix_start_overwrites_details:
  "fix_startEvent_handler backend w fstate path err details language = (Inr event, w1, fstate1) \<Longrightarrow>
   fix_startEvent_handler backend w (fstate\<lparr>errorDetails := earlier\<rparr>)
       path err details language
     = (Inr event, w1, fstate1)"
  by (auto simp: fix_startEvent_handler_def split: sum.splits prod.splits if_splits)

lemma edit_first_request_snoc:
  "edit_first_request fs path feat details language cs \<Longrightarrow> cs \<noteq> [] \<Longrightarrow>
     edit_first_request fs path feat details language (cs @ [request])"
  by (cases cs) (auto simp: edit_first_request_def)

lemma edit_first_request_one:
  "readTextFile fs path = Inr fc \<Longrightarrow>
   edit_first_request fs path feat details language
     [edit_generation_request path feat details language fc]"
  by (auto simp: edit_first_request_def)

lemma edit_told_step:
  assumes "edit_told backend fs path feat details language h cs c"
    and "edit_step backend c = Inr c'"
  shows "edit_told backend fs path feat details language h
           (drop (length h) (calls (config_world c'))) c'"
proof -
  obtain w state iteration seen event where c: "c = (w, state, iteration, seen, event)"
    by (cases c) auto
  show ?thesis
  proof (cases event)
    case (EditStartEvent path' feat' details' language')
    with assms c show ?thesis
      by (auto simp: edit_told_def edit_startEvent_handler_def Let_def chat_def
                     chained_snoc edit_request_follows_def edit_first_request_one
                     edit_first_request_snoc reply_def parse_response_def
               split: sum.splits prod.splits if_splits)
  next
    case (EditGenerationEvent content)
    with assms c show ?thesis
      by (auto simp: edit_told_def edit_generationEvent_handler_def chat_def
                     chained_snoc edit_request_follows_def edit_first_request_snoc
                     reply_def parse_response_def
               split: sum.splits prod.splits if_splits)
  next
    case (EditJudgingEvent passed fb)
    with assms c show ?thesis
      by (auto simp: edit_told_def edit_judgingEvent_handler_def
               split: sum.splits prod.splits if_splits)
  next
    case (EditWritingEvent content)
    with assms c show ?thesis
      by (auto simp: edit_told_def edit_writingEvent_handler_def
               split: sum.splits prod.splits if_splits)
  next
    case (EditResultEvent message)
    with assms c show ?thesis by simp
  qed
qed

lemma edit_told_final:
  assumes "edit_told backend fs path feat details language h cs c"
    and "edit_step backend c = Inl r"
  shows "calls (world_of r) = h @ drop (length h) (calls (world_of r))
         \<and> edit_first_request fs path feat details language (drop (length h) (calls (world_of r)))
         \<and> chained (edit_request_follows backend fs path feat language) h
               (drop (length h) (calls (world_of r)))"
proof -
  obtain w state iteration seen event where c: "c = (w, state, iteration, seen, event)"
    by (cases c) auto
  show ?thesis
  proof (cases event)
    case (EditStartEvent path' feat' details' language')
    with assms c show ?thesis
      by (auto simp: edit_told_def edit_startEvent_handler_def Let_def chat_def
                     chained_snoc edit_request_follows_def edit_first_request_one
                     edit_first_request_snoc reply_def parse_response_def
               split: sum.splits prod.splits if_splits)
  next
    case (EditGenerationEvent content)
    with assms c show ?thesis
      by (auto simp: edit_told_def edit_generationEvent_handler_def chat_def
                     chained_snoc edit_request_follows_def edit_first_request_snoc
                     reply_def parse_response_def
               split: sum.splits prod.splits if_splits)
  next
    case (EditJudgingEvent passed fb)
    with assms c show ?thesis
      by (auto simp: edit_told_def edit_judgingEvent_handler_def
               split: sum.splits prod.splits if_splits)
  next
    case (EditWritingEvent content)
    with assms c show ?thesis
      by (auto simp: edit_told_def edit_writingEvent_handler_def
               split: sum.splits prod.splits if_splits)
  next
    case (EditResultEvent message)
    with assms c show ?thesis by (auto simp: edit_told_def)
  qed
qed

lemma edit_handler_talked:
  "edit_talked backend (disk w) path feat details language (calls w)
     (edit_handler backend w language path feat details)"
  unfolding edit_handler_def edit_runWorkflow_def
proof (rule edit_loop_rule
         [where I = "\<lambda>c. \<exists>cs. edit_told backend (disk w) path feat details language (calls w) cs c"])
  show "\<exists>cs. edit_told backend (disk w) path feat details language (calls w) cs
          (log (log (log w (logger_log (gray (repeat box_line 50))))
             (logger_log (bold (cyan (sparkles @ '' Starting the editing process... Almost ready! ''
                                        @ palette)))))
             (logger_log []),
           edit_initial, 0, [], EditStartEvent path feat details language)"
    by (rule exI [of _ "[]"]) (simp add: edit_told_def edit_first_request_def)
next
  fix c c'
  assume "\<exists>cs. edit_told backend (disk w) path feat details language (calls w) cs c"
    and "edit_step backend c = Inr c'"
  then show "\<exists>cs. edit_told backend (disk w) path feat details language (calls w) cs c'"
    by (blast intro: edit_told_step)
next
  fix c r
  assume "\<exists>cs. edit_told backend (disk w) path feat details language (calls w) cs c"
    and "edit_step backend c = Inl r"
  then obtain cs where "edit_told backend (disk w) path feat details language (calls w) cs c"
    by blast
  from edit_told_final [OF this \<open>edit_step backend c = Inl r\<close>]
  show "edit_talked backend (disk w) path feat details language (calls w) r"
    unfolding edit_talked_def by blast
qed

lemma fix_first_request_snoc:
  "fix_first_request fs path err details language cs \<Longrightarrow> cs \<noteq> [] \<Longrightarrow>
     fix_first_request fs path err details language (cs @ [request])"
  by (cases cs) (auto simp: fix_first_request_def)

lemma fix_first_request_one:
  "readTextFile fs path = Inr fc \<Longrightarrow>
   fix_first_request fs path err details language
     [fix_evaluation_request path err details language fc]"
  by (auto simp: fix_first_request_def)

lemma fix_generation_request_form [simp]:
  "fix_generation_follows (filePath state) (error state) (codeLanguage state) (fileContent state)
     explanation proposed
     (fix_evaluation_request (filePath state) (error state) (errorDetails state)
        (codeLanguage state) (fileContent state))
     (fix_generation_request (state\<lparr>numIterations := n\<rparr>) explanation proposed)"
  unfolding fix_generation_follows_def
  by (rule exI [of _ "state\<lparr>numIterations := n\<rparr>"]) simp

lemma fix_told_step:
  assumes "fix_told backend fs path err details language h cs c"
    and "fix_step backend c = Inr c'"
  shows "fix_told backend fs path err details language h
           (drop (length h) (calls (config_world c'))) c'"
proof -
  obtain w state iteration seen event where c: "c = (w, state, iteration, seen, event)"
    by (cases c) auto
  show ?thesis
  proof (cases event)
    case (FixStartEvent path' err' details' language')
    with assms c show ?thesis
      by (auto simp: fix_told_def fix_startEvent_handler_def chat_def
                     chained_snoc fix_request_follows_def fix_first_request_one
                     fix_first_request_snoc reply_def parse_response_def
               split: sum.splits prod.splits if_splits)
  next
    case (FixErrorEvaluationEvent explanation proposed)
    with assms c show ?thesis
      by (auto simp: fix_told_def fix_errorEvaluationEvent_handler_def Let_def chat_def
                     chained_snoc fix_request_follows_def fix_first_request_snoc
                     reply_def parse_response_def
               split: sum.splits prod.splits if_splits)
  next
    case (FixGenerationEvent content)
    with assms c show ?thesis
      by (auto simp: fix_told_def fix_generationEvent_handler_def chat_def
                     chained_snoc fix_request_follows_def fix_first_request_snoc
                     reply_def parse_response_def
               split: sum.splits prod.splits if_splits)
  next
    case (FixJudgingEvent passed fb)
    with assms c show ?thesis
      by (auto simp: fix_told_def fix_judgingEvent_handler_def
               split: sum.splits prod.splits if_splits)
  next
    case (FixWritingEvent content)
    with assms c show ?thesis
      by (auto simp: fix_told_def fix_writingEvent_handler_def
               split: sum.splits prod.splits if_splits)
  next
    case (FixResultEvent message)
    with assms c show ?thesis by simp
  qed
qed

lemma fix_told_final:
  assumes "fix_told backend fs path err details language h cs c"
    and "fix_step backend c = Inl r"
  shows "calls (world_of r) = h @ drop (length h) (calls (world_of r))
         \<and> fix_first_request fs path err details language (drop (length h) (calls (world_of r)))
         \<and> chained (fix_request_follows backend fs path err language) h
               (drop (length h) (calls (world_of r)))"
proof -
  obtain w state iteration seen event where c: "c = (w, state, iteration, seen, event)"
    by (cases c) auto
  show ?thesis
  proof (cases event)
    case (FixStartEvent path' err' details' language')
    with assms c show ?thesis
      by (auto simp: fix_told_def fix_startEvent_handler_def chat_def
                     chained_snoc fix_request_follows_def fix_first_request_one
                     fix_first_request_snoc reply_def parse_response_def
               split: sum.splits prod.splits if_splits)
  next
    case (FixErrorEvaluationEvent explanation proposed)
    with assms c show ?thesis
      by (auto simp: fix_told_def fix_errorEvaluationEvent_handler_def Let_def chat_def
                     chained_snoc fix_request_follows_def fix_first_request_snoc
                     reply_def parse_response_def
               split: sum.splits prod.splits if_splits)
  next
    case (FixGenerationEvent content)
    with assms c show ?thesis
      by (auto simp: fix_told_def fix_generationEvent_handler_def chat_def
                     chained_snoc fix_request_follows_def fix_first_request_snoc
                     reply_def parse_response_def
               split: sum.splits prod.splits if_splits)
  next
    case (FixJudgingEvent passed fb)
    with assms c show ?thesis
      by (auto simp: fix_told_def fix_judgingEvent_handler_def
               split: sum.splits prod.splits if_splits)
  next
    case (FixWritingEvent content)
    with assms c show ?thesis
      by (auto simp: fix_told_def fix_writingEvent_handler_def
               split: sum.splits prod.splits if_splits)
  next
    case (FixResultEvent message)
    with assms c show ?thesis by (auto simp: fix_told_def)
  qed
qed

lemma fix_handler_talked:
  "fix_talked backend (disk w) path err details language (calls w)
     (fix_handler backend w language path err details)"
  unfolding fix_handler_def fix_runWorkflow_def
proof (rule fix_loop_rule
         [where I = "\<lambda>c. \<exists>cs. fix_told backend (disk w) path err details language (calls w) cs c"])
  show "\<exists>cs. fix_told backend (disk w) path err details language (calls w) cs
          (log (log (log w (logger_log (gray (repeat box_line 50))))
             (logger_log (bold (cyan (sparkles @ '' Starting the debugging process... Let''
                                        @ [CHR 0x27] @ ''s squash those bugs! ''
                                        @ bug @ collision)))))
             (logger_log []),
           fix_initial, 0, [], FixStartEvent path err details language)"
    by (rule exI [of _ "[]"]) (simp add: fix_told_def fix_first_request_def)
next
  fix c c'
  assume "\<exists>cs. fix_told backend (disk w) path err details language (calls w) cs c"
    and "fix_step backend c = Inr c'"
  then show "\<exists>cs. fix_told backend (disk w) path err details language (calls w) cs c'"
    by (blast intro: fix_told_step)
next
  fix c r
  assume "\<exists>cs. fix_told backend (disk w) path err details language (calls w) cs c"
    and "fix_step backend c = Inl r"
  then obtain cs where "fix_told backend (disk w) path err details language (calls w) cs c"
    by blast
  from fix_told_final [OF this \<open>fix_step backend c = Inl r\<close>]
  show "fix_talked backend (disk w) path err details language (calls w) r"
    unfolding fix_talked_def by blast
qed

text \<open>
  C7, amended. The turn of the loop on a start event builds its request from the path,
  the feature (edit) or error (fix), the details and the language of the event and from
  the content of the file, whatever the state holds, and it overwrites the details of
  the state with those of the event: the start handler gives the same result from a state
  that held any other details. The turn on a verdict that is not pass yields the start
  event with the path, the feature or error and the language of the state and, as its
  details, the retry details made of the generated content and of the feedback of that
  verdict. So in every run, for every backend, the requests are chained: the first is
  the request with the details of the user, and every later generation request (edit)
  or evaluation request (fix) is the request for the same path, feature or error,
  language and content of the file whose details are the retry details made of the
  content just submitted to the judge and of the feedback with which the backend
  answered that submission; the generation request of the fix command is built from the
  state that holds the details of the evaluation request before it. Each of these
  requests contains its language, path, feature or error, details and content of the
  file, and the retry details contain the artifact and the feedback.
\<close>

theorem retry_carries_last_round_only:
  "(edit_step backend (w, state, iteration, seen, EditStartEvent path feat details language) = Inr c1
      \<longrightarrow> (\<exists>fc. readTextFile (disk w) path = Inr fc
              \<and> calls (config_world c1)
                  = calls w @ [edit_generation_request path feat details language fc]
              \<and> filePath (config_state c1) = path
              \<and> codeLanguage (config_state c1) = language
              \<and> feature (config_state c1) = feat
              \<and> implementationDetails (config_state c1) = details))
   \<and> (edit_startEvent_handler backend w state path feat details language = (Inr event, w1, state1)
      \<longrightarrow> edit_startEvent_handler backend w (state\<lparr>implementationDetails := earlier\<rparr>)
              path feat details language
            = (Inr event, w1, state1))
   \<and> (\<exists>c3. edit_step backend (w, state, iteration, seen, EditJudgingEvent False fb) = Inr c3
         \<and> calls (config_world c3) = calls w
         \<and> config_state c3 = state
         \<and> config_event c3
             = EditStartEvent (filePath state) (feature state)
                 (edit_retry_details (generatedContent state) fb) (codeLanguage state))
   \<and> (\<exists>cs. calls (world_of (edit_handler backend w language path feat details)) = calls w @ cs
         \<and> edit_first_request (disk w) path feat details language cs
         \<and> chained (edit_request_follows backend (disk w) path feat language) (calls w) cs)
   \<and> sublist language (user_content (edit_generation_request path feat details language fc))
   \<and> sublist path (user_content (edit_generation_request path feat details language fc))
   \<and> sublist feat (user_content (edit_generation_request path feat details language fc))
   \<and> sublist details (user_content (edit_generation_request path feat details language fc))
   \<and> sublist fc (user_content (edit_generation_request path feat details language fc))
   \<and> sublist artifact (edit_retry_details artifact fb)
   \<and> sublist fb (edit_retry_details artifact fb)
   \<and> (fix_step backend (w, fstate, iteration, fseen, FixStartEvent path err fdetails language) = Inr d1
      \<longrightarrow> (\<exists>fc. readTextFile (disk w) path = Inr fc
              \<and> calls (config_world d1)
                  = calls w @ [fix_evaluation_request path err fdetails language fc]
              \<and> filePath (config_state d1) = path
              \<and> codeLanguage (config_state d1) = language
              \<and> error (config_state d1) = err
              \<and> errorDetails (config_state d1) = fdetails
              \<and> fileContent (config_state d1) = fc))
   \<and> (fix_startEvent_handler backend w fstate path err fdetails language = (Inr fevent, w2, fstate1)
      \<longrightarrow> fix_startEvent_handler backend w (fstate\<lparr>errorDetails := earlier\<rparr>)
              path err fdetails language
            = (Inr fevent, w2, fstate1))
   \<and> (fix_step backend (w, fstate, iteration, fseen, FixErrorEvaluationEvent explanation proposed)
         = Inr d2
      \<longrightarrow> calls (config_world d2)
            = calls w @ [fix_generation_request
                           (fstate\<lparr>numIterations := numIterations fstate + 1\<rparr>)
                           explanation proposed]
          \<and> filePath (config_state d2) = filePath fstate
          \<and> codeLanguage (config_state d2) = codeLanguage fstate
          \<and> error (config_state d2) = error fstate
          \<and> errorDetails (config_state d2) = errorDetails fstate
          \<and> fileContent (config_state d2) = fileContent fstate)
   \<and> (\<exists>d4. fix_step backend (w, fstate, iteration, fseen, FixJudgingEvent False fb) = Inr d4
         \<and> calls (config_world d4) = calls w
         \<and> config_state d4 = fstate
         \<and> config_event d4
             = FixStartEvent (filePath fstate) (error fstate)
                 (fix_retry_details (generatedContent fstate) fb) (codeLanguage fstate))
   \<and> (\<exists>cs. calls (world_of (fix_handler backend w language path err fdetails)) = calls w @ cs
         \<and> fix_first_request (disk w) path err fdetails language cs
         \<and> chained (fix_request_follows backend (disk w) path err language) (calls w) cs)
   \<and> sublist language (user_content (fix_evaluation_request path err fdetails language fc))
   \<and> sublist path (user_content (fix_evaluation_request path err fdetails language fc))
   \<and> sublist err (user_content (fix_evaluation_request path err fdetails language fc))
   \<and> sublist fdetails (user_content (fix_evaluation_request path err fdetails language fc))
   \<and> sublist fc (user_content (fix_evaluation_request path err fdetails language fc))
   \<and> sublist (codeLanguage fstate)
        (system_content (fix_generation_request fstate explanation proposed))
   \<and> sublist (filePath fstate) (user_content (fix_generation_request fstate explanation proposed))
   \<and> sublist (error fstate) (user_content (fix_generation_request fstate explanation proposed))
   \<and> sublist (errorDetails fstate)
        (user_content (fix_generation_request fstate explanation proposed))
   \<and> sublist (fileContent fstate)
        (user_content (fix_generation_request fstate explanation proposed))
   \<and> sublist artifact (fix_retry_details artifact fb)
   \<and> sublist fb (fix_retry_details artifact fb)"
proof -
  have e1: "\<exists>fc. readTextFile (disk w) path = Inr fc
              \<and> calls (config_world c1)
                  = calls w @ [edit_generation_request path feat details language fc]
              \<and> filePath (config_state c1) = path
              \<and> codeLanguage (config_state c1) = language
              \<and> feature (config_state c1) = feat
              \<and> implementationDetails (config_state c1) = details"
    if "edit_step backend (w, state, iteration, seen, EditStartEvent path feat details language)
          = Inr c1"
    using edit_step_start [OF that] by auto
  have e2: "edit_startEvent_handler backend w state path feat details language
              = (Inr event, w1, state1)
      \<longrightarrow> edit_startEvent_handler backend w (state\<lparr>implementationDetails := earlier\<rparr>)
              path feat details language
            = (Inr event, w1, state1)"
    by (rule impI) (rule edit_start_overwrites_details)
  have e3: "\<exists>c3. edit_step backend (w, state, iteration, seen, EditJudgingEvent False fb) = Inr c3
         \<and> calls (config_world c3) = calls w
         \<and> config_state c3 = state
         \<and> config_event c3
             = EditStartEvent (filePath state) (feature state)
                 (edit_retry_details (generatedContent state) fb) (codeLanguage state)"
    using edit_step_judging [of backend w state iteration seen False fb] by auto
  have e4: "\<exists>cs. calls (world_of (edit_handler backend w language path feat details)) = calls w @ cs
         \<and> edit_first_request (disk w) path feat details language cs
         \<and> chained (edit_request_follows backend (disk w) path feat language) (calls w) cs"
    using edit_handler_talked [of backend w path feat details language]
    by (simp add: edit_talked_def)
  note e5 = edit_request_carries
              [where language = language and path = path and feat = feat and details = details
                 and fc = fc]
  note e6 = retry_details_carry [where artifact = artifact and fb = fb]
  have f1: "\<exists>fc. readTextFile (disk w) path = Inr fc
              \<and> calls (config_world d1)
                  = calls w @ [fix_evaluation_request path err fdetails language fc]
              \<and> filePath (config_state d1) = path
              \<and> codeLanguage (config_state d1) = language
              \<and> error (config_state d1) = err
              \<and> errorDetails (config_state d1) = fdetails
              \<and> fileContent (config_state d1) = fc"
    if "fix_step backend (w, fstate, iteration, fseen, FixStartEvent path err fdetails language)
          = Inr d1"
    using fix_step_start [OF that] by auto
  have f2: "fix_startEvent_handler backend w fstate path err fdetails language
              = (Inr fevent, w2, fstate1)
      \<longrightarrow> fix_startEvent_handler backend w (fstate\<lparr>errorDetails := earlier\<rparr>)
              path err fdetails language
            = (Inr fevent, w2, fstate1)"
    by (rule impI) (rule fix_start_overwrites_details)
  have f3: "calls (config_world d2)
            = calls w @ [fix_generation_request
                           (fstate\<lparr>numIterations := numIterations fstate + 1\<rparr>)
                           explanation proposed]
          \<and> filePath (config_state d2) = filePath fstate
          \<and> codeLanguage (config_state d2) = codeLanguage fstate
          \<and> error (config_state d2) = error fstate
          \<and> errorDetails (config_state d2) = errorDetails fstate
          \<and> fileContent (config_state d2) = fileContent fstate"
    if "fix_step backend
          (w, fstate, iteration, fseen, FixErrorEvaluationEvent explanation proposed) = Inr d2"
    using fix_step_errorEvaluation [OF that] by auto
  have f4: "\<exists>d4. fix_step backend (w, fstate, iteration, fseen, FixJudgingEvent False fb) = Inr d4
         \<and> calls (config_world d4) = calls w
         \<and> config_state d4 = fstate
         \<and> config_event d4
             = FixStartEvent (filePath fstate) (error fstate)
                 (fix_retry_details (generatedContent fstate) fb) (codeLanguage fstate)"
    using fix_step_judging [of backend w fstate iteration fseen False fb] by auto
  have f5: "\<exists>cs. calls (world_of (fix_handler backend w language path err fdetails)) = calls w @ cs
         \<and> fix_first_request (disk w) path err fdetails language cs
         \<and> chained (fix_request_follows backend (disk w) path err language) (calls w) cs"
    using fix_handler_talked [of backend w path err fdetails language]
    by (simp add: fix_talked_def)
  note f6 = fix_request_carries
              [where language = language and path = path and err = err and details = fdetails
                 and fc = fc]
  note f7 = fix_generation_carries
              [where fstate = fstate and explanation = explanation and proposed = proposed]
  from impI [OF e1] e2 e3 e4 e5 e6(1,2) impI [OF f1] f2 impI [OF f3] f4 f5
    f6 f7 e6(3,4)
  show ?thesis
    by (intro conjI)
qed

theorem retry_carries_last_round_only_witness:
  "calls (config_world (projr (edit_step judge_never_passes
      (sample_world, edit_last_round, 0, [],
       EditStartEvent ''foo.py'' ''double x'' ''use a loop'' ''python''))))
     = [edit_generation_request ''foo.py'' ''double x'' ''use a loop'' ''python'' ''x = 1'']
   \<and> implementationDetails (config_state (projr (edit_step judge_never_passes
        (sample_world, edit_last_round, 0, [],
         EditStartEvent ''foo.py'' ''double x'' ''use a loop'' ''python''))))
     = ''use a loop''
   \<and> edit_startEvent_handler judge_never_passes sample_world
        (edit_last_round\<lparr>implementationDetails := ''be quick''\<rparr>)
        ''foo.py'' ''double x'' ''use a loop'' ''python''
     = edit_startEvent_handler judge_never_passes sample_world edit_last_round
        ''foo.py'' ''double x'' ''use a loop'' ''python''
   \<and> calls (world_of (edit_handler judge_never_passes sample_world
                         ''python'' ''foo.py'' ''double x'' ''use a loop'')) ! 2
     = edit_generation_request ''foo.py'' ''double x''
         (edit_retry_details ''x = 2'' ''too slow'') ''python'' ''x = 1''
   \<and> calls (config_world (projr (fix_step judge_never_passes
        (sample_world, fix_last_round, 0, [],
         FixStartEvent ''foo.py'' ''NameError'' ''line 1'' ''python''))))
     = [fix_evaluation_request ''foo.py'' ''NameError'' ''line 1'' ''python'' ''x = 1'']
   \<and> errorDetails (config_state (projr (fix_step judge_never_passes
        (sample_world, fix_last_round, 0, [],
         FixStartEvent ''foo.py'' ''NameError'' ''line 1'' ''python''))))
     = ''line 1''
   \<and> fix_startEvent_handler judge_never_passes sample_world
        (fix_last_round\<lparr>errorDetails := ''be quick''\<rparr>)
        ''foo.py'' ''NameError'' ''line 1'' ''python''
     = fix_startEvent_handler judge_never_passes sample_world fix_last_round
        ''foo.py'' ''NameError'' ''line 1'' ''python''
   \<and> calls (config_world (projr (fix_step judge_never_passes
        (sample_world, fix_last_round, 0, [],
         FixErrorEvaluationEvent ''x is unset'' ''set x''))))
     = [fix_generation_request (fix_last_round\<lparr>numIterations := 4\<rparr>)
          ''x is unset'' ''set x'']
   \<and> calls (world_of (fix_handler judge_never_passes sample_world
                         ''python'' ''foo.py'' ''NameError'' ''line 1'')) ! 3
     = fix_evaluation_request ''foo.py'' ''NameError''
         (fix_retry_details ''x = 2'' ''too slow'') ''python'' ''x = 1''"
proof -
  note T = retry_carries_last_round_only
    [where backend = judge_never_passes and w = sample_world and state = edit_last_round
       and iteration = 0 and seen = "[]"
       and path = "''foo.py''" and feat = "''double x''" and details = "''use a loop''"
       and language = "''python''"
       and ?c1.0 = "projr (edit_step judge_never_passes
                      (sample_world, edit_last_round, 0, [],
                       EditStartEvent ''foo.py'' ''double x'' ''use a loop'' ''python''))"
       and event = "EditWritingEvent ''x = 2''"
       and ?w1.0 = "fst (snd (edit_startEvent_handler judge_never_passes sample_world
                      edit_last_round ''foo.py'' ''double x'' ''use a loop'' ''python''))"
       and ?state1.0 = "snd (snd (edit_startEvent_handler judge_never_passes sample_world
                      edit_last_round ''foo.py'' ''double x'' ''use a loop'' ''python''))"
       and earlier = "''be quick''" and fb = "''too slow''" and fc = "''x = 1''"
       and artifact = "''x = 2''"
       and fstate = fix_last_round and fseen = "[]" and err = "''NameError''"
       and fdetails = "''line 1''"
       and ?d1.0 = "projr (fix_step judge_never_passes
                      (sample_world, fix_last_round, 0, [],
                       FixStartEvent ''foo.py'' ''NameError'' ''line 1'' ''python''))"
       and fevent = "FixErrorEvaluationEvent ''x is unset'' ''set x''"
       and ?w2.0 = "fst (snd (fix_startEvent_handler judge_never_passes sample_world
                      fix_last_round ''foo.py'' ''NameError'' ''line 1'' ''python''))"
       and ?fstate1.0 = "snd (snd (fix_startEvent_handler judge_never_passes sample_world
                      fix_last_round ''foo.py'' ''NameError'' ''line 1'' ''python''))"
       and explanation = "''x is unset''" and proposed = "''set x''"
       and ?d2.0 = "projr (fix_step judge_never_passes
                      (sample_world, fix_last_round, 0, [],
                       FixErrorEvaluationEvent ''x is unset'' ''set x''))"]
  show ?thesis
    using T
    by (simp add: sample_edit_run sample_fix_run
          edit_startEvent_handler_def fix_startEvent_handler_def
          fix_errorEvaluationEvent_handler_def chat_def Let_def
          CODE_SCHEMA_parse_def ERROR_SCHEMA_parse_def FIX_SCHEMA_parse_def
          judge_never_passes_def edit_last_round_def fix_last_round_def parse_response_def)
qed

section \<open>Schema failures and the log\<close>

text \<open>
  In the explain command a response that the schema rejects is logged, one line for
  each issue after a heading, and the command completes.
\<close>

lemma explain_logs_each_issue:
  assumes "parse_response SCHEMA_parse content = Inl (ZodError issues)"
  shows "parseAndRenderAnalysis w content
           = Inr (foldl log (log w (logger_error (red (cross_mark @ '' Schema validation failed:''))))
                    (map issue_line issues))"
  using assms
  by (auto simp: parseAndRenderAnalysis_def parseAndRender_body_def try_catch_def
                 parse_response_def
           split: sum.splits message_content.splits)

lemma explain_sample:
  "explain_handler wrong_types sample_world ''python'' ''beginner'' ''foo.py'' ''what is x''
   = (Completed,
      sample_world
        \<lparr>calls := [explain_request ''python'' ''foo.py'' ''beginner'' ''what is x'' ''x = 1''],
         logs := [logger_log (gray (repeat box_line 50)),
                  logger_log (bold (cyan ''Hang on, I will provide you with the explanation soon...'')),
                  logger_log [],
                  logger_error (red (cross_mark @ '' Schema validation failed:'')),
                  logger_error (red ''  - focal_points.1: Expected string, received number''),
                  logger_error (red ''  - core_concepts_to_learn: Required''),
                  logger_error (red ''  - extra_information: Expected string, received boolean'')]\<rparr>)"
  by (simp add: explain_handler_def explainCode_def chat_def wrong_types_def
        parseAndRenderAnalysis_def parseAndRender_body_def try_catch_def SCHEMA_parse_def
        invalid_type_def issue_line_def dot_def log_def sample_world_def
        readTextFile_def readFile_def)

text \<open>
  C8, in the edit and the fix command. The backend answers the first request with JSON
  that the schema rejects. The run of either command ends there, rejected with the
  \<open>ZodError\<close> of the parse: the log holds the five lines written before the
  response arrived and no line about the failure or its fields, unlike the log of the
  explain command above.
\<close>

theorem schema_failure_not_logged:
  "outcome_of (edit_handler wrong_types sample_world ''python'' ''foo.py'' ''double x'' ''use a loop'')
     = Rejected (ZodError [ZodIssue [''code_content''] ''Expected string, received number''])
   \<and> logs (world_of (edit_handler wrong_types sample_world
                       ''python'' ''foo.py'' ''double x'' ''use a loop''))
     = [logger_log (gray (repeat box_line 50)),
        logger_log (bold (cyan (sparkles @ '' Starting the editing process... Almost ready! ''
                                  @ palette))),
        logger_log [],
        logger_log (''Started round '' @ green (bold ''1'') @ '' of editing'' @ writing_hand),
        logger_log []]
   \<and> outcome_of (fix_handler wrong_types sample_world ''python'' ''foo.py'' ''NameError'' ''line 1'')
     = Rejected (ZodError [ZodIssue [] ''Expected object, received array''])
   \<and> logs (world_of (fix_handler wrong_types sample_world
                       ''python'' ''foo.py'' ''NameError'' ''line 1''))
     = [logger_log (gray (repeat box_line 50)),
        logger_log (bold (cyan (sparkles @ '' Starting the debugging process... Let''
                                  @ [CHR 0x27] @ ''s squash those bugs! '' @ bug @ collision))),
        logger_log [],
        logger_log (''Started round '' @ magenta (bold ''1'') @ '' of editing'' @ writing_hand),
        logger_log []]"
  by (simp add: edit_handler_def edit_runWorkflow_def edit_loop_stop edit_loop_continue
        edit_startEvent_handler_def fix_handler_def fix_runWorkflow_def fix_loop_stop
        fix_loop_continue fix_startEvent_handler_def chat_def wrong_types_def
        CODE_SCHEMA_parse_def ERROR_SCHEMA_parse_def invalid_type_def)

section \<open>The original file\<close>

text \<open>
  C9. For every path, the output path of the writer differs from the input path, in the
  edit and in the fix command, and the content stored at the input path is the same after
  the writer has run as before. The same holds of a whole run of either command, whatever
  the backend answers.
\<close>

theorem original_file_untouched:
  "flPath ''_edited.'' path \<noteq> path
   \<and> flPath ''_fixed.'' path \<noteq> path
   \<and> (\<exists>msg fs'. edit_writeTextFile fs path content = Inr (msg, fs')
                \<and> files fs' path = files fs path)
   \<and> (\<exists>msg fs'. fix_writeTextFile fs path content = Inr (msg, fs')
                \<and> files fs' path = files fs path)
   \<and> files (disk (world_of (edit_handler backend w language path feat details))) path
       = files (disk w) path
   \<and> files (disk (world_of (fix_handler backend w language path err details))) path
       = files (disk w) path"
proof -
  have e: "flPath ''_edited.'' path \<noteq> path"
    by (rule flPath_differs) simp
  have f: "flPath ''_fixed.'' path \<noteq> path"
    by (rule flPath_differs) simp
  from e have we: "\<exists>msg fs'. edit_writeTextFile fs path content = Inr (msg, fs')
                 \<and> files fs' path = files fs path"
    by (simp add: edit_writeTextFile_eq split: option.splits)
  from f have wf: "\<exists>msg fs'. fix_writeTextFile fs path content = Inr (msg, fs')
                 \<and> files fs' path = files fs path"
    by (simp add: fix_writeTextFile_eq split: option.splits)
  from e f we wf edit_run_keeps_original [of backend w language path feat details]
    fix_run_keeps_original [of backend w language path err details]
  show ?thesis by (intro conjI)
qed

section \<open>Failures of the read\<close>

text \<open>
  C10. When \<open>readFile\<close> fails on the path, \<open>readTextFile\<close> fails with the same
  error and nothing catches it: the start handlers of the edit and the fix command and
  \<open>explainCode\<close> reject with it, leaving world and state as they were, and each of the
  three command handlers ends rejected with that error, before any request to the backend.
\<close>

theorem read_failure_propagates:
  "readFile (disk w) path = Inl e \<longrightarrow>
     readTextFile (disk w) path = Inl (IO e)
     \<and> edit_startEvent_handler backend w state path feat details language = (Inl (IO e), w, state)
     \<and> fix_startEvent_handler backend w fstate path err details language = (Inl (IO e), w, fstate)
     \<and> explainCode backend w language path level problem = (Inl (IO e), w)
     \<and> outcome_of (edit_handler backend w language path feat details) = Rejected (IO e)
     \<and> outcome_of (fix_handler backend w language path err details) = Rejected (IO e)
     \<and> fst (explain_handler backend w language level path problem) = Rejected (IO e)
     \<and> calls (world_of (edit_handler backend w language path feat details)) = calls w
     \<and> calls (world_of (fix_handler backend w language path err details)) = calls w
     \<and> calls (snd (explain_handler backend w language level path problem)) = calls w"
  by (simp add: readTextFile_def edit_startEvent_handler_def fix_startEvent_handler_def
        explainCode_def explain_handler_def
        edit_handler_def edit_runWorkflow_def edit_loop_stop
        fix_handler_def fix_runWorkflow_def fix_loop_stop)

theorem read_failure_propagates_witness:
  "outcome_of (edit_handler judge_never_passes empty_world ''python'' ''foo.py'' ''double x'' ''use a loop'')
     = Rejected (IO (IOError (''ENOENT: no such file or directory, open ''
                               @ [CHR 0x27] @ ''foo.py'' @ [CHR 0x27])))
   \<and> outcome_of (fix_handler judge_never_passes empty_world ''python'' ''foo.py'' ''NameError'' ''use a loop'')
     = Rejected (IO (IOError (''ENOENT: no such file or directory, open ''
                               @ [CHR 0x27] @ ''foo.py'' @ [CHR 0x27])))
   \<and> fst (explain_handler judge_never_passes empty_world ''python'' ''beginner'' ''foo.py'' ''what is x'')
     = Rejected (IO (IOError (''ENOENT: no such file or directory, open ''
                               @ [CHR 0x27] @ ''foo.py'' @ [CHR 0x27])))"
  using read_failure_propagates
    [of empty_world "''foo.py''"
        "IOError (''ENOENT: no such file or directory, open '' @ [CHR 0x27] @ ''foo.py'' @ [CHR 0x27])"
        judge_never_passes _ "''double x''" "''use a loop''" "''python''" _ "''NameError''"
        "''beginner''" "''what is x''"]
  by (simp add: readFile_def empty_world_def)

end
